theory Spec2Isabelle
  imports Complex_Main "HOL-Library.AList"
begin

section \<open>JavaScript values\<close>

text \<open>
  Strings are lists of characters; a character stands for one code unit of the
  JavaScript string. Numbers are the finite numbers (no \<open>NaN\<close>, no
  \<open>Infinity\<close>); times in milliseconds are integers. \<open>undefined\<close> is
  \<open>None\<close> of an option type.

  A \<open>json\<close> value is what \<open>JSON.parse\<close> returns and what the client returns
  to its caller; an object is the list of its keys and values. \<open>JSON.parse\<close>
  itself is a built-in of the runtime: the functions that call it take it as the
  parameter \<open>parse\<close>, with \<open>None\<close> when it throws a SyntaxError.
\<close>

datatype json =
    JNull
  | JBool bool
  | JNum real
  | JStr string
  | JArr "json list"
  | JObj "(string \<times> json) list"

text \<open>
  A thrown error: \<open>new Error(v)\<close> is \<open>Error v\<close>, with \<open>v\<close> the argument of
  the constructor; \<open>TypeError\<close> is an error the runtime throws itself.
\<close>

datatype js_error = Error "json option" | TypeError

fun truthy :: "json \<Rightarrow> bool" where
  "truthy JNull = False"
| "truthy (JBool b) = b"
| "truthy (JNum x) = (x \<noteq> 0)"
| "truthy (JStr s) = (s \<noteq> [])"
| "truthy (JArr xs) = True"
| "truthy (JObj kvs) = True"

text \<open>Truthiness of a value that may be \<open>undefined\<close>.\<close>

fun truthy_opt :: "json option \<Rightarrow> bool" where
  "truthy_opt None = False"
| "truthy_opt (Some v) = truthy v"

text \<open>\<open>!s\<close> for an optional string: \<open>undefined\<close> and the empty string are falsy.\<close>

fun falsy_str :: "string option \<Rightarrow> bool" where
  "falsy_str None = True"
| "falsy_str (Some s) = (s = [])"

text \<open>
  \<open>v.key\<close> on a value that is not \<open>null\<close>: the member of an object, and
  \<open>undefined\<close> on every other value. (On \<open>null\<close> the access throws a
  TypeError; the callers below test for \<open>null\<close> before they use \<open>js_prop\<close>.)
\<close>

fun js_prop :: "json \<Rightarrow> string \<Rightarrow> json option" where
  "js_prop (JObj kvs) k = map_of kvs k"
| "js_prop v k = None"

text \<open>\<open>v?.key\<close> on a value that may be \<open>undefined\<close> or \<open>null\<close>.\<close>

fun js_opt_prop :: "json option \<Rightarrow> string \<Rightarrow> json option" where
  "js_opt_prop None k = None"
| "js_opt_prop (Some JNull) k = None"
| "js_opt_prop (Some v) k = js_prop v k"

text \<open>\<open>v[0]\<close> on a truthy value.\<close>

fun index0 :: "json \<Rightarrow> json option" where
  "index0 (JArr []) = None"
| "index0 (JArr (x # xs)) = Some x"
| "index0 (JStr []) = None"
| "index0 (JStr (c # cs)) = Some (JStr [c])"
| "index0 (JObj kvs) = map_of kvs ''0''"
| "index0 v = None"

text \<open>\<open>a || b\<close> where \<open>a\<close> may be \<open>undefined\<close>.\<close>

definition or_else :: "json option \<Rightarrow> json \<Rightarrow> json" where
  "or_else a b = (case a of None \<Rightarrow> b | Some v \<Rightarrow> if truthy v then v else b)"

text \<open>
  String concatenation \<open>s + v\<close> converts \<open>v\<close> to a string. The conversion of a
  number is a built-in of the runtime, the parameter \<open>num_str\<close>.
\<close>

fun join_with :: "string \<Rightarrow> string list \<Rightarrow> string" where
  "join_with sep [] = []"
| "join_with sep [s] = s"
| "join_with sep (s # t # ss) = s @ sep @ join_with sep (t # ss)"

fun ToString :: "(real \<Rightarrow> string) \<Rightarrow> json \<Rightarrow> string" where
  "ToString num_str JNull = ''null''"
| "ToString num_str (JBool b) = (if b then ''true'' else ''false'')"
| "ToString num_str (JNum x) = num_str x"
| "ToString num_str (JStr s) = s"
| "ToString num_str (JArr xs) =
     join_with '','' (map (\<lambda>x. if x = JNull then [] else ToString num_str x) xs)"
| "ToString num_str (JObj kvs) = ''[object Object]''"

text \<open>
  An object literal whose values may be \<open>undefined\<close>: reading such a member
  gives \<open>undefined\<close>, as reading a missing one does.
\<close>

fun defined_fields :: "(string \<times> json option) list \<Rightarrow> (string \<times> json) list" where
  "defined_fields [] = []"
| "defined_fields ((k, None) # fs) = defined_fields fs"
| "defined_fields ((k, Some v) # fs) = (k, v) # defined_fields fs"

definition object :: "(string \<times> json option) list \<Rightarrow> json" where
  "object fs = JObj (defined_fields fs)"

text \<open>The decimal digits of a number, for template strings.\<close>

fun nat_str :: "nat \<Rightarrow> string" where
  "nat_str n = (if n < 10 then [char_of (48 + n)]
                else nat_str (n div 10) @ [char_of (48 + n mod 10)])"

declare nat_str.simps [simp del]

text \<open>
  The own enumerable members that \<open>{...v}\<close> copies: the members of an object,
  the indexed elements of an array or a string, nothing for the other values.
\<close>

fun own_entries :: "json \<Rightarrow> (string \<times> json) list" where
  "own_entries (JObj kvs) = kvs"
| "own_entries (JArr xs) = zip (map nat_str [0..<length xs]) xs"
| "own_entries (JStr s) = zip (map nat_str [0..<length s]) (map (\<lambda>c. JStr [c]) s)"
| "own_entries v = []"

text \<open>\<open>{ success: true, ...v }\<close>: the members of \<open>v\<close> override \<open>success\<close>.\<close>

definition success_with :: "json \<Rightarrow> json" where
  "success_with v = JObj (AList.merge [(''success'', JBool True)] (own_entries v))"

section \<open>The client and its constructor\<close>

record Valyu =
  baseUrl :: string
  headers :: "(string \<times> string) list"

text \<open>
  \<open>constructor(apiKey?, baseUrl = "https://api.valyu.ai/v1")\<close>; the process
  environment is a map from variable names to values.
\<close>

definition Valyu_constructor ::
  "(string \<rightharpoonup> string) \<Rightarrow> string option \<Rightarrow> string option \<Rightarrow> js_error + Valyu" where
  "Valyu_constructor env apiKey baseUrlArg =
     (let apiKey1 = (if falsy_str apiKey then env ''VALYU_API_KEY'' else apiKey) in
      if falsy_str apiKey \<and> falsy_str apiKey1
      then Inl (Error (Some (JStr ''VALYU_API_KEY is not set'')))
      else (case apiKey1 of
              None \<Rightarrow> Inl (Error (Some (JStr ''VALYU_API_KEY is not set'')))
            | Some k \<Rightarrow>
                Inr \<lparr> baseUrl = (case baseUrlArg of None \<Rightarrow> ''https://api.valyu.ai/v1'' | Some b \<Rightarrow> b),
                      headers = [(''Content-Type'', ''application/json''), (''x-api-key'', k)] \<rparr>))"

text \<open>The key a construction resolves to: the argument when truthy, else the variable.\<close>

definition resolved_key :: "(string \<rightharpoonup> string) \<Rightarrow> string option \<Rightarrow> string option" where
  "resolved_key env apiKey = (if falsy_str apiKey then env ''VALYU_API_KEY'' else apiKey)"

section \<open>Requests and their outcomes\<close>

text \<open>
  An exception caught by a \<open>catch (e: any)\<close>: \<open>e.message\<close> and
  \<open>e.response?.data?.error\<close> (\<open>None\<close> when a link of the chain is missing).
\<close>

record js_exception =
  message :: string
  response_error :: "json option"

text \<open>\<open>e.message || fallback\<close>.\<close>

definition message_or :: "js_exception \<Rightarrow> string \<Rightarrow> string" where
  "message_or e fallback = (if message e = [] then fallback else message e)"

text \<open>The message of the TypeError that reading \<open>.key\<close> of \<open>null\<close> throws (V8's wording).\<close>

definition null_read_message :: "string \<Rightarrow> string" where
  "null_read_message k =
     ''Cannot read properties of null (reading '' @ [CHR 0x27] @ k @ [CHR 0x27] @ '')''"

record http_request =
  http_method :: string
  url :: string
  req_body :: "json option"
  req_headers :: "(string \<times> string) list"
  responseType :: "string option"

text \<open>
  The response of an axios call: \<open>response.status\<close>, \<open>response.data\<close> and
  \<open>response.headers["content-type"]\<close>.
\<close>

record axios_response =
  http_status :: nat
  data :: json
  content_type :: "string option"

datatype axios_result = AxiosThrows js_exception | AxiosResponse axios_response

text \<open>What a call of the client issues and what it resolves to.\<close>

type_synonym call_result = "json \<times> http_request list"

text \<open>\<open>{ success: false, error: e.response?.data?.error || e.message }\<close>.\<close>

definition caught :: "js_exception \<Rightarrow> json" where
  "caught e = JObj [(''success'', JBool False),
                    (''error'', or_else (response_error e) (JStr (message e)))]"

definition axios_get :: "Valyu \<Rightarrow> string \<Rightarrow> http_request" where
  "axios_get c u = \<lparr> http_method = ''GET'', url = u, req_body = None,
                     req_headers = headers c, responseType = None \<rparr>"

definition axios_post :: "Valyu \<Rightarrow> string \<Rightarrow> json \<Rightarrow> http_request" where
  "axios_post c u b = \<lparr> http_method = ''POST'', url = u, req_body = Some b,
                        req_headers = headers c, responseType = None \<rparr>"

definition axios_delete :: "Valyu \<Rightarrow> string \<Rightarrow> http_request" where
  "axios_delete c u = \<lparr> http_method = ''DELETE'', url = u, req_body = None,
                        req_headers = headers c, responseType = None \<rparr>"

section \<open>Strings and the built-ins of the runtime\<close>

text \<open>
  The built-ins the client calls and this development does not define:
  whether \<open>new URL(s)\<close> returns, whether \<open>new Date(s)\<close> has a valid time
  value, the serialisation of one component by \<open>URLSearchParams\<close>, and the
  decimal text of a number.
\<close>

record js_runtime =
  url_parses :: "string \<Rightarrow> bool"
  date_parses :: "string \<Rightarrow> bool"
  form_encode :: "string \<Rightarrow> string"
  number_text :: "real \<Rightarrow> string"

definition is_digit :: "char \<Rightarrow> bool" where
  "is_digit c = (c \<in> set ''0123456789'')"

definition is_alnum :: "char \<Rightarrow> bool" where
  "is_alnum c =
     (c \<in> set ''abcdefghijklmnopqrstuvwxyzABCDEFGHIJKLMNOPQRSTUVWXYZ0123456789'')"

text \<open>\<open>s.toLowerCase()\<close> on the letters A to Z.\<close>

definition lower_char :: "char \<Rightarrow> char" where
  "lower_char c =
     (case map_of (zip ''ABCDEFGHIJKLMNOPQRSTUVWXYZ'' ''abcdefghijklmnopqrstuvwxyz'') c of
        None \<Rightarrow> c | Some l \<Rightarrow> l)"

definition toLowerCase :: "string \<Rightarrow> string" where
  "toLowerCase s = map lower_char s"

text \<open>\<open>s.trim()\<close>: tab, line feed, vertical tab, form feed, carriage return,
  space and no-break space are the white space among the characters modelled.\<close>

definition is_space :: "char \<Rightarrow> bool" where
  "is_space c = (c \<in> set [CHR 0x09, CHR 0x0A, CHR 0x0B, CHR 0x0C, CHR 0x0D, CHR 0x20, CHR 0xA0])"

definition trim :: "string \<Rightarrow> string" where
  "trim s = rev (dropWhile is_space (rev (dropWhile is_space s)))"

text \<open>\<open>s.split(sep)\<close> for a separator of one character; \<open>cur\<close> is the part read so far.\<close>

fun split_at :: "char \<Rightarrow> string \<Rightarrow> string \<Rightarrow> string list" where
  "split_at sep cur [] = [cur]"
| "split_at sep cur (c # cs) =
     (if c = sep then cur # split_at sep [] cs else split_at sep (cur @ [c]) cs)"

section \<open>Validation\<close>

text \<open>
  \<open>validateDateFormat\<close>: the pattern \<open>/^\d{4}-\d{2}-\d{2}$/\<close>, then a valid
  \<open>new Date(date)\<close>.
\<close>

definition date_pattern :: "string \<Rightarrow> bool" where
  "date_pattern s =
     (case s of
        [y1, y2, y3, y4, h1, m1, m2, h2, d1, d2] \<Rightarrow>
          is_digit y1 \<and> is_digit y2 \<and> is_digit y3 \<and> is_digit y4 \<and> h1 = CHR ''-''
          \<and> is_digit m1 \<and> is_digit m2 \<and> h2 = CHR ''-'' \<and> is_digit d1 \<and> is_digit d2
      | _ \<Rightarrow> False)"

definition validateDateFormat :: "js_runtime \<Rightarrow> string \<Rightarrow> bool" where
  "validateDateFormat rt date = (if \<not> date_pattern date then False else date_parses rt date)"

definition validateUrl :: "js_runtime \<Rightarrow> string \<Rightarrow> bool" where
  "validateUrl rt u = url_parses rt u"

text \<open>
  \<open>validateDomain\<close>, the pattern
  \<open>/^L(\.L)+(\/.+)?$/\<close> with \<open>L = [a-zA-Z0-9]([a-zA-Z0-9-]{0,61}[a-zA-Z0-9])?\<close>.
  A label \<open>L\<close> is one alphanumeric, or an alphanumeric, up to 61 alphanumerics
  or hyphens, and an alphanumeric. No label contains a dot or a slash, so the
  labels are the parts between the dots of the text before the first slash; the
  rest, if any, is the slash and at least one character, none a line
  terminator (\<open>.\<close> matches no line terminator).
\<close>

definition domain_label :: "string \<Rightarrow> bool" where
  "domain_label l =
     (l \<noteq> [] \<and> length l \<le> 63 \<and> is_alnum (hd l) \<and> is_alnum (last l)
      \<and> list_all (\<lambda>c. is_alnum c \<or> c = CHR ''-'') l)"

definition line_terminator :: "char \<Rightarrow> bool" where
  "line_terminator c = (c = CHR 0x0A \<or> c = CHR 0x0D)"

definition domain_path :: "string \<Rightarrow> bool" where
  "domain_path p =
     (case p of
        [] \<Rightarrow> True
      | c # cs \<Rightarrow> c = CHR ''/'' \<and> cs \<noteq> [] \<and> list_all (\<lambda>x. \<not> line_terminator x) cs)"

definition validateDomain :: "string \<Rightarrow> bool" where
  "validateDomain domain =
     (let host = takeWhile (\<lambda>c. c \<noteq> CHR ''/'') domain;
          rest = dropWhile (\<lambda>c. c \<noteq> CHR ''/'') domain;
          labels = split_at CHR ''.'' [] host
      in 2 \<le> length labels \<and> list_all domain_label labels \<and> domain_path rest)"

text \<open>\<open>validateDatasetId\<close>; both patterns are \<open>/^[a-zA-Z0-9_-]+$/\<close>.\<close>

definition id_pattern :: "string \<Rightarrow> bool" where
  "id_pattern s =
     (s \<noteq> [] \<and> list_all (\<lambda>c. is_alnum c \<or> c = CHR ''_'' \<or> c = CHR ''-'') s)"

definition validateDatasetId :: "string \<Rightarrow> bool" where
  "validateDatasetId datasetId =
     (case split_at CHR ''/'' [] datasetId of
        [provider, dataset] \<Rightarrow>
          id_pattern provider \<and> id_pattern dataset \<and> 0 < length provider \<and> 0 < length dataset
      | _ \<Rightarrow> False)"

definition validateSource :: "js_runtime \<Rightarrow> string \<Rightarrow> bool" where
  "validateSource rt source =
     (if validateUrl rt source then True
      else if validateDomain source then True
      else if validateDatasetId source then True
      else False)"

text \<open>\<open>validateSources\<close>: the pair of \<open>valid\<close> and \<open>invalidSources\<close>.\<close>

definition validateSources :: "js_runtime \<Rightarrow> string list \<Rightarrow> bool \<times> string list" where
  "validateSources rt sources =
     (let invalidSources = filter (\<lambda>source. \<not> validateSource rt source) sources
      in (invalidSources = [], invalidSources))"

section \<open>The answer payload\<close>

text \<open>An argument declared as \<open>string[]\<close> that the code tests with \<open>Array.isArray\<close>.\<close>

datatype strings_arg = StringArray "string list" | NotArray json

fun strings_json :: "strings_arg \<Rightarrow> json" where
  "strings_json (StringArray xs) = JArr (map JStr xs)"
| "strings_json (NotArray v) = v"

record AnswerOptions =
  structuredOutput :: "json option"
  systemInstructions :: "string option"
  searchType :: "string option"
  dataMaxPrice :: "real option"
  countryCode :: "string option"
  includedSources :: "strings_arg option"
  excludedSources :: "strings_arg option"
  startDate :: "string option"
  endDate :: "string option"
  fastMode :: "bool option"
  streaming :: "bool option"

text \<open>
  \<open>finalSearchType\<close>: the lower-cased search type when it is one of the four
  types, \<open>"all"\<close> otherwise.
\<close>

definition search_types :: "string list" where
  "search_types = [''web'', ''proprietary'', ''all'', ''news'']"

definition finalSearchType :: "string option \<Rightarrow> string" where
  "finalSearchType provided =
     (case map_option toLowerCase provided of
        None \<Rightarrow> ''all''
      | Some providedSearchTypeString \<Rightarrow>
          if providedSearchTypeString \<in> set search_types then providedSearchTypeString else ''all'')"

definition buildAnswerPayload :: "string \<Rightarrow> AnswerOptions \<Rightarrow> json" where
  "buildAnswerPayload query options =
     object [
       (''query'', Some (JStr (trim query))),
       (''search_type'', Some (JStr (finalSearchType (AnswerOptions.searchType options)))),
       (''data_max_price'', map_option JNum (dataMaxPrice options)),
       (''structured_output'', structuredOutput options),
       (''system_instructions'', map_option (\<lambda>s. JStr (trim s)) (systemInstructions options)),
       (''country_code'', map_option JStr (AnswerOptions.countryCode options)),
       (''included_sources'', map_option strings_json (AnswerOptions.includedSources options)),
       (''excluded_sources'', map_option strings_json (excludedSources options)),
       (''start_date'', map_option JStr (AnswerOptions.startDate options)),
       (''end_date'', map_option JStr (AnswerOptions.endDate options)),
       (''fast_mode'', map_option JBool (AnswerOptions.fastMode options))]"

section \<open>search\<close>

record SearchOptions =
  searchType :: "string option"
  maxNumResults :: "real option"
  maxPrice :: "real option"
  isToolCall :: "bool option"
  relevanceThreshold :: "real option"
  includedSources :: "strings_arg option"
  excludeSources :: "strings_arg option"
  category :: "string option"
  startDate :: "string option"
  endDate :: "string option"
  countryCode :: "string option"
  responseLength :: "json option"
  fastMode :: "bool option"
  urlOnly :: "bool option"

text \<open>The response of every early return and of the \<open>catch\<close> of \<open>search\<close>.\<close>

definition search_failure :: "string \<Rightarrow> json option \<Rightarrow> json" where
  "search_failure query err =
     object [
       (''success'', Some (JBool False)),
       (''error'', err),
       (''tx_id'', Some JNull),
       (''query'', Some (JStr query)),
       (''results'', Some (JArr [])),
       (''results_by_source'', Some (JObj [(''web'', JNum 0), (''proprietary'', JNum 0)])),
       (''total_deduction_dollars'', Some (JNum 0)),
       (''total_characters'', Some (JNum 0))]"

definition sources_hint :: string where
  "sources_hint =
     ''. Sources must be valid URLs, domains (with optional paths), or dataset identifiers in ''
     @ [CHR 0x27] @ ''provider/dataset'' @ [CHR 0x27] @ '' format.''"

text \<open>
  The check of \<open>includedSources\<close> and of \<open>excludeSources\<close> (the code has it
  once for each, with the name in the messages): the error message, if any.
\<close>

definition sources_error :: "js_runtime \<Rightarrow> string \<Rightarrow> strings_arg option \<Rightarrow> string option" where
  "sources_error rt name arg =
     (case arg of
        None \<Rightarrow> None
      | Some (NotArray v) \<Rightarrow> Some (name @ '' must be an array'')
      | Some (StringArray sources) \<Rightarrow>
          (case validateSources rt sources of
             (valid, invalidSources) \<Rightarrow>
               if \<not> valid
               then Some (''Invalid '' @ name @ '' format. Invalid sources: ''
                          @ join_with '', '' invalidSources @ sources_hint)
               else None))"

definition search_payload :: "string \<Rightarrow> SearchOptions \<Rightarrow> json" where
  "search_payload query options =
     object [
       (''query'', Some (JStr query)),
       (''search_type'', Some (JStr (finalSearchType (SearchOptions.searchType options)))),
       (''max_num_results'',
          Some (JNum (case maxNumResults options of None \<Rightarrow> 10 | Some n \<Rightarrow> n))),
       (''is_tool_call'',
          Some (JBool (case isToolCall options of None \<Rightarrow> True | Some b \<Rightarrow> b))),
       (''relevance_threshold'',
          Some (JNum (case relevanceThreshold options of None \<Rightarrow> 0.5 | Some t \<Rightarrow> t))),
       (''max_price'', map_option JNum (maxPrice options)),
       (''included_sources'', map_option strings_json (SearchOptions.includedSources options)),
       (''exclude_sources'', map_option strings_json (excludeSources options)),
       (''category'', map_option JStr (category options)),
       (''start_date'', map_option JStr (SearchOptions.startDate options)),
       (''end_date'', map_option JStr (SearchOptions.endDate options)),
       (''country_code'', map_option JStr (SearchOptions.countryCode options)),
       (''response_length'', responseLength options),
       (''fast_mode'', map_option JBool (SearchOptions.fastMode options)),
       (''url_only'', map_option JBool (urlOnly options))]"

text \<open>\<open>d && !this.validateDateFormat(d)\<close> for an optional date.\<close>

definition bad_date :: "js_runtime \<Rightarrow> string option \<Rightarrow> bool" where
  "bad_date rt d = (case d of None \<Rightarrow> False | Some s \<Rightarrow> s \<noteq> [] \<and> \<not> validateDateFormat rt s)"

definition search :: "js_runtime \<Rightarrow> Valyu \<Rightarrow> (http_request \<Rightarrow> axios_result) \<Rightarrow> string \<Rightarrow> SearchOptions
                       \<Rightarrow> call_result" where
  "search rt c http query options =
     (if (case map_option toLowerCase (SearchOptions.searchType options) of
            None \<Rightarrow> False | Some t \<Rightarrow> t \<notin> set search_types)
      then (search_failure query
             (Some (JStr ''Invalid searchType provided. Must be one of: all, web, proprietary, news'')), [])
      else if bad_date rt (SearchOptions.startDate options)
      then (search_failure query (Some (JStr ''Invalid startDate format. Must be YYYY-MM-DD'')), [])
      else if bad_date rt (SearchOptions.endDate options)
      then (search_failure query (Some (JStr ''Invalid endDate format. Must be YYYY-MM-DD'')), [])
      else if (case maxNumResults options of None \<Rightarrow> 10 | Some n \<Rightarrow> n) < 1
              \<or> (case maxNumResults options of None \<Rightarrow> 10 | Some n \<Rightarrow> n) > 100
      then (search_failure query (Some (JStr ''maxNumResults must be between 1 and 100'')), [])
      else (case sources_error rt ''includedSources'' (SearchOptions.includedSources options) of
              Some msg \<Rightarrow> (search_failure query (Some (JStr msg)), [])
            | None \<Rightarrow>
           (case sources_error rt ''excludeSources'' (excludeSources options) of
              Some msg \<Rightarrow> (search_failure query (Some (JStr msg)), [])
            | None \<Rightarrow>
           (let req = axios_post c (baseUrl c @ ''/deepsearch'') (search_payload query options) in
            (case http req of
               AxiosThrows e \<Rightarrow>
                 search_failure query (Some (or_else (response_error e) (JStr (message e))))
             | AxiosResponse response \<Rightarrow>
                 if http_status response = 0 \<or> http_status response < 200
                    \<or> http_status response \<ge> 300
                 then search_failure query (js_opt_prop (Some (data response)) ''error'')
                 else data response,
             [req])))))"

section \<open>contents\<close>

record ContentsOptions =
  summary :: "json option"
  extractEffort :: "string option"
  responseLength :: "json option"
  maxPriceDollars :: "real option"
  screenshot :: "bool option"

definition contents_failure :: "json \<Rightarrow> nat \<Rightarrow> nat \<Rightarrow> json" where
  "contents_failure err requested failed =
     JObj [(''success'', JBool False),
           (''error'', err),
           (''urls_requested'', JNum (real requested)),
           (''urls_processed'', JNum 0),
           (''urls_failed'', JNum (real failed)),
           (''results'', JArr []),
           (''total_cost_dollars'', JNum 0),
           (''total_characters'', JNum 0)]"

definition contents_payload :: "string list \<Rightarrow> ContentsOptions \<Rightarrow> json" where
  "contents_payload urls options =
     object [
       (''urls'', Some (JArr (map JStr urls))),
       (''summary'', summary options),
       (''extract_effort'', map_option JStr (extractEffort options)),
       (''response_length'', ContentsOptions.responseLength options),
       (''max_price_dollars'', map_option JNum (maxPriceDollars options)),
       (''screenshot'', map_option JBool (screenshot options))]"

definition contents :: "Valyu \<Rightarrow> (http_request \<Rightarrow> axios_result) \<Rightarrow> strings_arg option \<Rightarrow> ContentsOptions
                         \<Rightarrow> call_result" where
  "contents c http urls_arg options =
     (case urls_arg of
        None \<Rightarrow> (contents_failure (JStr ''urls must be an array'') 0 0, [])
      | Some (NotArray v) \<Rightarrow> (contents_failure (JStr ''urls must be an array'') 0 0, [])
      | Some (StringArray urls) \<Rightarrow>
          if length urls = 0
          then (contents_failure (JStr ''urls array cannot be empty'') 0 0, [])
          else if length urls > 10
          then (contents_failure (JStr ''Maximum 10 URLs allowed per request'')
                  (length urls) (length urls), [])
          else if (case extractEffort options of
                     None \<Rightarrow> False
                   | Some e \<Rightarrow> e \<noteq> [] \<and> e \<notin> set [''normal'', ''high'', ''auto''])
          then (contents_failure
                  (JStr (''extractEffort must be '' @ [CHR 0x27] @ ''normal'' @ [CHR 0x27] @ '', ''
                         @ [CHR 0x27] @ ''high'' @ [CHR 0x27] @ '', or '' @ [CHR 0x27] @ ''auto''
                         @ [CHR 0x27]))
                  (length urls) (length urls), [])
          else if (case ContentsOptions.responseLength options of
                     Some (JStr l) \<Rightarrow> l \<notin> set [''short'', ''medium'', ''large'', ''max'']
                   | _ \<Rightarrow> False)
          then (contents_failure
                  (JStr (''responseLength must be '' @ [CHR 0x27] @ ''short'' @ [CHR 0x27] @ '', ''
                         @ [CHR 0x27] @ ''medium'' @ [CHR 0x27] @ '', '' @ [CHR 0x27] @ ''large''
                         @ [CHR 0x27] @ '', '' @ [CHR 0x27] @ ''max'' @ [CHR 0x27]
                         @ '', or a number''))
                  (length urls) (length urls), [])
          else if (case ContentsOptions.responseLength options of
                     Some (JNum n) \<Rightarrow> n \<le> 0
                   | _ \<Rightarrow> False)
          then (contents_failure (JStr ''responseLength number must be positive'')
                  (length urls) (length urls), [])
          else
            (let req = axios_post c (baseUrl c @ ''/contents'') (contents_payload urls options) in
             (case http req of
                AxiosThrows e \<Rightarrow>
                  contents_failure (or_else (response_error e) (JStr (message e)))
                    (length urls) (length urls)
              | AxiosResponse response \<Rightarrow>
                  if http_status response = 0 \<or> http_status response < 200
                     \<or> http_status response \<ge> 300
                  then contents_failure
                         (or_else (js_opt_prop (Some (data response)) ''error'') (JStr ''Request failed''))
                         (length urls) (length urls)
                  else data response,
              [req])))"


text \<open>The guards of \<open>contents\<close> on an array of URLs, in the order of the code.\<close>

definition contents_guard :: "string list \<Rightarrow> ContentsOptions \<Rightarrow> bool" where
  "contents_guard urls options =
     (length urls = 0 \<or> length urls > 10
      \<or> (case extractEffort options of
            None \<Rightarrow> False
          | Some e \<Rightarrow> e \<noteq> [] \<and> e \<notin> set [''normal'', ''high'', ''auto''])
      \<or> (case ContentsOptions.responseLength options of
            Some (JStr l) \<Rightarrow> l \<notin> set [''short'', ''medium'', ''large'', ''max'']
          | _ \<Rightarrow> False)
      \<or> (case ContentsOptions.responseLength options of
            Some (JNum n) \<Rightarrow> n \<le> 0
          | _ \<Rightarrow> False))"

section \<open>The deepresearch, batch and datasources operations\<close>

text \<open>
  The options of these operations are passed on to the payload member by
  member; an options object is modelled as the \<open>json\<close> object the caller
  passes, read as its interface declares it (a member declared as a string is
  a string or \<open>undefined\<close>).
\<close>

text \<open>\<open>a ?? b\<close>.\<close>

fun nullish_or :: "json option \<Rightarrow> json option \<Rightarrow> json option" where
  "nullish_or None b = b"
| "nullish_or (Some JNull) b = b"
| "nullish_or (Some v) b = Some v"

text \<open>\<open>options.k\<close> when it is truthy, for \<open>if (options.k) payload.k' = options.k\<close>.\<close>

definition truthy_member :: "json \<Rightarrow> string \<Rightarrow> json option" where
  "truthy_member obj k = (if truthy_opt (js_prop obj k) then js_prop obj k else None)"

text \<open>\<open>!s?.trim()\<close> for a string that may be \<open>undefined\<close> or \<open>null\<close>.\<close>

fun blank :: "json option \<Rightarrow> bool" where
  "blank (Some (JStr s)) = (trim s = [])"
| "blank v = True"

text \<open>The \<open>search\<close> member of a payload, from \<open>options.search\<close>.\<close>

definition search_config :: "json \<Rightarrow> json" where
  "search_config s =
     object [(''search_type'', truthy_member s ''searchType''),
             (''included_sources'', truthy_member s ''includedSources''),
             (''excluded_sources'', truthy_member s ''excludedSources''),
             (''start_date'', truthy_member s ''startDate''),
             (''end_date'', truthy_member s ''endDate''),
             (''category'', truthy_member s ''category'')]"

definition alert_email :: "json \<Rightarrow> json option" where
  "alert_email options =
     (case truthy_member options ''alertEmail'' of
        None \<Rightarrow> None
      | Some (JStr s) \<Rightarrow> Some (JStr s)
      | Some v \<Rightarrow> Some (object [(''email'', js_prop v ''email''),
                                (''custom_url'', js_prop v ''custom_url'')]))"

definition deepresearchCreate_payload :: "json \<Rightarrow> json" where
  "deepresearchCreate_payload options =
     object [
       (''query'', nullish_or (js_prop options ''query'') (js_prop options ''input'')),
       (''mode'', Some (or_else (nullish_or (js_prop options ''mode'') (js_prop options ''model''))
                          (JStr ''fast''))),
       (''output_formats'', Some (or_else (js_prop options ''outputFormats'') (JArr [JStr ''markdown'']))),
       (''code_execution'', Some (JBool (js_prop options ''codeExecution'' \<noteq> Some (JBool False)))),
       (''strategy'', truthy_member options ''strategy''),
       (''search'', map_option search_config (truthy_member options ''search'')),
       (''urls'', truthy_member options ''urls''),
       (''files'', truthy_member options ''files''),
       (''deliverables'', truthy_member options ''deliverables''),
       (''mcp_servers'', truthy_member options ''mcpServers''),
       (''previous_reports'', truthy_member options ''previousReports''),
       (''webhook_url'', truthy_member options ''webhookUrl''),
       (''brand_collection_id'', truthy_member options ''brandCollectionId''),
       (''alert_email'', alert_email options),
       (''metadata'', truthy_member options ''metadata'')]"

text \<open>
  The shape the operations share: issue one request; when it throws, return
  what the \<open>catch\<close> builds; otherwise shape the response.
\<close>

definition single_call ::
  "(http_request \<Rightarrow> axios_result) \<Rightarrow> http_request \<Rightarrow> (axios_response \<Rightarrow> json) \<Rightarrow> call_result" where
  "single_call http req shape =
     (case http req of
        AxiosThrows e \<Rightarrow> caught e
      | AxiosResponse response \<Rightarrow> shape response,
      [req])"

definition validation_error :: "string \<Rightarrow> call_result" where
  "validation_error msg = (JObj [(''success'', JBool False), (''error'', JStr msg)], [])"

definition deepresearchCreate :: "Valyu \<Rightarrow> (http_request \<Rightarrow> axios_result) \<Rightarrow> json \<Rightarrow> call_result" where
  "deepresearchCreate c http options =
     (if blank (nullish_or (js_prop options ''query'') (js_prop options ''input''))
      then validation_error ''query is required and cannot be empty''
      else single_call http
             (axios_post c (baseUrl c @ ''/deepresearch/tasks'') (deepresearchCreate_payload options))
             (\<lambda>response. success_with (data response)))"

definition deepresearchList :: "js_runtime \<Rightarrow> Valyu \<Rightarrow> (http_request \<Rightarrow> axios_result) \<Rightarrow> json option
                                 \<Rightarrow> call_result" where
  "deepresearchList rt c http options =
     (let limit = or_else (js_opt_prop options ''limit'') (JNum 10) in
      single_call http
        (axios_get c (baseUrl c @ ''/deepresearch/list?limit='' @ ToString (number_text rt) limit))
        (\<lambda>response. JObj [(''success'', JBool True), (''data'', data response)]))"

definition deepresearchUpdate :: "Valyu \<Rightarrow> (http_request \<Rightarrow> axios_result) \<Rightarrow> string \<Rightarrow> json option
                                   \<Rightarrow> call_result" where
  "deepresearchUpdate c http taskId instruction =
     (if blank instruction
      then validation_error ''instruction is required and cannot be empty''
      else single_call http
             (axios_post c (baseUrl c @ ''/deepresearch/tasks/'' @ taskId @ ''/update'')
                (object [(''instruction'', instruction)]))
             (\<lambda>response. success_with (data response)))"

definition deepresearchCancel :: "Valyu \<Rightarrow> (http_request \<Rightarrow> axios_result) \<Rightarrow> string \<Rightarrow> call_result" where
  "deepresearchCancel c http taskId =
     single_call http
       (axios_post c (baseUrl c @ ''/deepresearch/tasks/'' @ taskId @ ''/cancel'') (JObj []))
       (\<lambda>response. success_with (data response))"

definition deepresearchDelete :: "Valyu \<Rightarrow> (http_request \<Rightarrow> axios_result) \<Rightarrow> string \<Rightarrow> call_result" where
  "deepresearchDelete c http taskId =
     single_call http
       (axios_delete c (baseUrl c @ ''/deepresearch/tasks/'' @ taskId @ ''/delete''))
       (\<lambda>response. success_with (data response))"

definition deepresearchTogglePublic :: "Valyu \<Rightarrow> (http_request \<Rightarrow> axios_result) \<Rightarrow> string \<Rightarrow> bool
                                         \<Rightarrow> call_result" where
  "deepresearchTogglePublic c http taskId isPublic =
     single_call http
       (axios_post c (baseUrl c @ ''/deepresearch/tasks/'' @ taskId @ ''/public'')
          (JObj [(''public'', JBool isPublic)]))
       (\<lambda>response. success_with (data response))"

text \<open>
  \<open>params.toString()\<close> of a \<open>URLSearchParams\<close> with the given entries, and
  the query string appended to a URL when it is not empty.
\<close>

definition params_text :: "js_runtime \<Rightarrow> (string \<times> string) list \<Rightarrow> string" where
  "params_text rt ps = join_with ''&'' (map (\<lambda>(k, v). form_encode rt k @ ''='' @ form_encode rt v) ps)"

definition with_params :: "js_runtime \<Rightarrow> string \<Rightarrow> (string \<times> string) list \<Rightarrow> string" where
  "with_params rt u ps = u @ (if params_text rt ps = [] then [] else ''?'' @ params_text rt ps)"

text \<open>An entry of the parameters for a string member that is appended when truthy.\<close>

definition truthy_param :: "json \<Rightarrow> string \<Rightarrow> string \<Rightarrow> (string \<times> string) list" where
  "truthy_param options k name =
     (case js_opt_prop (Some options) k of
        Some (JStr s) \<Rightarrow> if s = [] then [] else [(name, s)]
      | _ \<Rightarrow> [])"

text \<open>An entry for a member that is appended, as \<open>v.toString()\<close>, when not \<open>undefined\<close>.\<close>

definition defined_param :: "js_runtime \<Rightarrow> json \<Rightarrow> string \<Rightarrow> string \<Rightarrow> (string \<times> string) list" where
  "defined_param rt options k name =
     (case js_opt_prop (Some options) k of
        None \<Rightarrow> []
      | Some v \<Rightarrow> [(name, ToString (number_text rt) v)])"

definition deepresearchGetAssets ::
  "js_runtime \<Rightarrow> Valyu \<Rightarrow> (http_request \<Rightarrow> axios_result) \<Rightarrow> string \<Rightarrow> string \<Rightarrow> json \<Rightarrow> call_result" where
  "deepresearchGetAssets rt c http taskId assetId options =
     (let params = truthy_param options ''token'' ''token'';
          hdrs = (if params = []
                  then (case map_of (headers c) ''x-api-key'' of
                          None \<Rightarrow> [] | Some k \<Rightarrow> [(''x-api-key'', k)])
                  else []);
          u = with_params rt
                (baseUrl c @ ''/deepresearch/tasks/'' @ taskId @ ''/assets/'' @ assetId) params
      in single_call http
           \<lparr> http_method = ''GET'', url = u, req_body = None, req_headers = hdrs,
             responseType = Some ''arraybuffer'' \<rparr>
           (\<lambda>response. JObj [(''success'', JBool True),
                              (''data'', data response),
                              (''contentType'',
                                 JStr (case content_type response of
                                         None \<Rightarrow> ''application/octet-stream''
                                       | Some t \<Rightarrow> if t = [] then ''application/octet-stream'' else t))]))"

definition batchCreate_payload :: "json \<Rightarrow> json" where
  "batchCreate_payload options =
     object [
       (''name'', truthy_member options ''name''),
       (''mode'', (let mode = nullish_or (js_prop options ''mode'') (js_prop options ''model'')
                   in if truthy_opt mode then mode else None)),
       (''output_formats'', truthy_member options ''outputFormats''),
       (''search'', map_option search_config (truthy_member options ''search'')),
       (''webhook_url'', truthy_member options ''webhookUrl''),
       (''metadata'', truthy_member options ''metadata'')]"

definition batchCreate :: "Valyu \<Rightarrow> (http_request \<Rightarrow> axios_result) \<Rightarrow> json \<Rightarrow> call_result" where
  "batchCreate c http options =
     single_call http
       (axios_post c (baseUrl c @ ''/deepresearch/batches'') (batchCreate_payload options))
       (\<lambda>response. success_with (data response))"

definition task_payload :: "json \<Rightarrow> json" where
  "task_payload task =
     object [
       (''query'', (let queryValue = nullish_or (js_prop task ''query'') (js_prop task ''input'')
                    in if truthy_opt queryValue then queryValue else None)),
       (''id'', truthy_member task ''id''),
       (''strategy'', truthy_member task ''strategy''),
       (''urls'', truthy_member task ''urls''),
       (''metadata'', truthy_member task ''metadata'')]"

definition batchAddTasks :: "Valyu \<Rightarrow> (http_request \<Rightarrow> axios_result) \<Rightarrow> string \<Rightarrow> json \<Rightarrow> call_result" where
  "batchAddTasks c http batchId options =
     (case js_prop options ''tasks'' of
        Some (JArr tasks) \<Rightarrow>
          if length tasks = 0 then validation_error ''tasks array cannot be empty''
          else if length tasks > 100 then validation_error ''Maximum 100 tasks allowed per request''
          else if \<exists>task \<in> set tasks. \<not> truthy_opt (js_prop task ''query'')
                                       \<and> \<not> truthy_opt (js_prop task ''input'')
          then validation_error
                 (''Each task must have a '' @ [CHR 0x27] @ ''query'' @ [CHR 0x27] @ '' field'')
          else single_call http
                 (axios_post c (baseUrl c @ ''/deepresearch/batches/'' @ batchId @ ''/tasks'')
                    (JObj [(''tasks'', JArr (map task_payload tasks))]))
                 (\<lambda>response. success_with (data response))
      | _ \<Rightarrow> validation_error ''tasks must be an array'')"

definition batchListTasks ::
  "js_runtime \<Rightarrow> Valyu \<Rightarrow> (http_request \<Rightarrow> axios_result) \<Rightarrow> string \<Rightarrow> json \<Rightarrow> call_result" where
  "batchListTasks rt c http batchId options =
     (let params = truthy_param options ''status'' ''status''
                   @ defined_param rt options ''limit'' ''limit''
                   @ truthy_param options ''lastKey'' ''last_key''
                   @ defined_param rt options ''includeOutput'' ''include_output''
      in single_call http
           (axios_get c (with_params rt (baseUrl c @ ''/deepresearch/batches/'' @ batchId @ ''/tasks'')
                           params))
           (\<lambda>response. success_with (data response)))"

definition batchCancel :: "Valyu \<Rightarrow> (http_request \<Rightarrow> axios_result) \<Rightarrow> string \<Rightarrow> call_result" where
  "batchCancel c http batchId =
     single_call http
       (axios_post c (baseUrl c @ ''/deepresearch/batches/'' @ batchId @ ''/cancel'') (JObj []))
       (\<lambda>response. success_with (data response))"

definition batchList :: "js_runtime \<Rightarrow> Valyu \<Rightarrow> (http_request \<Rightarrow> axios_result) \<Rightarrow> json \<Rightarrow> call_result" where
  "batchList rt c http options =
     single_call http
       (axios_get c (with_params rt (baseUrl c @ ''/deepresearch/batches'')
                       (defined_param rt options ''limit'' ''limit'')))
       (\<lambda>response. JObj [(''success'', JBool True), (''batches'', data response)])"

text \<open>
  \<open>{ success: true, k: response.data.k }\<close>; reading \<open>.k\<close> of a \<open>null\<close> body
  throws a TypeError, which the \<open>catch\<close> of the operation turns into its
  failure object.
\<close>

definition member_response :: "string \<Rightarrow> axios_response \<Rightarrow> json" where
  "member_response k response =
     (if data response = JNull
      then caught \<lparr> message = null_read_message k, response_error = None \<rparr>
      else object [(''success'', Some (JBool True)), (k, js_prop (data response) k)])"

definition datasourcesList :: "js_runtime \<Rightarrow> Valyu \<Rightarrow> (http_request \<Rightarrow> axios_result) \<Rightarrow> json
                                \<Rightarrow> call_result" where
  "datasourcesList rt c http options =
     single_call http
       (axios_get c (with_params rt (baseUrl c @ ''/datasources'')
                       (truthy_param options ''category'' ''category'')))
       (member_response ''datasources'')"

definition datasourcesCategories :: "Valyu \<Rightarrow> (http_request \<Rightarrow> axios_result) \<Rightarrow> call_result" where
  "datasourcesCategories c http =
     single_call http (axios_get c (baseUrl c @ ''/datasources/categories''))
       (member_response ''categories'')"

subsection \<open>Vocabulary for the claim about errors\<close>

text \<open>The call issued one request, and that request threw \<open>e\<close>.\<close>

definition throws_in :: "(http_request \<Rightarrow> axios_result) \<Rightarrow> call_result \<Rightarrow> js_exception \<Rightarrow> bool" where
  "throws_in http r e = (\<exists>req. snd r = [req] \<and> http req = AxiosThrows e)"

text \<open>The response has \<open>success: false\<close> and the given \<open>error\<close>.\<close>

definition failed_with :: "json \<Rightarrow> json \<Rightarrow> bool" where
  "failed_with r err = (js_prop r ''success'' = Some (JBool False) \<and> js_prop r ''error'' = Some err)"

text \<open>\<open>e.response?.data?.error || e.message\<close>.\<close>

definition axios_error :: "js_exception \<Rightarrow> json" where
  "axios_error e = or_else (response_error e) (JStr (message e))"

section \<open>Polling helpers\<close>

text \<open>\<open>_deepresearchStatus\<close> and \<open>_batchStatus\<close>, given the outcome of the request.\<close>

definition deepresearchStatus :: "Valyu \<Rightarrow> (http_request \<Rightarrow> axios_result) \<Rightarrow> string \<Rightarrow> call_result" where
  "deepresearchStatus c http taskId =
     (let req = axios_get c (baseUrl c @ ''/deepresearch/tasks/'' @ taskId @ ''/status'') in
      (case http req of
         AxiosThrows e \<Rightarrow> caught e
       | AxiosResponse r \<Rightarrow> success_with (data r),
       [req]))"

definition batchStatus :: "Valyu \<Rightarrow> (http_request \<Rightarrow> axios_result) \<Rightarrow> string \<Rightarrow> call_result" where
  "batchStatus c http batchId =
     (let req = axios_get c (baseUrl c @ ''/deepresearch/batches/'' @ batchId) in
      (case http req of
         AxiosThrows e \<Rightarrow> caught e
       | AxiosResponse r \<Rightarrow> JObj [(''success'', JBool True), (''batch'', data r)],
       [req]))"

text \<open>
  \<open>WaitOptions\<close> and \<open>BatchWaitOptions\<close>; \<open>onProgress\<close> tells whether the
  callback is given.
\<close>

record WaitOptions =
  pollInterval :: "int option"
  maxWaitTime :: "int option"
  onProgress :: bool

text \<open>\<open>StreamCallback\<close>: which of the callbacks are given.\<close>

record StreamCallback =
  onMessage :: bool
  onProgress :: bool
  onComplete :: bool
  onError :: bool

text \<open>\<open>n || dflt\<close> for an optional number.\<close>

definition num_or :: "int option \<Rightarrow> int \<Rightarrow> int" where
  "num_or n dflt = (case n of None \<Rightarrow> dflt | Some v \<Rightarrow> if v = 0 then dflt else v)"

text \<open>
  What a helper does besides returning: the requests it issues, the callbacks it
  invokes with their arguments, and the timers it waits for, in order.
\<close>

datatype event =
    Request http_request
  | Progress json
  | StepProgress "json option" "json option"
  | Message json
  | Complete json
  | Failure js_error
  | Sleep int

text \<open>
  The environment of a polling helper: \<open>http i\<close> answers the request of the
  \<open>i\<close>-th iteration, \<open>now i\<close> is what \<open>Date.now()\<close> returns in the timeout
  check of that iteration, and \<open>startTime\<close> is its value before the loop.

  The loops are partial: \<open>None\<close> is a loop that never ends.
\<close>

definition wait_terminal :: "json option \<Rightarrow> bool" where
  "wait_terminal s = (s = Some (JStr ''completed'') \<or> s = Some (JStr ''failed'')
                      \<or> s = Some (JStr ''cancelled''))"

partial_function (option) deepresearchWait_loop ::
  "Valyu \<Rightarrow> (nat \<Rightarrow> http_request \<Rightarrow> axios_result) \<Rightarrow> (nat \<Rightarrow> int) \<Rightarrow> string \<Rightarrow> WaitOptions
     \<Rightarrow> int \<Rightarrow> int \<Rightarrow> int \<Rightarrow> nat \<Rightarrow> event list \<Rightarrow> (event list \<times> (js_error + json)) option" where
  "deepresearchWait_loop c http now taskId options interval maxWait startTime i trace =
     (case deepresearchStatus c (http i) taskId of (status, reqs) \<Rightarrow>
        (let trace1 = trace @ map Request reqs in
         if \<not> truthy_opt (js_prop status ''success'')
         then Some (trace1, Inl (Error (js_prop status ''error'')))
         else
           (let trace2 = trace1 @ (if WaitOptions.onProgress options then [Progress status] else []) in
            if wait_terminal (js_prop status ''status'') then Some (trace2, Inr status)
            else if now i - startTime > maxWait
            then Some (trace2, Inl (Error (Some (JStr ''Maximum wait time exceeded''))))
            else deepresearchWait_loop c http now taskId options interval maxWait startTime
                   (Suc i) (trace2 @ [Sleep interval]))))"

definition deepresearchWait ::
  "Valyu \<Rightarrow> (nat \<Rightarrow> http_request \<Rightarrow> axios_result) \<Rightarrow> (nat \<Rightarrow> int) \<Rightarrow> int \<Rightarrow> string \<Rightarrow> WaitOptions
     \<Rightarrow> (event list \<times> (js_error + json)) option" where
  "deepresearchWait c http now startTime taskId options =
     deepresearchWait_loop c http now taskId options
       (num_or (pollInterval options) 5000) (num_or (maxWaitTime options) 7200000) startTime 0 []"

definition batch_terminal :: "json option \<Rightarrow> bool" where
  "batch_terminal s = (s = Some (JStr ''completed'') \<or> s = Some (JStr ''completed_with_errors'')
                       \<or> s = Some (JStr ''cancelled''))"

partial_function (option) batchWaitForCompletion_loop ::
  "Valyu \<Rightarrow> (nat \<Rightarrow> http_request \<Rightarrow> axios_result) \<Rightarrow> (nat \<Rightarrow> int) \<Rightarrow> string \<Rightarrow> WaitOptions
     \<Rightarrow> int \<Rightarrow> int \<Rightarrow> int \<Rightarrow> nat \<Rightarrow> event list \<Rightarrow> (event list \<times> (js_error + json)) option" where
  "batchWaitForCompletion_loop c http now batchId options interval maxWait startTime i trace =
     (case batchStatus c (http i) batchId of (statusResponse, reqs) \<Rightarrow>
        (let trace1 = trace @ map Request reqs in
         if \<not> truthy_opt (js_prop statusResponse ''success'')
            \<or> \<not> truthy_opt (js_prop statusResponse ''batch'')
         then Some (trace1, Inl (Error (Some (or_else (js_prop statusResponse ''error'')
                                          (JStr ''Failed to get batch status'')))))
         else
           (case js_prop statusResponse ''batch'' of
              None \<Rightarrow> Some (trace1, Inl TypeError)
            | Some batch \<Rightarrow>
               (let trace2 = trace1 @ (if WaitOptions.onProgress options then [Progress batch] else []) in
                if batch_terminal (js_prop batch ''status'') then Some (trace2, Inr batch)
                else if now i - startTime > maxWait
                then Some (trace2, Inl (Error (Some (JStr ''Maximum wait time exceeded''))))
                else batchWaitForCompletion_loop c http now batchId options interval maxWait
                       startTime (Suc i) (trace2 @ [Sleep interval])))))"

definition batchWaitForCompletion ::
  "Valyu \<Rightarrow> (nat \<Rightarrow> http_request \<Rightarrow> axios_result) \<Rightarrow> (nat \<Rightarrow> int) \<Rightarrow> int \<Rightarrow> string \<Rightarrow> WaitOptions
     \<Rightarrow> (event list \<times> (js_error + json)) option" where
  "batchWaitForCompletion c http now startTime batchId options =
     batchWaitForCompletion_loop c http now batchId options
       (num_or (pollInterval options) 10000) (num_or (maxWaitTime options) 7200000) startTime 0 []"

text \<open>
  \<open>status.messages.slice(lastMessageCount)\<close> and \<open>status.messages.length\<close> for
  a truthy \<open>messages\<close>; \<open>None\<close> when \<open>messages\<close> is not an array and the call
  of \<open>slice\<close> or \<open>forEach\<close> throws a TypeError.
\<close>

fun new_messages :: "json \<Rightarrow> nat \<Rightarrow> (json list \<times> nat) option" where
  "new_messages (JArr ms) lastMessageCount = Some (drop lastMessageCount ms, length ms)"
| "new_messages v lastMessageCount = None"

text \<open>
  \<open>_deepresearchStream\<close>. The result is \<open>Inr ()\<close> when the promise resolves and
  \<open>Inl e\<close> when the \<open>catch\<close> rethrows \<open>e\<close>.
\<close>

partial_function (option) deepresearchStream_loop ::
  "Valyu \<Rightarrow> (nat \<Rightarrow> http_request \<Rightarrow> axios_result) \<Rightarrow> string \<Rightarrow> StreamCallback
     \<Rightarrow> nat \<Rightarrow> nat \<Rightarrow> event list \<Rightarrow> (event list \<times> (js_error + unit)) option" where
  "deepresearchStream_loop c http taskId callback lastMessageCount i trace =
     (case deepresearchStatus c (http i) taskId of (status, reqs) \<Rightarrow>
        (let trace1 = trace @ map Request reqs in
         if \<not> truthy_opt (js_prop status ''success'')
         then Some (trace1 @ (if onError callback then [Failure (Error (js_prop status ''error''))] else []),
                    Inr ())
         else
           (let trace2 = trace1 @
                  (if truthy_opt (js_prop status ''progress'') \<and> StreamCallback.onProgress callback
                   then [StepProgress (js_opt_prop (js_prop status ''progress'') ''current_step'')
                                      (js_opt_prop (js_prop status ''progress'') ''total_steps'')]
                   else [])
            in
            (case (if truthy_opt (js_prop status ''messages'') \<and> onMessage callback
                   then (case js_prop status ''messages'' of
                           None \<Rightarrow> None
                         | Some ms \<Rightarrow> new_messages ms lastMessageCount)
                   else Some ([], lastMessageCount)) of
               None \<Rightarrow>
                 Some (trace2 @ (if onError callback then [Failure TypeError] else []), Inl TypeError)
             | Some (newMessages, lastMessageCount1) \<Rightarrow>
                 (let trace3 = trace2 @ map Message newMessages in
                  if js_prop status ''status'' = Some (JStr ''completed'')
                  then Some (trace3 @ (if onComplete callback then [Complete status] else []), Inr ())
                  else if js_prop status ''status'' = Some (JStr ''failed'')
                          \<or> js_prop status ''status'' = Some (JStr ''cancelled'')
                  then Some (trace3 @
                         (if onError callback
                          then [Failure (Error (Some (or_else (js_prop status ''error'')
                                  (JStr (''Task '' @ (case js_prop status ''status'' of
                                                        Some (JStr s) \<Rightarrow> s | _ \<Rightarrow> []))))))]
                          else []),
                         Inr ())
                  else deepresearchStream_loop c http taskId callback lastMessageCount1 (Suc i)
                         (trace3 @ [Sleep 5000]))))))"

definition deepresearchStream ::
  "Valyu \<Rightarrow> (nat \<Rightarrow> http_request \<Rightarrow> axios_result) \<Rightarrow> string \<Rightarrow> StreamCallback
     \<Rightarrow> (event list \<times> (js_error + unit)) option" where
  "deepresearchStream c http taskId callback = deepresearchStream_loop c http taskId callback 0 0 []"

subsection \<open>Vocabulary for the claims about polling\<close>

text \<open>
  The request every poll of a task issues, the status the \<open>i\<close>-th poll
  obtains, and the events of one iteration up to its terminal test.
\<close>

definition status_request :: "Valyu \<Rightarrow> string \<Rightarrow> http_request" where
  "status_request c taskId =
     axios_get c (baseUrl c @ ''/deepresearch/tasks/'' @ taskId @ ''/status'')"

definition status_at :: "Valyu \<Rightarrow> (nat \<Rightarrow> http_request \<Rightarrow> axios_result) \<Rightarrow> string \<Rightarrow> nat \<Rightarrow> json" where
  "status_at c http taskId i = fst (deepresearchStatus c (http i) taskId)"

definition wait_round ::
  "Valyu \<Rightarrow> (nat \<Rightarrow> http_request \<Rightarrow> axios_result) \<Rightarrow> string \<Rightarrow> WaitOptions \<Rightarrow> nat \<Rightarrow> event list" where
  "wait_round c http taskId options i =
     Request (status_request c taskId)
     # (if WaitOptions.onProgress options then [Progress (status_at c http taskId i)] else [])"

text \<open>The events of the first \<open>n\<close> iterations, each ending with its timer.\<close>

definition wait_rounds ::
  "Valyu \<Rightarrow> (nat \<Rightarrow> http_request \<Rightarrow> axios_result) \<Rightarrow> string \<Rightarrow> WaitOptions \<Rightarrow> int \<Rightarrow> nat \<Rightarrow> nat
     \<Rightarrow> event list" where
  "wait_rounds c http taskId options interval i n =
     concat (map (\<lambda>j. wait_round c http taskId options j @ [Sleep interval]) [i..<n])"

text \<open>
  Iteration \<open>i\<close> of \<open>wait\<close> goes on to the next poll: its response is
  successful, its status is not terminal, and the time is not up.
\<close>

definition wait_continues ::
  "Valyu \<Rightarrow> (nat \<Rightarrow> http_request \<Rightarrow> axios_result) \<Rightarrow> (nat \<Rightarrow> int) \<Rightarrow> string \<Rightarrow> int \<Rightarrow> int \<Rightarrow> nat
     \<Rightarrow> bool" where
  "wait_continues c http now taskId maxWait startTime i =
     (truthy_opt (js_prop (status_at c http taskId i) ''success'')
      \<and> \<not> wait_terminal (js_prop (status_at c http taskId i) ''status'')
      \<and> \<not> now i - startTime > maxWait)"

text \<open>The same for \<open>batch.waitForCompletion\<close>.\<close>

definition batch_request :: "Valyu \<Rightarrow> string \<Rightarrow> http_request" where
  "batch_request c batchId = axios_get c (baseUrl c @ ''/deepresearch/batches/'' @ batchId)"

definition batch_response_at ::
  "Valyu \<Rightarrow> (nat \<Rightarrow> http_request \<Rightarrow> axios_result) \<Rightarrow> string \<Rightarrow> nat \<Rightarrow> json" where
  "batch_response_at c http batchId i = fst (batchStatus c (http i) batchId)"

text \<open>A status response of a batch is usable: successful, with a truthy \<open>batch\<close>.\<close>

definition batch_ok :: "json \<Rightarrow> bool" where
  "batch_ok r = (truthy_opt (js_prop r ''success'') \<and> truthy_opt (js_prop r ''batch''))"

definition batch_at :: "Valyu \<Rightarrow> (nat \<Rightarrow> http_request \<Rightarrow> axios_result) \<Rightarrow> string \<Rightarrow> nat \<Rightarrow> json" where
  "batch_at c http batchId i =
     (case js_prop (batch_response_at c http batchId i) ''batch'' of None \<Rightarrow> JNull | Some b \<Rightarrow> b)"

definition batch_round ::
  "Valyu \<Rightarrow> (nat \<Rightarrow> http_request \<Rightarrow> axios_result) \<Rightarrow> string \<Rightarrow> WaitOptions \<Rightarrow> nat \<Rightarrow> event list" where
  "batch_round c http batchId options i =
     Request (batch_request c batchId)
     # (if WaitOptions.onProgress options then [Progress (batch_at c http batchId i)] else [])"

definition batch_continues ::
  "Valyu \<Rightarrow> (nat \<Rightarrow> http_request \<Rightarrow> axios_result) \<Rightarrow> (nat \<Rightarrow> int) \<Rightarrow> string \<Rightarrow> int \<Rightarrow> int \<Rightarrow> nat
     \<Rightarrow> bool" where
  "batch_continues c http now batchId maxWait startTime i =
     (batch_ok (batch_response_at c http batchId i)
      \<and> \<not> batch_terminal (js_prop (batch_at c http batchId i) ''status'')
      \<and> \<not> now i - startTime > maxWait)"

text \<open>
  Iteration \<open>i\<close> of \<open>stream\<close> is its last: the response is unsuccessful, or
  handling its messages throws, or its status is terminal.
\<close>

fun is_array :: "json option \<Rightarrow> bool" where
  "is_array (Some (JArr xs)) = True"
| "is_array v = False"

definition stream_stops ::
  "Valyu \<Rightarrow> (nat \<Rightarrow> http_request \<Rightarrow> axios_result) \<Rightarrow> string \<Rightarrow> StreamCallback \<Rightarrow> nat \<Rightarrow> bool" where
  "stream_stops c http taskId callback i =
     (\<not> truthy_opt (js_prop (status_at c http taskId i) ''success'')
      \<or> (truthy_opt (js_prop (status_at c http taskId i) ''messages'') \<and> onMessage callback
          \<and> \<not> is_array (js_prop (status_at c http taskId i) ''messages''))
      \<or> wait_terminal (js_prop (status_at c http taskId i) ''status''))"

fun is_request :: "event \<Rightarrow> bool" where
  "is_request (Request r) = True"
| "is_request e = False"

fun is_sleep :: "event \<Rightarrow> bool" where
  "is_sleep (Sleep d) = True"
| "is_sleep e = False"

definition batch_rounds ::
  "Valyu \<Rightarrow> (nat \<Rightarrow> http_request \<Rightarrow> axios_result) \<Rightarrow> string \<Rightarrow> WaitOptions \<Rightarrow> int \<Rightarrow> nat \<Rightarrow> nat
     \<Rightarrow> event list" where
  "batch_rounds c http batchId options interval i n =
     concat (map (\<lambda>j. batch_round c http batchId options j @ [Sleep interval]) [i..<n])"

text \<open>The arguments of the \<open>onProgress\<close> calls of \<open>wait\<close>, in order.\<close>

fun progress_calls :: "event list \<Rightarrow> json list" where
  "progress_calls [] = []"
| "progress_calls (Progress s # es) = s # progress_calls es"
| "progress_calls (e # es) = progress_calls es"

text \<open>What \<open>stream\<close> calls back on a terminal status.\<close>

definition terminal_callbacks :: "StreamCallback \<Rightarrow> json \<Rightarrow> event list" where
  "terminal_callbacks callback s =
     (if js_prop s ''status'' = Some (JStr ''completed'')
      then (if onComplete callback then [Complete s] else [])
      else (if onError callback
            then [Failure (Error (Some (or_else (js_prop s ''error'')
                    (JStr (''Task '' @ (case js_prop s ''status'' of
                                          Some (JStr t) \<Rightarrow> t | _ \<Rightarrow> []))))))]
            else []))"

text \<open>
  The events of \<open>stream\<close>. \<open>stream_messages s callback l\<close> is the new
  messages of a status and the message count after it, when \<open>l\<close> messages
  were seen before; \<open>stream_count\<close> is the count before iteration \<open>i\<close>;
  \<open>stream_round\<close> is the events of iteration \<open>i\<close> up to its terminal test.
\<close>

definition stream_messages :: "json \<Rightarrow> StreamCallback \<Rightarrow> nat \<Rightarrow> json list \<times> nat" where
  "stream_messages s callback l =
     (if truthy_opt (js_prop s ''messages'') \<and> onMessage callback
      then (case js_prop s ''messages'' of
              Some (JArr ms) \<Rightarrow> (drop l ms, length ms)
            | _ \<Rightarrow> ([], l))
      else ([], l))"

fun stream_count ::
  "Valyu \<Rightarrow> (nat \<Rightarrow> http_request \<Rightarrow> axios_result) \<Rightarrow> string \<Rightarrow> StreamCallback \<Rightarrow> nat \<Rightarrow> nat" where
  "stream_count c http taskId callback 0 = 0"
| "stream_count c http taskId callback (Suc i) =
     snd (stream_messages (status_at c http taskId i) callback (stream_count c http taskId callback i))"

definition stream_round ::
  "Valyu \<Rightarrow> (nat \<Rightarrow> http_request \<Rightarrow> axios_result) \<Rightarrow> string \<Rightarrow> StreamCallback \<Rightarrow> nat \<Rightarrow> event list" where
  "stream_round c http taskId callback i =
     Request (status_request c taskId)
     # (if truthy_opt (js_prop (status_at c http taskId i) ''progress'')
           \<and> StreamCallback.onProgress callback
        then [StepProgress (js_opt_prop (js_prop (status_at c http taskId i) ''progress'') ''current_step'')
                           (js_opt_prop (js_prop (status_at c http taskId i) ''progress'') ''total_steps'')]
        else [])
     @ map Message (fst (stream_messages (status_at c http taskId i) callback
                           (stream_count c http taskId callback i)))"

definition stream_rounds ::
  "Valyu \<Rightarrow> (nat \<Rightarrow> http_request \<Rightarrow> axios_result) \<Rightarrow> string \<Rightarrow> StreamCallback \<Rightarrow> nat \<Rightarrow> nat
     \<Rightarrow> event list" where
  "stream_rounds c http taskId callback i n =
     concat (map (\<lambda>j. stream_round c http taskId callback j @ [Sleep 5000]) [i..<n])"

section \<open>The answer endpoint: server-sent events\<close>

subsection \<open>Splitting the buffer into lines\<close>

definition nl :: char where
  "nl = CHR 0x0A"

text \<open>\<open>cur\<close> is the line read so far; \<open>split_from [] s\<close> is \<open>s.split("\n")\<close>.\<close>

fun split_from :: "string \<Rightarrow> string \<Rightarrow> string list" where
  "split_from cur [] = [cur]"
| "split_from cur (c # cs) =
     (if c = nl then cur # split_from [] cs else split_from (cur @ [c]) cs)"

definition split_nl :: "string \<Rightarrow> string list" where
  "split_nl s = split_from [] s"

text \<open>\<open>lines.pop() || ""\<close>: the last element, \<open>""\<close> when there is none.\<close>

definition pop_or_empty :: "string list \<Rightarrow> string" where
  "pop_or_empty ls = (if ls = [] then [] else last ls)"

text \<open>
  \<open>decoder.decode(value, {stream: true})\<close>: the decoder reads the chunk byte by
  byte and keeps its state between chunks. The step of the decoder is the
  parameter \<open>dec\<close>: from a state and a byte, the text to emit and the next state.
\<close>

fun decode :: "('d \<Rightarrow> 'b \<Rightarrow> string \<times> 'd) \<Rightarrow> 'd \<Rightarrow> 'b list \<Rightarrow> string \<times> 'd" where
  "decode dec d [] = ([], d)"
| "decode dec d (b # bs) =
     (case dec d b of (t, d1) \<Rightarrow> (case decode dec d1 bs of (ts, d2) \<Rightarrow> (t @ ts, d2)))"

subsection \<open>The response of \<open>fetch\<close>\<close>

text \<open>
  What \<open>reader.read()\<close> delivers: the chunks in order, then \<open>done\<close> or a
  rejection.
\<close>

datatype read_end = ReadDone | ReadThrows js_exception

text \<open>
  The \<open>Response\<close> of \<open>fetch\<close>: \<open>json_body\<close> is the result of
  \<open>response.json()\<close> (\<open>None\<close> when it rejects), \<open>body\<close> the chunks of
  \<open>response.body\<close> (\<open>None\<close> when there is no body).
\<close>

record 'b fetch_response =
  ok :: bool
  status :: nat
  json_body :: "json option"
  body :: "('b list list \<times> read_end) option"

datatype 'b fetch_result = FetchThrows js_exception | FetchResponse "'b fetch_response"

text \<open>
  \<open>errorData.error || `HTTP Error: ${response.status}`\<close> with
  \<open>errorData = await response.json().catch(() => ({}))\<close>; \<open>Inl\<close> is the
  TypeError thrown when the body is \<open>null\<close>.
\<close>

definition http_error_text :: "'b fetch_response \<Rightarrow> js_exception + json" where
  "http_error_text r =
     (let errorData = (case json_body r of None \<Rightarrow> JObj [] | Some j \<Rightarrow> j) in
      if errorData = JNull
      then Inl \<lparr> message = null_read_message ''error'', response_error = None \<rparr>
      else Inr (or_else (js_prop errorData ''error'')
                  (JStr (''HTTP Error: '' @ nat_str (status r)))))"

subsection \<open>streamAnswer\<close>

text \<open>
  The body of the \<open>try\<close> for one parsed payload: the chunks it yields, each an
  \<open>AnswerStreamChunk\<close> object; \<open>None\<close> when it throws
  (\<open>parsed.search_results\<close> on \<open>null\<close>), which the \<open>catch\<close> turns into
  \<open>continue\<close>.
\<close>

definition stream_parsed :: "json \<Rightarrow> json list option" where
  "stream_parsed parsed =
     (if parsed = JNull then None
      else if truthy_opt (js_prop parsed ''search_results'') \<and> js_prop parsed ''success'' = None then
        Some [object [(''type'', Some (JStr ''search_results'')),
                      (''search_results'', js_prop parsed ''search_results'')]]
      else if truthy_opt (js_prop parsed ''choices'') then
        (let choices0 = (case js_prop parsed ''choices'' of None \<Rightarrow> None | Some ch \<Rightarrow> index0 ch);
             delta = or_else (js_opt_prop choices0 ''delta'') (JObj []);
             content = or_else (js_prop delta ''content'') (JStr []);
             finishReason = js_opt_prop choices0 ''finish_reason''
         in if truthy content \<or> truthy_opt finishReason
            then Some [object [(''type'', Some (JStr ''content'')),
                               (''content'', Some content),
                               (''finish_reason'', finishReason)]]
            else Some [])
      else if js_prop parsed ''success'' \<noteq> None then
        Some [object [(''type'', Some (JStr ''metadata'')),
                      (''tx_id'', js_prop parsed ''tx_id''),
                      (''original_query'', js_prop parsed ''original_query''),
                      (''contents'', js_prop parsed ''contents''),
                      (''search_results'', js_prop parsed ''search_results''),
                      (''search_metadata'', js_prop parsed ''search_metadata''),
                      (''ai_usage'', js_prop parsed ''ai_usage''),
                      (''cost'', js_prop parsed ''cost''),
                      (''extraction_metadata'', js_prop parsed ''extraction_metadata'')]]
      else Some [])"

text \<open>One iteration of \<open>for (const line of lines)\<close>: the chunks it yields.\<close>

definition stream_line :: "(string \<Rightarrow> json option) \<Rightarrow> string \<Rightarrow> json list" where
  "stream_line parse line =
     (if take 6 line \<noteq> ''data: '' then []
      else let dataStr = drop 6 line in
        if dataStr = ''[DONE]'' then [JObj [(''type'', JStr ''done'')]]
        else (case parse dataStr of
                None \<Rightarrow> []
              | Some parsed \<Rightarrow> (case stream_parsed parsed of None \<Rightarrow> [] | Some cs \<Rightarrow> cs)))"

text \<open>
  The \<open>while (true)\<close> loop over \<open>reader.read()\<close>: the list holds the chunks
  still to be read; the loop ends when the reader reports \<open>done\<close>.
\<close>

fun stream_read ::
  "('d \<Rightarrow> 'b \<Rightarrow> string \<times> 'd) \<Rightarrow> (string \<Rightarrow> json option) \<Rightarrow> 'd \<Rightarrow> string \<Rightarrow> 'b list list
     \<Rightarrow> json list" where
  "stream_read dec parse d buffer [] = []"
| "stream_read dec parse d buffer (value # rest) =
     (case decode dec d value of (text, d1) \<Rightarrow>
        (let lines = split_nl (buffer @ text);
             buffer1 = pop_or_empty lines
         in concat (map (stream_line parse) (butlast lines))
            @ stream_read dec parse d1 buffer1 rest))"

definition error_chunk :: "json \<Rightarrow> json" where
  "error_chunk e = JObj [(''type'', JStr ''error''), (''error'', e)]"

text \<open>
  \<open>streamAnswer\<close>: the sequence of chunks the generator yields, given the outcome
  of the \<open>fetch\<close>. \<open>d0\<close> is the state of a new \<open>TextDecoder\<close>.
\<close>

definition streamAnswer ::
  "('d \<Rightarrow> 'b \<Rightarrow> string \<times> 'd) \<Rightarrow> 'd \<Rightarrow> (string \<Rightarrow> json option) \<Rightarrow> 'b fetch_result \<Rightarrow> json list" where
  "streamAnswer dec d0 parse result =
     (case result of
        FetchThrows e \<Rightarrow> [error_chunk (JStr (message_or e ''Stream failed''))]
      | FetchResponse r \<Rightarrow>
          if \<not> ok r then
            (case http_error_text r of
               Inl e \<Rightarrow> [error_chunk (JStr (message_or e ''Stream failed''))]
             | Inr t \<Rightarrow> [error_chunk t])
          else (case body r of
                  None \<Rightarrow> [error_chunk (JStr ''No response body'')]
                | Some (chunks, fin) \<Rightarrow>
                    stream_read dec parse d0 [] chunks
                    @ (case fin of
                         ReadDone \<Rightarrow> []
                       | ReadThrows e \<Rightarrow> [error_chunk (JStr (message_or e ''Stream failed''))])))"

subsection \<open>fetchAnswer\<close>

record fetch_state =
  fullContent :: string
  searchResults :: "json list"
  finalMetadata :: json

text \<open>\<open>fullContent = ""\<close>, \<open>searchResults = []\<close>, \<open>finalMetadata = {}\<close>.\<close>

definition initial_state :: fetch_state where
  "initial_state = \<lparr> fullContent = [], searchResults = [], finalMetadata = JObj [] \<rparr>"

text \<open>\<open>[...v]\<close> for a truthy \<open>v\<close>: \<open>None\<close> when \<open>v\<close> is not iterable.\<close>

fun spread_iter :: "json \<Rightarrow> json list option" where
  "spread_iter (JArr xs) = Some xs"
| "spread_iter (JStr s) = Some (map (\<lambda>c. JStr [c]) s)"
| "spread_iter v = None"

text \<open>
  The body of the \<open>try\<close> for one parsed payload: the new state, or \<open>None\<close> when
  it throws (the \<open>catch\<close> then leaves the state as it was).
\<close>

definition fetch_parsed :: "(real \<Rightarrow> string) \<Rightarrow> fetch_state \<Rightarrow> json \<Rightarrow> fetch_state option" where
  "fetch_parsed num_str st parsed =
     (if parsed = JNull then None
      else if truthy_opt (js_prop parsed ''search_results'')
              \<and> \<not> truthy_opt (js_prop parsed ''success'') then
        (case js_prop parsed ''search_results'' of
           None \<Rightarrow> None
         | Some sr \<Rightarrow>
             (case spread_iter sr of
                None \<Rightarrow> None
              | Some xs \<Rightarrow> Some (st\<lparr> searchResults := searchResults st @ xs \<rparr>)))
      else if truthy_opt (js_prop parsed ''choices'') then
        (let choices0 = (case js_prop parsed ''choices'' of None \<Rightarrow> None | Some ch \<Rightarrow> index0 ch);
             content = or_else (js_opt_prop (js_opt_prop choices0 ''delta'') ''content'') (JStr [])
         in if truthy content
            then Some (st\<lparr> fullContent := fullContent st @ ToString num_str content \<rparr>)
            else Some st)
      else if js_prop parsed ''success'' \<noteq> None then
        Some (st\<lparr> finalMetadata := parsed \<rparr>)
      else Some st)"

definition fetch_line ::
  "(string \<Rightarrow> json option) \<Rightarrow> (real \<Rightarrow> string) \<Rightarrow> fetch_state \<Rightarrow> string \<Rightarrow> fetch_state" where
  "fetch_line parse num_str st line =
     (if take 6 line \<noteq> ''data: '' then st
      else let dataStr = drop 6 line in
        if dataStr = ''[DONE]'' then st
        else (case parse dataStr of
                None \<Rightarrow> st
              | Some parsed \<Rightarrow>
                  (case fetch_parsed num_str st parsed of None \<Rightarrow> st | Some st1 \<Rightarrow> st1)))"

fun fetch_read ::
  "('d \<Rightarrow> 'b \<Rightarrow> string \<times> 'd) \<Rightarrow> (string \<Rightarrow> json option) \<Rightarrow> (real \<Rightarrow> string) \<Rightarrow> 'd \<Rightarrow> string
     \<Rightarrow> fetch_state \<Rightarrow> 'b list list \<Rightarrow> fetch_state" where
  "fetch_read dec parse num_str d buffer st [] = st"
| "fetch_read dec parse num_str d buffer st (value # rest) =
     (case decode dec d value of (text, d1) \<Rightarrow>
        (let lines = split_nl (buffer @ text);
             buffer1 = pop_or_empty lines
         in fetch_read dec parse num_str d1 buffer1
              (foldl (fetch_line parse num_str) st (butlast lines)) rest))"

text \<open>\<open>// Build final response\<close>, from the collected state and \<open>payload.query\<close>.\<close>

definition build_final :: "json option \<Rightarrow> fetch_state \<Rightarrow> json" where
  "build_final payload_query st =
     (let fm = finalMetadata st in
      if truthy_opt (js_prop fm ''success'') then
        object [
          (''success'', Some (JBool True)),
          (''tx_id'', Some (or_else (js_prop fm ''tx_id'') (JStr []))),
          (''original_query'',
             (if truthy_opt (js_prop fm ''original_query'')
              then js_prop fm ''original_query'' else payload_query)),
          (''contents'',
             Some (or_else (js_prop fm ''contents'') (JStr (fullContent st)))),
          (''search_results'',
             Some (or_else (js_prop fm ''search_results'') (JArr (searchResults st)))),
          (''search_metadata'',
             Some (or_else (js_prop fm ''search_metadata'')
               (JObj [(''tx_ids'', JArr []), (''number_of_results'', JNum 0),
                      (''total_characters'', JNum 0)]))),
          (''ai_usage'',
             Some (or_else (js_prop fm ''ai_usage'')
               (JObj [(''input_tokens'', JNum 0), (''output_tokens'', JNum 0)]))),
          (''cost'',
             Some (or_else (js_prop fm ''cost'')
               (JObj [(''total_deduction_dollars'', JNum 0),
                      (''search_deduction_dollars'', JNum 0),
                      (''ai_deduction_dollars'', JNum 0)]))),
          (''extraction_metadata'',
             (if truthy_opt (js_prop fm ''extraction_metadata'')
              then js_prop fm ''extraction_metadata'' else None))]
      else
        JObj [(''success'', JBool False),
              (''error'', or_else (js_prop fm ''error'') (JStr ''Unknown error occurred''))])"

definition error_response :: "json \<Rightarrow> json" where
  "error_response e = JObj [(''success'', JBool False), (''error'', e)]"

text \<open>
  \<open>fetchAnswer\<close>: the response it resolves to, given \<open>payload.query\<close> and the
  outcome of the \<open>fetch\<close>.
\<close>

definition fetchAnswer ::
  "('d \<Rightarrow> 'b \<Rightarrow> string \<times> 'd) \<Rightarrow> 'd \<Rightarrow> (string \<Rightarrow> json option) \<Rightarrow> (real \<Rightarrow> string)
     \<Rightarrow> json option \<Rightarrow> 'b fetch_result \<Rightarrow> json" where
  "fetchAnswer dec d0 parse num_str payload_query result =
     (case result of
        FetchThrows e \<Rightarrow> error_response (JStr (message_or e ''Request failed''))
      | FetchResponse r \<Rightarrow>
          if \<not> ok r then
            (case http_error_text r of
               Inl e \<Rightarrow> error_response (JStr (message_or e ''Request failed''))
             | Inr t \<Rightarrow> error_response t)
          else (case body r of
                  None \<Rightarrow> build_final payload_query initial_state
                | Some (chunks, fin) \<Rightarrow>
                    (case fin of
                       ReadThrows e \<Rightarrow> error_response (JStr (message_or e ''Request failed''))
                     | ReadDone \<Rightarrow>
                         build_final payload_query
                           (fetch_read dec parse num_str d0 [] initial_state chunks))))"

section \<open>Example inputs\<close>

definition example_client :: Valyu where
  "example_client = \<lparr> baseUrl = ''https://api.valyu.ai/v1'',
       headers = [(''Content-Type'', ''application/json''), (''x-api-key'', ''key-1'')] \<rparr>"

text \<open>A server answering with status 200 and the given body.\<close>

definition respond :: "json \<Rightarrow> axios_result" where
  "respond j = AxiosResponse \<lparr> http_status = 200, data = j, content_type = None \<rparr>"

text \<open>A task that is running at every poll.\<close>

definition always_running :: "nat \<Rightarrow> http_request \<Rightarrow> axios_result" where
  "always_running i req = respond (JObj [(''status'', JStr ''running'')])"

text \<open>A task that is running at the first \<open>n\<close> polls and completed from then on.\<close>

definition completed_after :: "nat \<Rightarrow> nat \<Rightarrow> http_request \<Rightarrow> axios_result" where
  "completed_after n i req =
     respond (JObj [(''status'', JStr (if i < n then ''running'' else ''completed''))])"

text \<open>
  A task that is running at the first two polls and completed from then on,
  with one more message at every poll and a progress at the first.
\<close>

definition talking_task :: "nat \<Rightarrow> http_request \<Rightarrow> axios_result" where
  "talking_task i req =
     respond (JObj ((''status'', JStr (if i < 2 then ''running'' else ''completed''))
        # (''messages'', JArr (take (Suc i) [JStr ''m1'', JStr ''m2'', JStr ''m3'']))
        # (if i = 0
           then [(''progress'', JObj [(''current_step'', JNum 1), (''total_steps'', JNum 3)])]
           else [])))"

text \<open>A batch that is processing at the first \<open>n\<close> polls and completed from then on.\<close>

definition batch_completed_after :: "nat \<Rightarrow> nat \<Rightarrow> http_request \<Rightarrow> axios_result" where
  "batch_completed_after n i req =
     respond (JObj [(''status'', JStr (if i < n then ''processing'' else ''completed''))])"

definition all_callbacks :: StreamCallback where
  "all_callbacks = \<lparr> onMessage = True, onProgress = True, onComplete = True, onError = True \<rparr>"

text \<open>A decoder of one character per byte, without state.\<close>

definition latin1 :: "unit \<Rightarrow> char \<Rightarrow> string \<times> unit" where
  "latin1 d b = ([b], d)"

text \<open>A response with status 200 whose body arrives in the given chunks.\<close>

definition sse_response :: "'b list list \<Rightarrow> 'b fetch_result" where
  "sse_response chunks =
     FetchResponse \<lparr> ok = True, status = 200, json_body = None, body = Some (chunks, ReadDone) \<rparr>"

text \<open>
  A final payload that reports a failure and carries search results, and the
  \<open>JSON.parse\<close> of the runtime restricted to the payloads of the examples.
\<close>

definition failed_payload_text :: string where
  "failed_payload_text = ''{\"success\": false, \"error\": \"boom\", \"search_results\": [\"r1\"]}''"

definition failed_payload :: json where
  "failed_payload = JObj [(''success'', JBool False), (''error'', JStr ''boom''),
                          (''search_results'', JArr [JStr ''r1''])]"

definition delta_payload_text :: string where
  "delta_payload_text =
     ''{\"success\": false, \"search_results\": [\"r1\"], \"choices\": [{\"delta\": {\"content\": \"Hi\"}}]}''"

definition delta_payload :: json where
  "delta_payload = JObj [(''success'', JBool False), (''search_results'', JArr [JStr ''r1'']),
       (''choices'', JArr [JObj [(''delta'', JObj [(''content'', JStr ''Hi'')])]])]"

definition success_payload_text :: string where
  "success_payload_text = ''{\"success\": true}''"

definition success_payload :: json where
  "success_payload = JObj [(''success'', JBool True)]"

definition example_parse :: "string \<Rightarrow> json option" where
  "example_parse = map_of [(failed_payload_text, failed_payload),
                           (delta_payload_text, delta_payload),
                           (success_payload_text, success_payload)]"

text \<open>
  A stream of the answer endpoint: an event line, a payload with search
  results, a content delta, a payload that is no JSON, the final metadata and
  the end marker, each on a complete line, then a content delta on a last
  line without newline; and \<open>JSON.parse\<close> restricted to its payloads.
\<close>

definition results_event_text :: string where
  "results_event_text = ''{\"search_results\": [\"r1\"]}''"

definition results_event :: json where
  "results_event = JObj [(''search_results'', JArr [JStr ''r1''])]"

definition content_event_text :: string where
  "content_event_text = ''{\"choices\": [{\"delta\": {\"content\": \"Hi\"}}]}''"

definition content_event :: json where
  "content_event = JObj [(''choices'', JArr [JObj [(''delta'', JObj [(''content'', JStr ''Hi'')])]])]"

definition answer_parse :: "string \<Rightarrow> json option" where
  "answer_parse = map_of [(results_event_text, results_event),
                          (content_event_text, content_event),
                          (success_payload_text, success_payload)]"

definition answer_lines :: "string list" where
  "answer_lines = [''event: message'',
                   ''data: '' @ results_event_text,
                   ''data: '' @ content_event_text,
                   ''data: {oops'',
                   ''data: '' @ success_payload_text,
                   ''data: [DONE]'']"

definition answer_stream :: string where
  "answer_stream = concat (map (\<lambda>l. l @ [nl]) answer_lines) @ ''data: '' @ content_event_text"

text \<open>
  A runtime for the examples. Its \<open>URL\<close> accepts what has a scheme (a letter,
  then letters, digits, \<open>+\<close>, \<open>-\<close> or \<open>.\<close>, then a colon); the constructor
  of the real runtime rejects every string without one. Its \<open>Date\<close> accepts
  the dates of the examples.
\<close>

definition has_scheme :: "string \<Rightarrow> bool" where
  "has_scheme s =
     (case dropWhile (\<lambda>c. is_alnum c \<or> c \<in> set ''+-.'') s of
        [] \<Rightarrow> False
      | c # cs \<Rightarrow> c = CHR '':'' \<and> s \<noteq> [] \<and> is_alnum (hd s) \<and> \<not> is_digit (hd s))"

definition example_runtime :: js_runtime where
  "example_runtime = \<lparr> url_parses = has_scheme,
                         date_parses = (\<lambda>s. s \<in> set [''2024-01-15'', ''2024-12-31'']),
                         form_encode = (\<lambda>s. s),
                         number_text = (\<lambda>x. if x = 10 then ''10'' else if x = 5 then ''5'' else ''1'') \<rparr>"

text \<open>\<open>search(query)\<close> and \<open>contents(urls)\<close> without options.\<close>

definition no_search_options :: SearchOptions where
  "no_search_options = \<lparr> searchType = None, maxNumResults = None, maxPrice = None,
     isToolCall = None, relevanceThreshold = None, includedSources = None, excludeSources = None,
     category = None, startDate = None, endDate = None, countryCode = None,
     responseLength = None, fastMode = None, urlOnly = None \<rparr>"

definition no_contents_options :: ContentsOptions where
  "no_contents_options = \<lparr> summary = None, extractEffort = None, responseLength = None,
     maxPriceDollars = None, screenshot = None \<rparr>"

definition no_answer_options :: AnswerOptions where
  "no_answer_options = \<lparr> structuredOutput = None, systemInstructions = None, searchType = None,
     dataMaxPrice = None, countryCode = None, includedSources = None, excludedSources = None,
     startDate = None, endDate = None, fastMode = None, streaming = None \<rparr>"

text \<open>A server that answers every request with status 200 and \<open>{"success": true}\<close>.\<close>

definition server_ok :: "http_request \<Rightarrow> axios_result" where
  "server_ok req = respond (JObj [(''success'', JBool True)])"

section \<open>Lemmas\<close>

subsection \<open>The polling loops\<close>

lemma deepresearchStatus_eq:
  "deepresearchStatus c h taskId = (fst (deepresearchStatus c h taskId), [status_request c taskId])"
  by (simp add: deepresearchStatus_def status_request_def Let_def)

lemma wait_loop_step:
  assumes "wait_continues c http now taskId maxWait startTime i"
  shows "deepresearchWait_loop c http now taskId options interval maxWait startTime i tr =
         deepresearchWait_loop c http now taskId options interval maxWait startTime (Suc i)
           (tr @ wait_round c http taskId options i @ [Sleep interval])"
  using assms
  apply (subst deepresearchWait_loop.simps)
  apply (subst deepresearchStatus_eq)
  apply (simp add: wait_continues_def status_at_def wait_round_def Let_def)
  done

lemma wait_loop_run:
  assumes "\<forall>j. i \<le> j \<and> j < n \<longrightarrow> wait_continues c http now taskId maxWait startTime j" "i \<le> n"
  shows "deepresearchWait_loop c http now taskId options interval maxWait startTime i tr =
         deepresearchWait_loop c http now taskId options interval maxWait startTime n
           (tr @ wait_rounds c http taskId options interval i n)"
  using assms(2,1)
proof (induction n rule: dec_induct)
  case base
  then show ?case by (simp add: wait_rounds_def)
next
  case (step n)
  then show ?case by (simp add: wait_loop_step wait_rounds_def)
qed

text \<open>What the loop does in an iteration that does not go on.\<close>

lemma wait_loop_stop:
  assumes "\<not> wait_continues c http now taskId maxWait startTime i"
  shows "deepresearchWait_loop c http now taskId options interval maxWait startTime i tr =
     Some (if \<not> truthy_opt (js_prop (status_at c http taskId i) ''success'')
           then (tr @ [Request (status_request c taskId)],
                 Inl (Error (js_prop (status_at c http taskId i) ''error'')))
           else if wait_terminal (js_prop (status_at c http taskId i) ''status'')
           then (tr @ wait_round c http taskId options i, Inr (status_at c http taskId i))
           else (tr @ wait_round c http taskId options i,
                 Inl (Error (Some (JStr ''Maximum wait time exceeded'')))))"
  using assms
  apply (subst deepresearchWait_loop.simps)
  apply (subst deepresearchStatus_eq)
  apply (auto simp: wait_continues_def status_at_def wait_round_def Let_def)
  done

lemma wait_result:
  assumes "\<forall>j<m. wait_continues c http now taskId (num_or (maxWaitTime options) 7200000) startTime j"
    and "\<not> wait_continues c http now taskId (num_or (maxWaitTime options) 7200000) startTime m"
  shows "deepresearchWait c http now startTime taskId options =
     Some (if \<not> truthy_opt (js_prop (status_at c http taskId m) ''success'')
           then (wait_rounds c http taskId options (num_or (pollInterval options) 5000) 0 m
                   @ [Request (status_request c taskId)],
                 Inl (Error (js_prop (status_at c http taskId m) ''error'')))
           else if wait_terminal (js_prop (status_at c http taskId m) ''status'')
           then (wait_rounds c http taskId options (num_or (pollInterval options) 5000) 0 m
                   @ wait_round c http taskId options m,
                 Inr (status_at c http taskId m))
           else (wait_rounds c http taskId options (num_or (pollInterval options) 5000) 0 m
                   @ wait_round c http taskId options m,
                 Inl (Error (Some (JStr ''Maximum wait time exceeded'')))))"
proof -
  have "deepresearchWait c http now startTime taskId options =
        deepresearchWait_loop c http now taskId options (num_or (pollInterval options) 5000)
          (num_or (maxWaitTime options) 7200000) startTime m
          ([] @ wait_rounds c http taskId options (num_or (pollInterval options) 5000) 0 m)"
    unfolding deepresearchWait_def using assms(1) by (intro wait_loop_run) auto
  then show ?thesis using wait_loop_stop [OF assms(2)] by simp
qed

lemma requests_wait_rounds:
  "length (filter is_request (wait_rounds c http taskId options interval i n)) = n - i"
proof (induction n)
  case 0
  then show ?case by (simp add: wait_rounds_def)
next
  case (Suc n)
  then show ?case by (cases "i \<le> n") (auto simp: wait_rounds_def wait_round_def)
qed

text \<open>An iteration that does not go on exists as soon as one is known: take the first.\<close>

lemma first_stop:
  assumes "\<not> P (n::nat)"
  obtains m where "m \<le> n" "\<not> P m" "\<forall>j<m. P j"
proof -
  let ?m = "LEAST k. \<not> P k"
  have "\<not> P ?m" using assms by (rule LeastI)
  moreover have "?m \<le> n" using assms by (rule Least_le)
  moreover have "\<forall>j<?m. P j" using not_less_Least by blast
  ultimately show ?thesis using that by blast
qed

lemma batchStatus_eq:
  "batchStatus c h batchId = (fst (batchStatus c h batchId), [batch_request c batchId])"
  by (simp add: batchStatus_def batch_request_def Let_def)

lemma batch_loop_step:
  assumes "batch_continues c http now batchId maxWait startTime i"
  shows "batchWaitForCompletion_loop c http now batchId options interval maxWait startTime i tr =
         batchWaitForCompletion_loop c http now batchId options interval maxWait startTime (Suc i)
           (tr @ batch_round c http batchId options i @ [Sleep interval])"
  using assms
  apply (subst batchWaitForCompletion_loop.simps)
  apply (subst batchStatus_eq)
  apply (auto simp: batch_continues_def batch_ok_def batch_response_at_def batch_at_def
                    batch_round_def Let_def split: option.splits)
  done

lemma batch_loop_run:
  assumes "\<forall>j. i \<le> j \<and> j < n \<longrightarrow> batch_continues c http now batchId maxWait startTime j" "i \<le> n"
  shows "batchWaitForCompletion_loop c http now batchId options interval maxWait startTime i tr =
         batchWaitForCompletion_loop c http now batchId options interval maxWait startTime n
           (tr @ batch_rounds c http batchId options interval i n)"
  using assms(2,1)
proof (induction n rule: dec_induct)
  case base
  then show ?case by (simp add: batch_rounds_def)
next
  case (step n)
  then show ?case by (simp add: batch_loop_step batch_rounds_def)
qed

lemma batch_loop_stop:
  assumes "\<not> batch_continues c http now batchId maxWait startTime i"
  shows "batchWaitForCompletion_loop c http now batchId options interval maxWait startTime i tr =
     Some (if \<not> batch_ok (batch_response_at c http batchId i)
           then (tr @ [Request (batch_request c batchId)],
                 Inl (Error (Some (or_else (js_prop (batch_response_at c http batchId i) ''error'')
                                     (JStr ''Failed to get batch status'')))))
           else if batch_terminal (js_prop (batch_at c http batchId i) ''status'')
           then (tr @ batch_round c http batchId options i, Inr (batch_at c http batchId i))
           else (tr @ batch_round c http batchId options i,
                 Inl (Error (Some (JStr ''Maximum wait time exceeded'')))))"
  using assms
  apply (subst batchWaitForCompletion_loop.simps)
  apply (subst batchStatus_eq)
  apply (auto simp: batch_continues_def batch_ok_def batch_response_at_def batch_at_def
                    batch_round_def Let_def split: option.splits)
  done

lemma batch_result:
  assumes "\<forall>j<m. batch_continues c http now batchId (num_or (maxWaitTime options) 7200000) startTime j"
    and "\<not> batch_continues c http now batchId (num_or (maxWaitTime options) 7200000) startTime m"
  shows "batchWaitForCompletion c http now startTime batchId options =
     Some (if \<not> batch_ok (batch_response_at c http batchId m)
           then (batch_rounds c http batchId options (num_or (pollInterval options) 10000) 0 m
                   @ [Request (batch_request c batchId)],
                 Inl (Error (Some (or_else (js_prop (batch_response_at c http batchId m) ''error'')
                                     (JStr ''Failed to get batch status'')))))
           else if batch_terminal (js_prop (batch_at c http batchId m) ''status'')
           then (batch_rounds c http batchId options (num_or (pollInterval options) 10000) 0 m
                   @ batch_round c http batchId options m,
                 Inr (batch_at c http batchId m))
           else (batch_rounds c http batchId options (num_or (pollInterval options) 10000) 0 m
                   @ batch_round c http batchId options m,
                 Inl (Error (Some (JStr ''Maximum wait time exceeded'')))))"
proof -
  have "batchWaitForCompletion c http now startTime batchId options =
        batchWaitForCompletion_loop c http now batchId options (num_or (pollInterval options) 10000)
          (num_or (maxWaitTime options) 7200000) startTime m
          ([] @ batch_rounds c http batchId options (num_or (pollInterval options) 10000) 0 m)"
    unfolding batchWaitForCompletion_def using assms(1) by (intro batch_loop_run) auto
  then show ?thesis using batch_loop_stop [OF assms(2)] by simp
qed

lemma requests_batch_rounds:
  "length (filter is_request (batch_rounds c http batchId options interval i n)) = n - i"
proof (induction n)
  case 0
  then show ?case by (simp add: batch_rounds_def)
next
  case (Suc n)
  then show ?case by (cases "i \<le> n") (auto simp: batch_rounds_def batch_round_def)
qed

lemma new_messages_None [simp]:
  "(new_messages v l = None) = (\<not> is_array (Some v))"
  by (cases v) auto

text \<open>The new messages and the new message count of iteration \<open>i\<close>.\<close>

lemma stream_messages_ok:
  assumes "\<not> (truthy_opt (js_prop s ''messages'') \<and> onMessage callback
              \<and> \<not> is_array (js_prop s ''messages''))"
  shows "\<exists>nm l1. (if truthy_opt (js_prop s ''messages'') \<and> onMessage callback
                   then (case js_prop s ''messages'' of
                           None \<Rightarrow> None
                         | Some ms \<Rightarrow> new_messages ms l)
                   else Some ([], l)) = Some (nm, l1)"
proof (cases "truthy_opt (js_prop s ''messages'') \<and> onMessage callback")
  case False
  then show ?thesis by auto
next
  case True
  then have "is_array (js_prop s ''messages'')" using assms by blast
  then obtain xs where "js_prop s ''messages'' = Some (JArr xs)"
    by (auto elim: is_array.elims)
  then show ?thesis using True by simp
qed

lemma stream_loop_step:
  assumes "\<not> stream_stops c http taskId callback i"
  shows "\<exists>l1 t1. deepresearchStream_loop c http taskId callback l i t =
                  deepresearchStream_loop c http taskId callback l1 (Suc i) t1"
proof -
  let ?s = "fst (deepresearchStatus c (http i) taskId)"
  have ok: "truthy_opt (js_prop ?s ''success'')"
    and nt: "js_prop ?s ''status'' \<noteq> Some (JStr ''completed'')"
            "js_prop ?s ''status'' \<noteq> Some (JStr ''failed'')"
            "js_prop ?s ''status'' \<noteq> Some (JStr ''cancelled'')"
    and mo: "\<not> (truthy_opt (js_prop ?s ''messages'') \<and> onMessage callback
              \<and> \<not> is_array (js_prop ?s ''messages''))"
    using assms by (auto simp: stream_stops_def status_at_def wait_terminal_def)
  obtain nm l1 where m: "(if truthy_opt (js_prop ?s ''messages'') \<and> onMessage callback
                   then (case js_prop ?s ''messages'' of
                           None \<Rightarrow> None
                         | Some ms \<Rightarrow> new_messages ms l)
                   else Some ([], l)) = Some (nm, l1)"
    using stream_messages_ok [OF mo] by blast
  show ?thesis
    apply (subst deepresearchStream_loop.simps)
    apply (subst deepresearchStatus_eq)
    apply (simp only: prod.case Let_def ok nt m not_True_eq_False if_False if_True option.case simp_thms)
    apply blast
    done
qed

lemma stream_loop_run:
  assumes "\<forall>j. i \<le> j \<and> j < n \<longrightarrow> \<not> stream_stops c http taskId callback j" "i \<le> n"
  shows "\<exists>l1 t1. deepresearchStream_loop c http taskId callback l i t =
                  deepresearchStream_loop c http taskId callback l1 n t1"
  using assms(2,1)
proof (induction n rule: dec_induct)
  case base
  then show ?case by blast
next
  case (step n)
  then obtain l1 t1 where "deepresearchStream_loop c http taskId callback l i t =
      deepresearchStream_loop c http taskId callback l1 n t1" by auto
  moreover have "\<not> stream_stops c http taskId callback n" using step by simp
  ultimately show ?case using stream_loop_step [of c http taskId callback n l1 t1] by auto
qed

lemma stream_loop_terminal:
  assumes ok: "truthy_opt (js_prop (status_at c http taskId i) ''success'')"
    and mo: "\<not> (truthy_opt (js_prop (status_at c http taskId i) ''messages'') \<and> onMessage callback
            \<and> \<not> is_array (js_prop (status_at c http taskId i) ''messages''))"
    and te: "wait_terminal (js_prop (status_at c http taskId i) ''status'')"
  shows "\<exists>tr. deepresearchStream_loop c http taskId callback l i t =
     Some (tr @ terminal_callbacks callback (status_at c http taskId i), Inr ())"
proof -
  let ?s = "fst (deepresearchStatus c (http i) taskId)"
  have s: "status_at c http taskId i = ?s" by (simp add: status_at_def)
  obtain nm l1 where m: "(if truthy_opt (js_prop ?s ''messages'') \<and> onMessage callback
                   then (case js_prop ?s ''messages'' of
                           None \<Rightarrow> None
                         | Some ms \<Rightarrow> new_messages ms l)
                   else Some ([], l)) = Some (nm, l1)"
    using stream_messages_ok [OF mo [unfolded s]] by blast
  have ok': "truthy_opt (js_prop ?s ''success'')" using ok by (simp add: s)
  show ?thesis
  proof (cases "js_prop ?s ''status'' = Some (JStr ''completed'')")
    case True
    show ?thesis
      apply (subst deepresearchStream_loop.simps)
      apply (subst deepresearchStatus_eq)
      apply (simp only: prod.case Let_def ok' m True s terminal_callbacks_def
               not_True_eq_False if_False if_True option.case simp_thms)
      apply (metis append.assoc)
      done
  next
    case False
    then have fc: "js_prop ?s ''status'' = Some (JStr ''failed'')
                   \<or> js_prop ?s ''status'' = Some (JStr ''cancelled'')"
      using te by (auto simp: wait_terminal_def s)
    show ?thesis
      apply (subst deepresearchStream_loop.simps)
      apply (subst deepresearchStatus_eq)
      apply (simp only: prod.case Let_def ok' m False fc s terminal_callbacks_def
               not_True_eq_False if_False if_True option.case simp_thms)
      apply (metis append.assoc)
      done
  qed
qed

lemma stream_loop_stop:
  assumes "stream_stops c http taskId callback i"
  shows "\<exists>r. deepresearchStream_loop c http taskId callback l i t = Some r"
proof -
  let ?s = "fst (deepresearchStatus c (http i) taskId)"
  have s: "status_at c http taskId i = ?s" by (simp add: status_at_def)
  show ?thesis
  proof (cases "truthy_opt (js_prop ?s ''success'')")
    case False
    show ?thesis
      apply (subst deepresearchStream_loop.simps)
      apply (subst deepresearchStatus_eq)
      apply (simp only: prod.case Let_def False not_False_eq_True if_True)
      apply blast
      done
  next
    case ok: True
    show ?thesis
    proof (cases "truthy_opt (js_prop ?s ''messages'') \<and> onMessage callback
              \<and> \<not> is_array (js_prop ?s ''messages'')")
      case True
      then obtain v where v: "js_prop ?s ''messages'' = Some v" "\<not> is_array (Some v)"
        by (cases "js_prop ?s ''messages''") auto
      have m: "(if truthy_opt (js_prop ?s ''messages'') \<and> onMessage callback
                   then (case js_prop ?s ''messages'' of
                           None \<Rightarrow> None
                         | Some ms \<Rightarrow> new_messages ms l)
                   else Some ([], l)) = None"
        using True v by simp
      show ?thesis
        apply (subst deepresearchStream_loop.simps)
        apply (subst deepresearchStatus_eq)
        apply (simp only: prod.case Let_def ok m not_True_eq_False if_False if_True option.case simp_thms)
        apply blast
        done
    next
      case False
      then have "wait_terminal (js_prop (status_at c http taskId i) ''status'')"
        using assms ok by (auto simp: stream_stops_def s)
      then show ?thesis
        using stream_loop_terminal [of c http taskId i callback l t] ok False
        by (auto simp: s)
    qed
  qed
qed

lemma stream_loop_returns:
  assumes "deepresearchStream_loop c http taskId callback l i t = Some r"
  shows "\<exists>j\<ge>i. stream_stops c http taskId callback j"
proof -
  have step: "\<exists>j\<ge>i. stream_stops c http taskId callback j"
    if IH: "\<And>c http taskId callback l i t r.
              loop c http taskId callback l i t = Some r \<Longrightarrow>
              \<exists>j\<ge>i. stream_stops c http taskId callback j"
    and eq: "(case deepresearchStatus c (http i) taskId of (sr, reqs) \<Rightarrow>
        (let trace1 = t @ map Request reqs in
         if \<not> truthy_opt (js_prop sr ''success'')
         then Some (trace1 @ (if onError callback then [Failure (Error (js_prop sr ''error''))] else []),
                    Inr ())
         else
           (let trace2 = trace1 @
                  (if truthy_opt (js_prop sr ''progress'') \<and> StreamCallback.onProgress callback
                   then [StepProgress (js_opt_prop (js_prop sr ''progress'') ''current_step'')
                                      (js_opt_prop (js_prop sr ''progress'') ''total_steps'')]
                   else [])
            in
            (case (if truthy_opt (js_prop sr ''messages'') \<and> onMessage callback
                   then (case js_prop sr ''messages'' of
                           None \<Rightarrow> None
                         | Some ms \<Rightarrow> new_messages ms l)
                   else Some ([], l)) of
               None \<Rightarrow>
                 Some (trace2 @ (if onError callback then [Failure TypeError] else []), Inl TypeError)
             | Some (newMessages, lastMessageCount1) \<Rightarrow>
                 (let trace3 = trace2 @ map Message newMessages in
                  if js_prop sr ''status'' = Some (JStr ''completed'')
                  then Some (trace3 @ (if onComplete callback then [Complete sr] else []), Inr ())
                  else if js_prop sr ''status'' = Some (JStr ''failed'')
                          \<or> js_prop sr ''status'' = Some (JStr ''cancelled'')
                  then Some (trace3 @
                         (if onError callback
                          then [Failure (Error (Some (or_else (js_prop sr ''error'')
                                  (JStr (''Task '' @ (case js_prop sr ''status'' of
                                                        Some (JStr s) \<Rightarrow> s | _ \<Rightarrow> []))))))]
                          else []),
                         Inr ())
                  else loop c http taskId callback lastMessageCount1 (Suc i)
                         (trace3 @ [Sleep 5000])))))) = Some r"
    for loop c http taskId callback l i t r
  proof (cases "stream_stops c http taskId callback i")
    case True
    then show ?thesis by blast
  next
    case False
    let ?s = "fst (deepresearchStatus c (http i) taskId)"
    have ok: "truthy_opt (js_prop ?s ''success'')"
      and nt: "js_prop ?s ''status'' \<noteq> Some (JStr ''completed'')"
              "js_prop ?s ''status'' \<noteq> Some (JStr ''failed'')"
              "js_prop ?s ''status'' \<noteq> Some (JStr ''cancelled'')"
      and mo: "\<not> (truthy_opt (js_prop ?s ''messages'') \<and> onMessage callback
                \<and> \<not> is_array (js_prop ?s ''messages''))"
      using False by (auto simp: stream_stops_def status_at_def wait_terminal_def)
    obtain nm l1 where m: "(if truthy_opt (js_prop ?s ''messages'') \<and> onMessage callback
                     then (case js_prop ?s ''messages'' of
                             None \<Rightarrow> None
                           | Some ms \<Rightarrow> new_messages ms l)
                     else Some ([], l)) = Some (nm, l1)"
      using stream_messages_ok [OF mo] by blast
    have "\<exists>t1. loop c http taskId callback l1 (Suc i) t1 = Some r"
      using eq
      apply (subst (asm) deepresearchStatus_eq)
      apply (simp only: prod.case Let_def ok nt m not_True_eq_False if_False if_True option.case simp_thms)
      apply blast
      done
    then obtain t1 where "loop c http taskId callback l1 (Suc i) t1 = Some r" by blast
    then have "\<exists>j\<ge>Suc i. stream_stops c http taskId callback j" by (rule IH)
    then show ?thesis using Suc_leD by blast
  qed
  show ?thesis
    by (rule deepresearchStream_loop.raw_induct
          [where P = "\<lambda>c http taskId callback l i t r. \<exists>j\<ge>i. stream_stops c http taskId callback j",
           OF step assms])
qed

lemma progress_calls_append [simp]:
  "progress_calls (a @ b) = progress_calls a @ progress_calls b"
  by (induction a rule: progress_calls.induct) auto

lemma progress_calls_wait_round:
  "progress_calls (wait_round c http taskId options i) =
     (if WaitOptions.onProgress options then [status_at c http taskId i] else [])"
  by (simp add: wait_round_def)

lemma progress_calls_wait_rounds:
  "progress_calls (wait_rounds c http taskId options interval i n) =
     (if WaitOptions.onProgress options then map (status_at c http taskId) [i..<n] else [])"
proof (induction n)
  case 0
  then show ?case by (simp add: wait_rounds_def)
next
  case (Suc n)
  then show ?case
    by (cases "i \<le> n") (auto simp: wait_rounds_def progress_calls_wait_round)
qed

lemma status_at_completed_after [simp]:
  "status_at c (completed_after n) taskId i =
     JObj [(''success'', JBool True), (''status'', JStr (if i < n then ''running'' else ''completed''))]"
  by (simp add: status_at_def deepresearchStatus_def completed_after_def respond_def
        success_with_def AList.merge_def Let_def)

lemma status_at_always_running [simp]:
  "status_at c always_running taskId i =
     JObj [(''success'', JBool True), (''status'', JStr ''running'')]"
  by (simp add: status_at_def deepresearchStatus_def always_running_def respond_def
        success_with_def AList.merge_def Let_def)

lemma batch_response_at_completed_after [simp]:
  "batch_response_at c (batch_completed_after n) batchId i =
     JObj [(''success'', JBool True),
           (''batch'', JObj [(''status'', JStr (if i < n then ''processing'' else ''completed''))])]"
  by (simp add: batch_response_at_def batchStatus_def batch_completed_after_def respond_def Let_def)

text \<open>The exact events of \<open>stream\<close>.\<close>

lemma stream_messages_eq:
  assumes "\<not> (truthy_opt (js_prop s ''messages'') \<and> onMessage callback
              \<and> \<not> is_array (js_prop s ''messages''))"
  shows "(if truthy_opt (js_prop s ''messages'') \<and> onMessage callback
                   then (case js_prop s ''messages'' of
                           None \<Rightarrow> None
                         | Some ms \<Rightarrow> new_messages ms l)
                   else Some ([], l)) = Some (fst (stream_messages s callback l), snd (stream_messages s callback l))"
proof (cases "truthy_opt (js_prop s ''messages'') \<and> onMessage callback")
  case False
  then show ?thesis by (auto simp: stream_messages_def)
next
  case True
  then have "is_array (js_prop s ''messages'')" using assms by blast
  then obtain xs where "js_prop s ''messages'' = Some (JArr xs)"
    by (auto elim: is_array.elims)
  then show ?thesis using True by (simp add: stream_messages_def)
qed

lemma stream_loop_step_exact:
  assumes "\<not> stream_stops c http taskId callback i"
  shows "deepresearchStream_loop c http taskId callback (stream_count c http taskId callback i) i t =
         deepresearchStream_loop c http taskId callback (stream_count c http taskId callback (Suc i)) (Suc i)
           (t @ stream_round c http taskId callback i @ [Sleep 5000])"
proof -
  let ?s = "fst (deepresearchStatus c (http i) taskId)"
  let ?l = "stream_count c http taskId callback i"
  have s: "status_at c http taskId i = ?s" by (simp add: status_at_def)
  have ok: "truthy_opt (js_prop ?s ''success'')"
    and nt: "js_prop ?s ''status'' \<noteq> Some (JStr ''completed'')"
            "js_prop ?s ''status'' \<noteq> Some (JStr ''failed'')"
            "js_prop ?s ''status'' \<noteq> Some (JStr ''cancelled'')"
    and mo: "\<not> (truthy_opt (js_prop ?s ''messages'') \<and> onMessage callback
              \<and> \<not> is_array (js_prop ?s ''messages''))"
    using assms by (auto simp: stream_stops_def status_at_def wait_terminal_def)
  note m = stream_messages_eq [OF mo, of ?l]
  show ?thesis
    apply (subst deepresearchStream_loop.simps)
    apply (subst deepresearchStatus_eq)
    apply (simp only: prod.case Let_def ok nt m not_True_eq_False if_False if_True option.case simp_thms)
    apply (simp only: stream_round_def stream_count.simps s list.map append.simps append_assoc)
    done
qed

lemma stream_rounds_Suc:
  "i \<le> n \<Longrightarrow> stream_rounds c http taskId callback i (Suc n) =
     stream_rounds c http taskId callback i n @ stream_round c http taskId callback n @ [Sleep 5000]"
  by (simp add: stream_rounds_def)

lemma stream_loop_run_exact:
  assumes "\<forall>j. i \<le> j \<and> j < n \<longrightarrow> \<not> stream_stops c http taskId callback j" "i \<le> n"
  shows "deepresearchStream_loop c http taskId callback (stream_count c http taskId callback i) i t =
         deepresearchStream_loop c http taskId callback (stream_count c http taskId callback n) n
           (t @ stream_rounds c http taskId callback i n)"
  using assms(2,1)
proof (induction n rule: dec_induct)
  case base
  then show ?case by (simp add: stream_rounds_def)
next
  case (step n)
  then have "deepresearchStream_loop c http taskId callback (stream_count c http taskId callback i) i t =
         deepresearchStream_loop c http taskId callback (stream_count c http taskId callback n) n
           (t @ stream_rounds c http taskId callback i n)" by simp
  moreover have "\<not> stream_stops c http taskId callback n" using step by simp
  ultimately show ?case
    using stream_loop_step_exact [of c http taskId callback n "t @ stream_rounds c http taskId callback i n"]
      stream_rounds_Suc [OF step.hyps(1), of c http taskId callback]
    by simp
qed

lemma stream_loop_terminal_exact:
  assumes ok: "truthy_opt (js_prop (status_at c http taskId i) ''success'')"
    and mo: "\<not> (truthy_opt (js_prop (status_at c http taskId i) ''messages'') \<and> onMessage callback
            \<and> \<not> is_array (js_prop (status_at c http taskId i) ''messages''))"
    and te: "wait_terminal (js_prop (status_at c http taskId i) ''status'')"
  shows "deepresearchStream_loop c http taskId callback (stream_count c http taskId callback i) i t =
     Some (t @ stream_round c http taskId callback i
             @ terminal_callbacks callback (status_at c http taskId i), Inr ())"
proof -
  let ?s = "fst (deepresearchStatus c (http i) taskId)"
  let ?l = "stream_count c http taskId callback i"
  have s: "status_at c http taskId i = ?s" by (simp add: status_at_def)
  note m = stream_messages_eq [OF mo [unfolded s], of ?l]
  have ok': "truthy_opt (js_prop ?s ''success'')" using ok by (simp add: s)
  show ?thesis
  proof (cases "js_prop ?s ''status'' = Some (JStr ''completed'')")
    case True
    show ?thesis
      apply (subst deepresearchStream_loop.simps)
      apply (subst deepresearchStatus_eq)
      apply (simp only: prod.case Let_def ok' m True s terminal_callbacks_def
               not_True_eq_False if_False if_True option.case simp_thms)
      apply (simp only: stream_round_def s list.map append.simps append_assoc)
      done
  next
    case False
    then have fc: "js_prop ?s ''status'' = Some (JStr ''failed'')
                   \<or> js_prop ?s ''status'' = Some (JStr ''cancelled'')"
      using te by (auto simp: wait_terminal_def s)
    show ?thesis
      apply (subst deepresearchStream_loop.simps)
      apply (subst deepresearchStatus_eq)
      apply (simp only: prod.case Let_def ok' m False fc s terminal_callbacks_def
               not_True_eq_False if_False if_True option.case simp_thms)
      apply (simp only: stream_round_def s list.map append.simps append_assoc)
      done
  qed
qed

lemma stream_result:
  assumes "\<forall>j<m. \<not> stream_stops c http taskId callback j"
    and "truthy_opt (js_prop (status_at c http taskId m) ''success'')"
    and "\<not> (truthy_opt (js_prop (status_at c http taskId m) ''messages'') \<and> onMessage callback
            \<and> \<not> is_array (js_prop (status_at c http taskId m) ''messages''))"
    and "wait_terminal (js_prop (status_at c http taskId m) ''status'')"
  shows "deepresearchStream c http taskId callback =
     Some (stream_rounds c http taskId callback 0 m @ stream_round c http taskId callback m
             @ terminal_callbacks callback (status_at c http taskId m), Inr ())"
proof -
  have "deepresearchStream c http taskId callback =
        deepresearchStream_loop c http taskId callback (stream_count c http taskId callback m) m
          ([] @ stream_rounds c http taskId callback 0 m)"
    unfolding deepresearchStream_def using assms(1)
    using stream_loop_run_exact [of 0 m c http taskId callback "[]"] by simp
  then show ?thesis using stream_loop_terminal_exact [OF assms(2,3,4)] by simp
qed

lemma requests_stream_rounds:
  "length (filter is_request (stream_rounds c http taskId callback i n)) = n - i"
proof (induction n)
  case 0
  then show ?case by (simp add: stream_rounds_def)
next
  case (Suc n)
  then show ?case
    by (cases "i \<le> n") (auto simp: stream_rounds_def stream_round_def filter_map comp_def)
qed

lemma sleeps_stream_rounds:
  "filter is_sleep (stream_rounds c http taskId callback i n) = replicate (n - i) (Sleep 5000)"
proof (induction n)
  case 0
  then show ?case by (simp add: stream_rounds_def)
next
  case (Suc n)
  then show ?case
    by (cases "i \<le> n") (auto simp: stream_rounds_def stream_round_def filter_map comp_def replicate_append_same Suc_diff_le)
qed

lemma sleeps_wait_rounds:
  "filter is_sleep (wait_rounds c http taskId options interval i n) = replicate (n - i) (Sleep interval)"
proof (induction n)
  case 0
  then show ?case by (simp add: wait_rounds_def)
next
  case (Suc n)
  then show ?case
    by (cases "i \<le> n") (auto simp: wait_rounds_def wait_round_def replicate_append_same Suc_diff_le)
qed

lemma sleeps_batch_rounds:
  "filter is_sleep (batch_rounds c http batchId options interval i n) = replicate (n - i) (Sleep interval)"
proof (induction n)
  case 0
  then show ?case by (simp add: batch_rounds_def)
next
  case (Suc n)
  then show ?case
    by (cases "i \<le> n") (auto simp: batch_rounds_def batch_round_def replicate_append_same Suc_diff_le)
qed

lemma sleeps_terminal_callbacks [simp]:
  "filter is_sleep (terminal_callbacks callback s) = []"
  "filter is_request (terminal_callbacks callback s) = []"
  by (simp_all add: terminal_callbacks_def)

lemma sleeps_stream_round [simp]:
  "filter is_sleep (stream_round c http taskId callback i) = []"
  "length (filter is_request (stream_round c http taskId callback i)) = 1"
  by (simp_all add: stream_round_def filter_map comp_def)

lemma sleeps_wait_round [simp]:
  "filter is_sleep (wait_round c http taskId options i) = []"
  "length (filter is_request (wait_round c http taskId options i)) = 1"
  "filter is_sleep (batch_round c http batchId options i) = []"
  "length (filter is_request (batch_round c http batchId options i)) = 1"
  by (simp_all add: wait_round_def batch_round_def)

lemma status_at_talking_task:
  "status_at c talking_task taskId 0 =
     JObj [(''success'', JBool True),
           (''progress'', JObj [(''current_step'', JNum 1), (''total_steps'', JNum 3)]),
           (''messages'', JArr [JStr ''m1'']), (''status'', JStr ''running'')]"
  "status_at c talking_task taskId (Suc 0) =
     JObj [(''success'', JBool True),
           (''messages'', JArr [JStr ''m1'', JStr ''m2'']), (''status'', JStr ''running'')]"
  "status_at c talking_task taskId 2 =
     JObj [(''success'', JBool True),
           (''messages'', JArr [JStr ''m1'', JStr ''m2'', JStr ''m3'']), (''status'', JStr ''completed'')]"
  by (simp_all add: status_at_def deepresearchStatus_def talking_task_def respond_def
        success_with_def AList.merge_def Let_def)


text \<open>The example task of the stream.\<close>

lemma all_callbacks_simps:
  "onMessage all_callbacks" "StreamCallback.onProgress all_callbacks"
  "onComplete all_callbacks" "onError all_callbacks"
  by (simp_all add: all_callbacks_def)

lemma talking_task_goes_on_0: "\<not> stream_stops example_client talking_task ''task-1'' all_callbacks 0"
  by (simp add: stream_stops_def wait_terminal_def status_at_talking_task all_callbacks_simps)

lemma talking_task_goes_on_1: "\<not> stream_stops example_client talking_task ''task-1'' all_callbacks (Suc 0)"
  by (simp add: stream_stops_def wait_terminal_def status_at_talking_task all_callbacks_simps)

lemma talking_task_goes_on: "\<forall>j<2. \<not> stream_stops example_client talking_task ''task-1'' all_callbacks j"
proof (intro allI impI)
  fix j :: nat
  assume "j < 2"
  then have "j = 0 \<or> j = Suc 0" by arith
  then show "\<not> stream_stops example_client talking_task ''task-1'' all_callbacks j"
    using talking_task_goes_on_0 talking_task_goes_on_1 by blast
qed

lemma talking_task_count_1: "stream_count example_client talking_task ''task-1'' all_callbacks (Suc 0) = Suc 0"
  by (simp add: stream_messages_def status_at_talking_task all_callbacks_simps)

lemma talking_task_count_Suc: "stream_count example_client talking_task ''task-1'' all_callbacks (Suc (Suc 0)) = Suc (Suc 0)"
  by (simp add: talking_task_count_1 stream_messages_def status_at_talking_task all_callbacks_simps)

lemma talking_task_count_2: "stream_count example_client talking_task ''task-1'' all_callbacks 2 = 2"
  using talking_task_count_Suc by (simp only: numeral_2_eq_2)

lemma status_at_talking_task_Suc: "status_at example_client talking_task ''task-1'' (Suc (Suc 0)) =
     JObj [(''success'', JBool True),
           (''messages'', JArr [JStr ''m1'', JStr ''m2'', JStr ''m3'']), (''status'', JStr ''completed'')]"
  using status_at_talking_task(3) [of example_client "''task-1''"] by (simp only: numeral_2_eq_2)

lemma talking_task_round_0: "stream_round example_client talking_task ''task-1'' all_callbacks 0 =
      [Request (status_request example_client ''task-1''),
       StepProgress (Some (JNum 1)) (Some (JNum 3)), Message (JStr ''m1'')]"
  by (simp add: stream_round_def stream_messages_def status_at_talking_task all_callbacks_simps)

lemma talking_task_round_1: "stream_round example_client talking_task ''task-1'' all_callbacks (Suc 0) =
      [Request (status_request example_client ''task-1''), Message (JStr ''m2'')]"
  by (simp add: stream_round_def stream_messages_def status_at_talking_task all_callbacks_simps talking_task_count_1
        del: stream_count.simps)

lemma talking_task_round_Suc: "stream_round example_client talking_task ''task-1'' all_callbacks (Suc (Suc 0)) =
      [Request (status_request example_client ''task-1''), Message (JStr ''m3'')]"
  by (simp add: stream_round_def stream_messages_def status_at_talking_task_Suc all_callbacks_simps talking_task_count_Suc
        del: stream_count.simps)

lemma talking_task_round_2: "stream_round example_client talking_task ''task-1'' all_callbacks 2 =
      [Request (status_request example_client ''task-1''), Message (JStr ''m3'')]"
  using talking_task_round_Suc by (simp only: numeral_2_eq_2)

lemma talking_task_rounds: "stream_rounds example_client talking_task ''task-1'' all_callbacks 0 2 =
      [Request (status_request example_client ''task-1''),
       StepProgress (Some (JNum 1)) (Some (JNum 3)), Message (JStr ''m1''), Sleep 5000,
       Request (status_request example_client ''task-1''), Message (JStr ''m2''), Sleep 5000]"
  by (simp add: stream_rounds_def upt_rec talking_task_round_0 talking_task_round_1 del: stream_count.simps)

lemma talking_task_callbacks: "terminal_callbacks all_callbacks (status_at example_client talking_task ''task-1'' 2) =
      [Complete (JObj [(''success'', JBool True),
                       (''messages'', JArr [JStr ''m1'', JStr ''m2'', JStr ''m3'']),
                       (''status'', JStr ''completed'')])]"
  by (simp add: terminal_callbacks_def all_callbacks_simps status_at_talking_task)

lemma talking_task_terminal: "truthy_opt (js_prop (status_at example_client talking_task ''task-1'' 2) ''success'')
      \<and> \<not> (truthy_opt (js_prop (status_at example_client talking_task ''task-1'' 2) ''messages'')
             \<and> onMessage all_callbacks
             \<and> \<not> is_array (js_prop (status_at example_client talking_task ''task-1'' 2) ''messages''))
      \<and> wait_terminal (js_prop (status_at example_client talking_task ''task-1'' 2) ''status'')"
  by (simp add: status_at_talking_task wait_terminal_def)

subsection \<open>Lines and chunks\<close>

lemma decode_append:
  "decode dec d (a @ b) =
     (case decode dec d a of (t1, d1) \<Rightarrow> (case decode dec d1 b of (t2, d2) \<Rightarrow> (t1 @ t2, d2)))"
  by (induction a arbitrary: d) (auto split: prod.splits)

lemma split_from_not_Nil [simp]: "split_from cur s \<noteq> []"
  by (induction s arbitrary: cur) auto

lemma split_from_append:
  "split_from cur (s @ t) =
     butlast (split_from cur s) @ split_from (last (split_from cur s)) t"
  by (induction s arbitrary: cur) auto

lemma split_from_carry:
  "nl \<notin> set b \<Longrightarrow> split_from cur (b @ s) = split_from (cur @ b) s"
  by (induction b arbitrary: cur) auto

lemma last_split_from_no_nl:
  "nl \<notin> set cur \<Longrightarrow> nl \<notin> set (last (split_from cur s))"
  by (induction s arbitrary: cur) auto

lemma split_nl_buffer:
  "nl \<notin> set buffer \<Longrightarrow> split_nl (buffer @ text) = split_from buffer text"
  using split_from_carry [of buffer "[]" "text"] by (simp add: split_nl_def)

lemma stream_read_lines:
  "nl \<notin> set buffer \<Longrightarrow>
   stream_read dec parse d buffer chunks =
     concat (map (stream_line parse)
       (butlast (split_from buffer (fst (decode dec d (concat chunks))))))"
proof (induction chunks arbitrary: d buffer)
  case Nil
  then show ?case by simp
next
  case (Cons v rest)
  obtain t d1 where dv: "decode dec d v = (t, d1)" by (cases "decode dec d v")
  obtain t2 d2 where dr: "decode dec d1 (concat rest) = (t2, d2)"
    by (cases "decode dec d1 (concat rest)")
  let ?ls = "split_from buffer t"
  have nb: "nl \<notin> set (last ?ls)" using Cons.prems by (rule last_split_from_no_nl)
  have ih: "stream_read dec parse d1 (last ?ls) rest =
      concat (map (stream_line parse) (butlast (split_from (last ?ls) t2)))"
    using Cons.IH [OF nb, of d1] dr by simp
  have whole: "split_from buffer (t @ t2) = butlast ?ls @ split_from (last ?ls) t2"
    by (rule split_from_append)
  show ?case
    using Cons.prems dv dr ih
    by (simp add: decode_append split_nl_buffer pop_or_empty_def whole butlast_append Let_def)
qed

lemma fetch_read_lines:
  "nl \<notin> set buffer \<Longrightarrow>
   fetch_read dec parse num_str d buffer st chunks =
     foldl (fetch_line parse num_str) st
       (butlast (split_from buffer (fst (decode dec d (concat chunks)))))"
proof (induction chunks arbitrary: d buffer st)
  case Nil
  then show ?case by simp
next
  case (Cons v rest)
  obtain t d1 where dv: "decode dec d v = (t, d1)" by (cases "decode dec d v")
  obtain t2 d2 where dr: "decode dec d1 (concat rest) = (t2, d2)"
    by (cases "decode dec d1 (concat rest)")
  let ?ls = "split_from buffer t"
  have nb: "nl \<notin> set (last ?ls)" using Cons.prems by (rule last_split_from_no_nl)
  have ih: "\<And>st1. fetch_read dec parse num_str d1 (last ?ls) st1 rest =
      foldl (fetch_line parse num_str) st1 (butlast (split_from (last ?ls) t2))"
    using Cons.IH [OF nb, of d1] dr by simp
  have whole: "split_from buffer (t @ t2) = butlast ?ls @ split_from (last ?ls) t2"
    by (rule split_from_append)
  show ?case
    using Cons.prems dv dr ih
    by (simp add: decode_append split_nl_buffer pop_or_empty_def whole butlast_append Let_def)
qed

lemma decode_latin1 [simp]: "decode latin1 d bs = (bs, d)"
  by (induction bs) (auto simp: latin1_def)

lemma split_from_complete:
  "\<forall>l \<in> set ls. nl \<notin> set l \<Longrightarrow> nl \<notin> set trailing \<Longrightarrow>
   split_from cur (concat (map (\<lambda>l. l @ [nl]) ls) @ trailing) =
     (case ls of [] \<Rightarrow> [cur @ trailing] | l # ls' \<Rightarrow> (cur @ l) # ls' @ [trailing])"
proof (induction ls arbitrary: cur)
  case Nil
  then show ?case using split_from_carry [of trailing cur "[]"] by simp
next
  case (Cons l ls)
  have "split_from cur ((l @ [nl]) @ concat (map (\<lambda>l. l @ [nl]) ls) @ trailing) =
        (cur @ l) # split_from [] (concat (map (\<lambda>l. l @ [nl]) ls) @ trailing)"
    using Cons.prems split_from_carry [of l cur "nl # concat (map (\<lambda>l. l @ [nl]) ls) @ trailing"]
    by simp
  moreover have "split_from [] (concat (map (\<lambda>l. l @ [nl]) ls) @ trailing) = ls @ [trailing]"
    using Cons.IH [of "[]"] Cons.prems by (cases ls) auto
  ultimately show ?case by simp
qed

lemma streamAnswer_lines:
  "ok r \<Longrightarrow> body r = Some (chunks, fin) \<Longrightarrow>
   streamAnswer dec d0 parse (FetchResponse r) =
     concat (map (stream_line parse) (butlast (split_nl (fst (decode dec d0 (concat chunks))))))
     @ (case fin of ReadDone \<Rightarrow> []
        | ReadThrows e \<Rightarrow> [error_chunk (JStr (message_or e ''Stream failed''))])"
  by (simp add: streamAnswer_def stream_read_lines split_nl_def)

lemma fetchAnswer_lines:
  "ok r \<Longrightarrow> body r = Some (chunks, fin) \<Longrightarrow>
   fetchAnswer dec d0 parse num_str q (FetchResponse r) =
     (case fin of
        ReadThrows e \<Rightarrow> error_response (JStr (message_or e ''Request failed''))
      | ReadDone \<Rightarrow> build_final q (foldl (fetch_line parse num_str) initial_state
                      (butlast (split_nl (fst (decode dec d0 (concat chunks)))))))"
  by (simp add: fetchAnswer_def fetch_read_lines split_nl_def initial_state_def split: read_end.splits)

lemma lines_of_complete:
  assumes "\<forall>l \<in> set ls. nl \<notin> set l" "nl \<notin> set trailing"
  shows "butlast (split_nl (concat (map (\<lambda>l. l @ [nl]) ls) @ trailing)) = ls"
  using split_from_complete [OF assms, of "[]"] by (cases ls) (auto simp: split_nl_def)

lemma answer_complete_lines:
  assumes "fst (decode dec d0 (concat chunks)) = concat (map (\<lambda>l. l @ [nl]) ls) @ trailing"
    and "\<forall>l \<in> set ls. nl \<notin> set l" and "nl \<notin> set trailing"
    and "ok r" and "body r = Some (chunks, ReadDone)"
  shows "streamAnswer dec d0 parse (FetchResponse r) = concat (map (stream_line parse) ls)"
    and "fetchAnswer dec d0 parse num_str q (FetchResponse r)
        = build_final q (foldl (fetch_line parse num_str) initial_state ls)"
  using assms by (simp_all add: streamAnswer_lines fetchAnswer_lines lines_of_complete)

lemma latin1_lines:
  assumes "\<forall>l \<in> set ls. nl \<notin> set l"
  shows "streamAnswer latin1 () parse (sse_response (map (\<lambda>l. l @ [nl]) ls))
        = concat (map (stream_line parse) ls)"
    and "fetchAnswer latin1 () parse num_str q (sse_response (map (\<lambda>l. l @ [nl]) ls))
        = build_final q (foldl (fetch_line parse num_str) initial_state ls)"
proof -
  have d: "fst (decode latin1 () (concat (map (\<lambda>l. l @ [nl]) ls)))
           = concat (map (\<lambda>l. l @ [nl]) ls) @ []"
    by simp
  have t: "nl \<notin> set []" by simp
  have o: "ok \<lparr> ok = True, status = 200, json_body = None,
               body = Some (map (\<lambda>l. l @ [nl]) ls, ReadDone) \<rparr>" by simp
  have b: "body \<lparr> ok = True, status = 200, json_body = None,
                 body = Some (map (\<lambda>l. l @ [nl]) ls, ReadDone) \<rparr>
           = Some (map (\<lambda>l. l @ [nl]) ls, ReadDone)" by simp
  show "streamAnswer latin1 () parse (sse_response (map (\<lambda>l. l @ [nl]) ls))
        = concat (map (stream_line parse) ls)"
    unfolding sse_response_def by (rule answer_complete_lines(1) [OF d assms t o b])
  show "fetchAnswer latin1 () parse num_str q (sse_response (map (\<lambda>l. l @ [nl]) ls))
        = build_final q (foldl (fetch_line parse num_str) initial_state ls)"
    unfolding sse_response_def by (rule answer_complete_lines(2) [OF d assms t o b])
qed

lemma stream_line_data:
  "stream_line parse (CHR ''d'' # CHR ''a'' # CHR ''t'' # CHR ''a'' # CHR '':'' # CHR '' '' # p) =
     (if p = ''[DONE]'' then [JObj [(''type'', JStr ''done'')]]
      else (case parse p of None \<Rightarrow> []
            | Some parsed \<Rightarrow> (case stream_parsed parsed of None \<Rightarrow> [] | Some cs \<Rightarrow> cs)))"
  by (simp add: stream_line_def)

lemma fetch_line_data:
  "fetch_line parse num_str st (CHR ''d'' # CHR ''a'' # CHR ''t'' # CHR ''a'' # CHR '':'' # CHR '' '' # p) =
     (if p = ''[DONE]'' then st
      else (case parse p of None \<Rightarrow> st
            | Some parsed \<Rightarrow> (case fetch_parsed num_str st parsed of None \<Rightarrow> st | Some st1 \<Rightarrow> st1)))"
  by (simp add: fetch_line_def)

lemma example_texts:
  "nl \<notin> set failed_payload_text" "nl \<notin> set delta_payload_text" "nl \<notin> set success_payload_text"
  "failed_payload_text \<noteq> ''[DONE]''" "delta_payload_text \<noteq> ''[DONE]''"
  "success_payload_text \<noteq> ''[DONE]''"
  by (simp_all add: failed_payload_text_def delta_payload_text_def success_payload_text_def nl_def)

lemma example_parse_simps:
  "example_parse failed_payload_text = Some failed_payload"
  "example_parse delta_payload_text = Some delta_payload"
  "example_parse success_payload_text = Some success_payload"
  by (simp_all add: example_parse_def failed_payload_text_def delta_payload_text_def
        success_payload_text_def)

lemma example_parsed:
  "fetch_parsed num_str st failed_payload = Some (st\<lparr> searchResults := searchResults st @ [JStr ''r1''] \<rparr>)"
  "fetch_parsed num_str st delta_payload = Some (st\<lparr> searchResults := searchResults st @ [JStr ''r1''] \<rparr>)"
  "fetch_parsed num_str st success_payload = Some (st\<lparr> finalMetadata := success_payload \<rparr>)"
  "stream_parsed failed_payload
     = Some [JObj [(''type'', JStr ''metadata''), (''search_results'', JArr [JStr ''r1''])]]"
  "stream_parsed delta_payload = Some [JObj [(''type'', JStr ''content''), (''content'', JStr ''Hi'')]]"
  "stream_parsed success_payload = Some [JObj [(''type'', JStr ''metadata'')]]"
  by (simp_all add: fetch_parsed_def stream_parsed_def failed_payload_def delta_payload_def
        success_payload_def object_def or_else_def Let_def)

text \<open>What each kind of payload does.\<close>

lemma parsed_results:
  assumes "js_prop parsed ''search_results'' = Some (JArr xs)" "js_prop parsed ''success'' = None"
  shows "stream_parsed parsed = Some [object [(''type'', Some (JStr ''search_results'')),
                                               (''search_results'', Some (JArr xs))]]"
    and "fetch_parsed num_str st parsed = Some (st\<lparr> searchResults := searchResults st @ xs \<rparr>)"
  using assms by (auto simp: stream_parsed_def fetch_parsed_def)

lemma parsed_content:
  assumes "\<not> truthy_opt (js_prop parsed ''search_results'')"
    and "js_prop parsed ''choices'' = Some (JArr (c0 # cs))"
    and "js_prop c0 ''delta'' = Some delta"
    and "js_prop delta ''content'' = Some (JStr s)" and "s \<noteq> []"
  shows "stream_parsed parsed = Some [object [(''type'', Some (JStr ''content'')),
                                               (''content'', Some (JStr s)),
                                               (''finish_reason'', js_prop c0 ''finish_reason'')]]"
    and "fetch_parsed num_str st parsed = Some (st\<lparr> fullContent := fullContent st @ s \<rparr>)"
proof -
  have c0: "c0 \<noteq> JNull" using assms(3) by auto
  have d: "truthy delta" "delta \<noteq> JNull" using assms(4) by (cases delta; simp)+
  have p: "parsed \<noteq> JNull" using assms(2) by auto
  have o: "js_opt_prop (Some c0) k = js_prop c0 k" for k using c0 by (cases c0) simp_all
  have o2: "js_opt_prop (Some delta) k = js_prop delta k" for k using d(2) by (cases delta) simp_all
  show "stream_parsed parsed = Some [object [(''type'', Some (JStr ''content'')),
                                               (''content'', Some (JStr s)),
                                               (''finish_reason'', js_prop c0 ''finish_reason'')]]"
    using assms p d by (simp add: stream_parsed_def Let_def o or_else_def)
  show "fetch_parsed num_str st parsed = Some (st\<lparr> fullContent := fullContent st @ s \<rparr>)"
    using assms p d by (simp add: fetch_parsed_def Let_def o o2 or_else_def)
qed

lemma parsed_metadata:
  assumes "\<not> truthy_opt (js_prop parsed ''search_results'')"
    and "\<not> truthy_opt (js_prop parsed ''choices'')"
    and "js_prop parsed ''success'' \<noteq> None"
  shows "stream_parsed parsed = Some [object [(''type'', Some (JStr ''metadata'')),
                      (''tx_id'', js_prop parsed ''tx_id''),
                      (''original_query'', js_prop parsed ''original_query''),
                      (''contents'', js_prop parsed ''contents''),
                      (''search_results'', js_prop parsed ''search_results''),
                      (''search_metadata'', js_prop parsed ''search_metadata''),
                      (''ai_usage'', js_prop parsed ''ai_usage''),
                      (''cost'', js_prop parsed ''cost''),
                      (''extraction_metadata'', js_prop parsed ''extraction_metadata'')]]"
    and "fetch_parsed num_str st parsed = Some (st\<lparr> finalMetadata := parsed \<rparr>)"
proof -
  have p: "parsed \<noteq> JNull" using assms(3) by auto
  show "stream_parsed parsed = Some [object [(''type'', Some (JStr ''metadata'')),
                      (''tx_id'', js_prop parsed ''tx_id''),
                      (''original_query'', js_prop parsed ''original_query''),
                      (''contents'', js_prop parsed ''contents''),
                      (''search_results'', js_prop parsed ''search_results''),
                      (''search_metadata'', js_prop parsed ''search_metadata''),
                      (''ai_usage'', js_prop parsed ''ai_usage''),
                      (''cost'', js_prop parsed ''cost''),
                      (''extraction_metadata'', js_prop parsed ''extraction_metadata'')]]"
    using assms p by (simp add: stream_parsed_def)
  show "fetch_parsed num_str st parsed = Some (st\<lparr> finalMetadata := parsed \<rparr>)"
    using assms p by (simp add: fetch_parsed_def)
qed

lemma answer_parse_simps:
  "answer_parse results_event_text = Some results_event"
  "answer_parse content_event_text = Some content_event"
  "answer_parse success_payload_text = Some success_payload"
  "answer_parse ''{oops'' = None"
  by (simp_all add: answer_parse_def results_event_text_def content_event_text_def
        success_payload_text_def)

lemma answer_texts:
  "results_event_text \<noteq> ''[DONE]''" "content_event_text \<noteq> ''[DONE]''"
  "nl \<notin> set results_event_text" "nl \<notin> set content_event_text"
  by (simp_all add: results_event_text_def content_event_text_def nl_def)

lemma answer_lines_complete:
  "\<forall>l \<in> set answer_lines. nl \<notin> set l" "nl \<notin> set (''data: '' @ content_event_text)"
  using answer_texts example_texts by (simp_all add: answer_lines_def nl_def)

subsection \<open>search and contents\<close>

lemma defined_fields_absent:
  "k \<notin> fst ` set fs \<Longrightarrow> map_of (defined_fields fs) k = None"
  by (induction fs rule: defined_fields.induct) auto

lemma js_prop_object:
  "distinct (map fst fs) \<Longrightarrow>
   js_prop (object fs) k = (case map_of fs k of None \<Rightarrow> None | Some v \<Rightarrow> v)"
proof (induction fs rule: defined_fields.induct)
  case 1
  then show ?case by (simp add: object_def)
next
  case (2 k' fs)
  then show ?case by (auto simp: object_def defined_fields_absent)
next
  case (3 k' v fs)
  then show ?case by (auto simp: object_def)
qed

lemma search_failure_fields:
  "js_prop (search_failure query err) ''success'' = Some (JBool False)"
  "js_prop (search_failure query err) ''error'' = err"
  "js_prop (search_failure query err) ''results'' = Some (JArr [])"
  "js_prop (search_failure query err) ''total_deduction_dollars'' = Some (JNum 0)"
  "js_prop (search_failure query err) ''total_characters'' = Some (JNum 0)"
  by (simp_all add: search_failure_def js_prop_object)

text \<open>The guards of \<open>search\<close>, in the order of the code.\<close>

lemma search_no_request:
  "(snd (search rt c http query options) = []) =
     ((case map_option toLowerCase (SearchOptions.searchType options) of
            None \<Rightarrow> False | Some t \<Rightarrow> t \<notin> set search_types)
      \<or> bad_date rt (SearchOptions.startDate options)
      \<or> bad_date rt (SearchOptions.endDate options)
      \<or> (case maxNumResults options of None \<Rightarrow> 10 | Some n \<Rightarrow> n) < 1
      \<or> (case maxNumResults options of None \<Rightarrow> 10 | Some n \<Rightarrow> n) > 100
      \<or> sources_error rt ''includedSources'' (SearchOptions.includedSources options) \<noteq> None
      \<or> sources_error rt ''excludeSources'' (excludeSources options) \<noteq> None)"
  unfolding search_def Let_def
  by (cases "sources_error rt ''includedSources'' (SearchOptions.includedSources options)";
      cases "sources_error rt ''excludeSources'' (excludeSources options)") simp_all

lemma search_rejection:
  assumes "snd (search rt c http query options) = []"
  shows "\<exists>msg. fst (search rt c http query options) = search_failure query (Some (JStr msg))"
  using assms unfolding search_def Let_def
  by (cases "sources_error rt ''includedSources'' (SearchOptions.includedSources options)";
      cases "sources_error rt ''excludeSources'' (excludeSources options)")
     (auto split: if_splits)

lemma search_request:
  assumes "snd (search rt c http query options) \<noteq> []"
  shows "snd (search rt c http query options) =
           [axios_post c (baseUrl c @ ''/deepsearch'') (search_payload query options)]"
  using assms unfolding search_def Let_def
  by (cases "sources_error rt ''includedSources'' (SearchOptions.includedSources options)";
      cases "sources_error rt ''excludeSources'' (excludeSources options)")
     (simp_all split: if_splits)

lemma sources_error_None:
  "(sources_error rt name arg = None) =
     (case arg of None \<Rightarrow> True | Some (NotArray v) \<Rightarrow> False
      | Some (StringArray xs) \<Rightarrow> list_all (validateSource rt) xs)"
  by (auto simp: sources_error_def validateSources_def Let_def filter_empty_conv list_all_iff
           split: option.splits strings_arg.splits)

lemma contents_failure_fields:
  "js_prop (contents_failure err a b) ''success'' = Some (JBool False)"
  "js_prop (contents_failure err a b) ''error'' = Some err"
  "js_prop (contents_failure err a b) ''results'' = Some (JArr [])"
  "js_prop (contents_failure err a b) ''total_cost_dollars'' = Some (JNum 0)"
  "js_prop (contents_failure err a b) ''total_characters'' = Some (JNum 0)"
  by (simp_all add: contents_failure_def)

lemma contents_rejection:
  assumes "\<And>urls. urls_arg = Some (StringArray urls) \<Longrightarrow> contents_guard urls options"
  shows "\<exists>msg a b. contents c http urls_arg options = (contents_failure (JStr msg) a b, [])"
proof (cases urls_arg)
  case None
  then show ?thesis by (auto simp: contents_def)
next
  case (Some u)
  show ?thesis
  proof (cases u)
    case (NotArray v)
    then show ?thesis using Some by (auto simp: contents_def)
  next
    case (StringArray xs)
    then have "contents_guard xs options" using assms Some by simp
    then show ?thesis
      unfolding contents_def contents_guard_def Some StringArray
      by (simp only: option.case strings_arg.case) (auto split: if_splits)
  qed
qed


lemma search_payload_fields:
  "js_prop (search_payload query options) ''query'' = Some (JStr query)"
  "js_prop (search_payload query options) ''search_type''
     = Some (JStr (finalSearchType (SearchOptions.searchType options)))"
  "js_prop (search_payload query options) ''max_num_results''
     = Some (JNum (case maxNumResults options of None \<Rightarrow> 10 | Some n \<Rightarrow> n))"
  "js_prop (search_payload query options) ''is_tool_call''
     = Some (JBool (case isToolCall options of None \<Rightarrow> True | Some b \<Rightarrow> b))"
  "js_prop (search_payload query options) ''relevance_threshold''
     = Some (JNum (case relevanceThreshold options of None \<Rightarrow> 0.5 | Some t \<Rightarrow> t))"
  "js_prop (search_payload query options) ''max_price'' = map_option JNum (maxPrice options)"
  "js_prop (search_payload query options) ''included_sources''
     = map_option strings_json (SearchOptions.includedSources options)"
  "js_prop (search_payload query options) ''exclude_sources''
     = map_option strings_json (excludeSources options)"
  "js_prop (search_payload query options) ''category'' = map_option JStr (category options)"
  "js_prop (search_payload query options) ''start_date''
     = map_option JStr (SearchOptions.startDate options)"
  "js_prop (search_payload query options) ''end_date''
     = map_option JStr (SearchOptions.endDate options)"
  "js_prop (search_payload query options) ''country_code''
     = map_option JStr (SearchOptions.countryCode options)"
  "js_prop (search_payload query options) ''response_length'' = SearchOptions.responseLength options"
  "js_prop (search_payload query options) ''fast_mode''
     = map_option JBool (SearchOptions.fastMode options)"
  "js_prop (search_payload query options) ''url_only'' = map_option JBool (urlOnly options)"
  by (simp_all add: search_payload_def js_prop_object)

lemma buildAnswerPayload_query:
  "js_prop (buildAnswerPayload query options) ''query'' = Some (JStr (trim query))"
  by (simp add: buildAnswerPayload_def js_prop_object)

subsection \<open>Requests that throw\<close>

lemma caught_failed: "failed_with (caught e) (axios_error e)"
  by (simp add: failed_with_def caught_def axios_error_def)

lemma single_call_throws:
  "throws_in http (single_call http req shape) e \<Longrightarrow>
   failed_with (fst (single_call http req shape)) (axios_error e)"
  by (auto simp: throws_in_def single_call_def caught_failed)

lemma validation_error_throws:
  "\<not> throws_in http (validation_error msg) e"
  by (simp add: throws_in_def validation_error_def)

lemma status_throws:
  "throws_in http (deepresearchStatus c http taskId) e \<Longrightarrow>
   failed_with (fst (deepresearchStatus c http taskId)) (axios_error e)"
  "throws_in http (batchStatus c http batchId) e \<Longrightarrow>
   failed_with (fst (batchStatus c http batchId)) (axios_error e)"
  by (auto simp: throws_in_def deepresearchStatus_def batchStatus_def Let_def caught_failed)

lemma search_throws:
  assumes "throws_in http (search rt c http query options) e"
  shows "failed_with (fst (search rt c http query options)) (axios_error e)"
proof -
  have n: "snd (search rt c http query options) \<noteq> []"
    using assms by (auto simp: throws_in_def)
  then have r: "http (axios_post c (baseUrl c @ ''/deepsearch'') (search_payload query options))
                = AxiosThrows e"
    using assms search_request [OF n] by (auto simp: throws_in_def)
  have g: "\<not> ((case map_option toLowerCase (SearchOptions.searchType options) of
            None \<Rightarrow> False | Some t \<Rightarrow> t \<notin> set search_types)
      \<or> bad_date rt (SearchOptions.startDate options)
      \<or> bad_date rt (SearchOptions.endDate options)
      \<or> (case maxNumResults options of None \<Rightarrow> 10 | Some n \<Rightarrow> n) < 1
      \<or> (case maxNumResults options of None \<Rightarrow> 10 | Some n \<Rightarrow> n) > 100
      \<or> sources_error rt ''includedSources'' (SearchOptions.includedSources options) \<noteq> None
      \<or> sources_error rt ''excludeSources'' (excludeSources options) \<noteq> None)"
    using n search_no_request [of rt c http query options] by blast
  have "fst (search rt c http query options) = search_failure query (Some (axios_error e))"
    using g r unfolding search_def Let_def by (simp add: axios_error_def)
  then show ?thesis by (simp add: failed_with_def search_failure_fields)
qed

lemma contents_throws:
  assumes "throws_in http (contents c http urls_arg options) e"
  shows "failed_with (fst (contents c http urls_arg options)) (axios_error e)"
proof -
  have n: "snd (contents c http urls_arg options) \<noteq> []"
    using assms by (auto simp: throws_in_def)
  have "\<exists>urls. urls_arg = Some (StringArray urls) \<and> \<not> contents_guard urls options"
  proof (rule ccontr)
    assume "\<not> (\<exists>urls. urls_arg = Some (StringArray urls) \<and> \<not> contents_guard urls options)"
    then have "\<And>urls. urls_arg = Some (StringArray urls) \<Longrightarrow> contents_guard urls options"
      by blast
    then obtain msg a b where "contents c http urls_arg options = (contents_failure (JStr msg) a b, [])"
      using contents_rejection by blast
    then show False using n by simp
  qed
  then obtain urls where u: "urls_arg = Some (StringArray urls)"
    and g: "\<not> contents_guard urls options" by blast
  have r: "http (axios_post c (baseUrl c @ ''/contents'') (contents_payload urls options))
           = AxiosThrows e"
    using assms g unfolding u contents_def contents_guard_def Let_def
    by (auto simp: throws_in_def split: if_splits)
  have "fst (contents c http urls_arg options)
        = contents_failure (axios_error e) (length urls) (length urls)"
    using g r unfolding u contents_def contents_guard_def Let_def
    by (simp add: axios_error_def)
  then show ?thesis by (simp add: failed_with_def contents_failure_fields)
qed

lemma guarded_call_throws:
  "throws_in http (if b then validation_error msg else single_call http req shape) e \<Longrightarrow>
   failed_with (fst (if b then validation_error msg else single_call http req shape)) (axios_error e)"
  by (cases b) (simp_all add: validation_error_throws single_call_throws)

lemma batchAddTasks_throws:
  assumes "throws_in http (batchAddTasks c http batchId options) e"
  shows "failed_with (fst (batchAddTasks c http batchId options)) (axios_error e)"
proof (cases "js_prop options ''tasks''")
  case None
  then show ?thesis using assms by (simp add: batchAddTasks_def validation_error_throws)
next
  case (Some v)
  show ?thesis
  proof (cases v)
    case (JArr tasks)
    show ?thesis
      using assms unfolding batchAddTasks_def Some JArr
      by (simp only: option.case json.case)
         (auto simp: validation_error_throws single_call_throws split: if_splits)
  qed (insert assms Some, simp_all add: batchAddTasks_def validation_error_throws)
qed

lemma nat_str_500: "nat_str 500 = ''500''" "nat_str 401 = ''401''"
  by code_simp+

section \<open>Properties\<close>

text \<open>
  C10. Constructing the client without an apiKey argument falls back to the
  VALYU_API_KEY environment variable and throws an Error with message
  "VALYU_API_KEY is not set" when that variable is also absent; in every
  non-throwing construction the x-api-key header equals the resolved key and
  Content-Type is "application/json".
\<close>

theorem constructor_api_key:
  "(env ''VALYU_API_KEY'' = None \<longrightarrow>
      Valyu_constructor env None b = Inl (Error (Some (JStr ''VALYU_API_KEY is not set''))))
   \<and> (env ''VALYU_API_KEY'' = Some k \<and> k \<noteq> [] \<longrightarrow>
      (\<exists>c. Valyu_constructor env None b = Inr c \<and> map_of (headers c) ''x-api-key'' = Some k))
   \<and> (Valyu_constructor env a b = Inr c \<longrightarrow>
      map_of (headers c) ''x-api-key'' = resolved_key env a
      \<and> resolved_key env a \<noteq> None
      \<and> map_of (headers c) ''Content-Type'' = Some ''application/json'')"
  by (auto simp: Valyu_constructor_def resolved_key_def Let_def split: option.splits if_splits)

theorem constructor_api_key_witness:
  "Valyu_constructor Map.empty None None = Inl (Error (Some (JStr ''VALYU_API_KEY is not set'')))
   \<and> (\<exists>c. Valyu_constructor [''VALYU_API_KEY'' \<mapsto> ''key-1''] None None = Inr c
          \<and> map_of (headers c) ''x-api-key'' = Some ''key-1'')
   \<and> (\<exists>c. Valyu_constructor Map.empty (Some ''key-2'') None = Inr c
          \<and> map_of (headers c) ''x-api-key'' = Some ''key-2''
          \<and> map_of (headers c) ''Content-Type'' = Some ''application/json'')"
  using constructor_api_key [where env = Map.empty and b = None]
        constructor_api_key [where env = "[''VALYU_API_KEY'' \<mapsto> ''key-1'']"
          and k = "''key-1''" and b = None]
        constructor_api_key [where env = Map.empty and a = "Some ''key-2''" and b = None
          and c = "\<lparr> baseUrl = ''https://api.valyu.ai/v1'',
             headers = [(''Content-Type'', ''application/json''), (''x-api-key'', ''key-2'')] \<rparr>"]
  by (simp add: Valyu_constructor_def resolved_key_def)

text \<open>
  C1, as amended. \<open>deepresearch.wait\<close> and \<open>batch.waitForCompletion\<close> are
  bounded: when the status responses up to poll \<open>n\<close> are successful and the
  clock read at poll \<open>n\<close> is more than \<open>maxWaitTime\<close> (default 7200000 ms)
  past the start, the helper ends at the first poll \<open>m \<le> n\<close> that finds a
  terminal status or the time up. Every poll before \<open>m\<close> went on; the
  helper has sent exactly \<open>m + 1\<close> requests to the status endpoint, has
  waited exactly \<open>m\<close> times, each time for the poll interval (default
  5000 ms for \<open>wait\<close>, 10000 ms for the batch), and returns the terminal
  status of poll \<open>m\<close>, or throws "Maximum wait time exceeded" when that
  status is not terminal.
  \<open>deepresearch.stream\<close> has no time limit: it ends exactly when some polled
  response is unsuccessful, has messages it cannot handle, or has a terminal
  status. When the first such poll \<open>m\<close> has a terminal status, the call has
  sent exactly \<open>m + 1\<close> requests, has waited exactly \<open>m\<close> times 5000 ms,
  has reported the progress and the new messages of every poll, and ends
  with the terminal callbacks.
\<close>

theorem polling_bounds:
  "((\<forall>j\<le>n. truthy_opt (js_prop (status_at c http taskId j) ''success''))
      \<and> now n - startTime > num_or (maxWaitTime options) 7200000 \<longrightarrow>
      (\<exists>m\<le>n. (\<forall>j<m. wait_continues c http now taskId (num_or (maxWaitTime options) 7200000) startTime j)
         \<and> (wait_terminal (js_prop (status_at c http taskId m) ''status'')
              \<or> now m - startTime > num_or (maxWaitTime options) 7200000)
         \<and> deepresearchWait c http now startTime taskId options =
             Some (wait_rounds c http taskId options (num_or (pollInterval options) 5000) 0 m
                     @ wait_round c http taskId options m,
                   if wait_terminal (js_prop (status_at c http taskId m) ''status'')
                   then Inr (status_at c http taskId m)
                   else Inl (Error (Some (JStr ''Maximum wait time exceeded''))))
         \<and> length (filter is_request
               (wait_rounds c http taskId options (num_or (pollInterval options) 5000) 0 m
                  @ wait_round c http taskId options m)) = Suc m
         \<and> filter is_sleep
               (wait_rounds c http taskId options (num_or (pollInterval options) 5000) 0 m
                  @ wait_round c http taskId options m)
             = replicate m (Sleep (num_or (pollInterval options) 5000))))
   \<and> ((\<forall>j\<le>n. batch_ok (batch_response_at c http batchId j))
      \<and> now n - startTime > num_or (maxWaitTime options) 7200000 \<longrightarrow>
      (\<exists>m\<le>n. (\<forall>j<m. batch_continues c http now batchId (num_or (maxWaitTime options) 7200000) startTime j)
         \<and> (batch_terminal (js_prop (batch_at c http batchId m) ''status'')
              \<or> now m - startTime > num_or (maxWaitTime options) 7200000)
         \<and> batchWaitForCompletion c http now startTime batchId options =
             Some (batch_rounds c http batchId options (num_or (pollInterval options) 10000) 0 m
                     @ batch_round c http batchId options m,
                   if batch_terminal (js_prop (batch_at c http batchId m) ''status'')
                   then Inr (batch_at c http batchId m)
                   else Inl (Error (Some (JStr ''Maximum wait time exceeded''))))
         \<and> length (filter is_request
               (batch_rounds c http batchId options (num_or (pollInterval options) 10000) 0 m
                  @ batch_round c http batchId options m)) = Suc m
         \<and> filter is_sleep
               (batch_rounds c http batchId options (num_or (pollInterval options) 10000) 0 m
                  @ batch_round c http batchId options m)
             = replicate m (Sleep (num_or (pollInterval options) 10000))))
   \<and> ((deepresearchStream c http taskId callback \<noteq> None)
        = (\<exists>m. stream_stops c http taskId callback m))
   \<and> ((\<forall>j<m. \<not> stream_stops c http taskId callback j)
      \<and> truthy_opt (js_prop (status_at c http taskId m) ''success'')
      \<and> \<not> (truthy_opt (js_prop (status_at c http taskId m) ''messages'') \<and> onMessage callback
             \<and> \<not> is_array (js_prop (status_at c http taskId m) ''messages''))
      \<and> wait_terminal (js_prop (status_at c http taskId m) ''status'') \<longrightarrow>
      deepresearchStream c http taskId callback =
         Some (stream_rounds c http taskId callback 0 m @ stream_round c http taskId callback m
                 @ terminal_callbacks callback (status_at c http taskId m), Inr ())
      \<and> length (filter is_request
            (stream_rounds c http taskId callback 0 m @ stream_round c http taskId callback m
               @ terminal_callbacks callback (status_at c http taskId m))) = Suc m
      \<and> filter is_sleep
            (stream_rounds c http taskId callback 0 m @ stream_round c http taskId callback m
               @ terminal_callbacks callback (status_at c http taskId m))
          = replicate m (Sleep 5000))"
proof (intro conjI impI)
  assume a: "(\<forall>j\<le>n. truthy_opt (js_prop (status_at c http taskId j) ''success''))
      \<and> now n - startTime > num_or (maxWaitTime options) 7200000"
  let ?P = "wait_continues c http now taskId (num_or (maxWaitTime options) 7200000) startTime"
  have "\<not> ?P n" using a by (simp add: wait_continues_def)
  then obtain m where m: "m \<le> n" "\<not> ?P m" "\<forall>j<m. ?P j" by (rule first_stop)
  have ok: "truthy_opt (js_prop (status_at c http taskId m) ''success'')" using a m(1) by simp
  have te: "wait_terminal (js_prop (status_at c http taskId m) ''status'')
              \<or> now m - startTime > num_or (maxWaitTime options) 7200000"
    using m(2) ok by (auto simp: wait_continues_def)
  have res: "deepresearchWait c http now startTime taskId options =
             Some (wait_rounds c http taskId options (num_or (pollInterval options) 5000) 0 m
                     @ wait_round c http taskId options m,
                   if wait_terminal (js_prop (status_at c http taskId m) ''status'')
                   then Inr (status_at c http taskId m)
                   else Inl (Error (Some (JStr ''Maximum wait time exceeded''))))"
    using wait_result [OF m(3) m(2)] ok by simp
  show "\<exists>m\<le>n. (\<forall>j<m. ?P j)
         \<and> (wait_terminal (js_prop (status_at c http taskId m) ''status'')
              \<or> now m - startTime > num_or (maxWaitTime options) 7200000)
         \<and> deepresearchWait c http now startTime taskId options =
             Some (wait_rounds c http taskId options (num_or (pollInterval options) 5000) 0 m
                     @ wait_round c http taskId options m,
                   if wait_terminal (js_prop (status_at c http taskId m) ''status'')
                   then Inr (status_at c http taskId m)
                   else Inl (Error (Some (JStr ''Maximum wait time exceeded''))))
         \<and> length (filter is_request
               (wait_rounds c http taskId options (num_or (pollInterval options) 5000) 0 m
                  @ wait_round c http taskId options m)) = Suc m
         \<and> filter is_sleep
               (wait_rounds c http taskId options (num_or (pollInterval options) 5000) 0 m
                  @ wait_round c http taskId options m)
             = replicate m (Sleep (num_or (pollInterval options) 5000))"
    apply (rule exI [of _ m])
    apply (intro conjI)
         apply (rule m(1))
        apply (rule m(3))
       apply (rule te)
      apply (rule res)
     apply (simp add: requests_wait_rounds)
    apply (simp add: sleeps_wait_rounds)
    done
next
  assume a: "(\<forall>j\<le>n. batch_ok (batch_response_at c http batchId j))
      \<and> now n - startTime > num_or (maxWaitTime options) 7200000"
  let ?P = "batch_continues c http now batchId (num_or (maxWaitTime options) 7200000) startTime"
  have "\<not> ?P n" using a by (simp add: batch_continues_def)
  then obtain m where m: "m \<le> n" "\<not> ?P m" "\<forall>j<m. ?P j" by (rule first_stop)
  have ok: "batch_ok (batch_response_at c http batchId m)" using a m(1) by simp
  have te: "batch_terminal (js_prop (batch_at c http batchId m) ''status'')
              \<or> now m - startTime > num_or (maxWaitTime options) 7200000"
    using m(2) ok by (auto simp: batch_continues_def)
  have res: "batchWaitForCompletion c http now startTime batchId options =
             Some (batch_rounds c http batchId options (num_or (pollInterval options) 10000) 0 m
                     @ batch_round c http batchId options m,
                   if batch_terminal (js_prop (batch_at c http batchId m) ''status'')
                   then Inr (batch_at c http batchId m)
                   else Inl (Error (Some (JStr ''Maximum wait time exceeded''))))"
    using batch_result [OF m(3) m(2)] ok by (simp add: batch_ok_def)
  show "\<exists>m\<le>n. (\<forall>j<m. ?P j)
         \<and> (batch_terminal (js_prop (batch_at c http batchId m) ''status'')
              \<or> now m - startTime > num_or (maxWaitTime options) 7200000)
         \<and> batchWaitForCompletion c http now startTime batchId options =
             Some (batch_rounds c http batchId options (num_or (pollInterval options) 10000) 0 m
                     @ batch_round c http batchId options m,
                   if batch_terminal (js_prop (batch_at c http batchId m) ''status'')
                   then Inr (batch_at c http batchId m)
                   else Inl (Error (Some (JStr ''Maximum wait time exceeded''))))
         \<and> length (filter is_request
               (batch_rounds c http batchId options (num_or (pollInterval options) 10000) 0 m
                  @ batch_round c http batchId options m)) = Suc m
         \<and> filter is_sleep
               (batch_rounds c http batchId options (num_or (pollInterval options) 10000) 0 m
                  @ batch_round c http batchId options m)
             = replicate m (Sleep (num_or (pollInterval options) 10000))"
    apply (rule exI [of _ m])
    apply (intro conjI)
         apply (rule m(1))
        apply (rule m(3))
       apply (rule te)
      apply (rule res)
     apply (simp add: requests_batch_rounds)
    apply (simp add: sleeps_batch_rounds)
    done
next
  show "(deepresearchStream c http taskId callback \<noteq> None)
        = (\<exists>m. stream_stops c http taskId callback m)"
  proof
    assume "deepresearchStream c http taskId callback \<noteq> None"
    then obtain r where "deepresearchStream_loop c http taskId callback 0 0 [] = Some r"
      by (auto simp: deepresearchStream_def)
    then show "\<exists>m. stream_stops c http taskId callback m"
      using stream_loop_returns by blast
  next
    assume "\<exists>m. stream_stops c http taskId callback m"
    then obtain k where "\<not> \<not> stream_stops c http taskId callback k" by blast
    then obtain m where m: "\<not> \<not> stream_stops c http taskId callback m"
        "\<forall>j<m. \<not> stream_stops c http taskId callback j"
      by (rule first_stop [where P = "\<lambda>j. \<not> stream_stops c http taskId callback j"])
    obtain l1 t1 where "deepresearchStream_loop c http taskId callback 0 0 [] =
        deepresearchStream_loop c http taskId callback l1 m t1"
      using stream_loop_run [of 0 m c http taskId callback 0 "[]"] m(2) by auto
    then show "deepresearchStream c http taskId callback \<noteq> None"
      using stream_loop_stop [of c http taskId callback m l1 t1] m(1)
      by (auto simp: deepresearchStream_def)
  qed
next
  assume a: "(\<forall>j<m. \<not> stream_stops c http taskId callback j)
      \<and> truthy_opt (js_prop (status_at c http taskId m) ''success'')
      \<and> \<not> (truthy_opt (js_prop (status_at c http taskId m) ''messages'') \<and> onMessage callback
             \<and> \<not> is_array (js_prop (status_at c http taskId m) ''messages''))
      \<and> wait_terminal (js_prop (status_at c http taskId m) ''status'')"
  show "deepresearchStream c http taskId callback =
         Some (stream_rounds c http taskId callback 0 m @ stream_round c http taskId callback m
                 @ terminal_callbacks callback (status_at c http taskId m), Inr ())"
    using a by (intro stream_result) auto
next
  show "length (filter is_request
            (stream_rounds c http taskId callback 0 m @ stream_round c http taskId callback m
               @ terminal_callbacks callback (status_at c http taskId m))) = Suc m"
    by (simp add: requests_stream_rounds)
next
  show "filter is_sleep
            (stream_rounds c http taskId callback 0 m @ stream_round c http taskId callback m
               @ terminal_callbacks callback (status_at c http taskId m))
          = replicate m (Sleep 5000)"
    by (simp add: sleeps_stream_rounds)
qed

theorem polling_bounds_witness:
  "deepresearchWait example_client always_running (\<lambda>i. 4000000 * int i) 0 ''task-1''
       \<lparr> pollInterval = None, maxWaitTime = None, onProgress = True \<rparr> =
     Some ([Request (status_request example_client ''task-1''),
            Progress (JObj [(''success'', JBool True), (''status'', JStr ''running'')]),
            Sleep 5000,
            Request (status_request example_client ''task-1''),
            Progress (JObj [(''success'', JBool True), (''status'', JStr ''running'')]),
            Sleep 5000,
            Request (status_request example_client ''task-1''),
            Progress (JObj [(''success'', JBool True), (''status'', JStr ''running'')])],
           Inl (Error (Some (JStr ''Maximum wait time exceeded''))))
   \<and> batchWaitForCompletion example_client (batch_completed_after 1) (\<lambda>i. 4000000 * int i) 0
       ''batch-1'' \<lparr> pollInterval = Some 250, maxWaitTime = None, onProgress = False \<rparr> =
     Some ([Request (batch_request example_client ''batch-1''),
            Sleep 250,
            Request (batch_request example_client ''batch-1'')],
           Inr (JObj [(''status'', JStr ''completed'')]))
   \<and> deepresearchStream example_client talking_task ''task-1'' all_callbacks =
     Some ([Request (status_request example_client ''task-1''),
            StepProgress (Some (JNum 1)) (Some (JNum 3)),
            Message (JStr ''m1''),
            Sleep 5000,
            Request (status_request example_client ''task-1''),
            Message (JStr ''m2''),
            Sleep 5000,
            Request (status_request example_client ''task-1''),
            Message (JStr ''m3''),
            Complete (JObj [(''success'', JBool True),
                            (''messages'', JArr [JStr ''m1'', JStr ''m2'', JStr ''m3'']),
                            (''status'', JStr ''completed'')])],
           Inr ())
   \<and> (\<exists>m. stream_stops example_client talking_task ''task-1'' all_callbacks m)"
proof -
  let ?now = "\<lambda>i. 4000000 * int i"
  let ?wo = "\<lparr> pollInterval = None, maxWaitTime = None, onProgress = True \<rparr>"
  let ?bo = "\<lparr> pollInterval = Some 250, maxWaitTime = None, onProgress = False \<rparr>"
  note w = polling_bounds [where c = example_client and http = always_running
            and now = ?now and startTime = 0 and taskId = "''task-1''"
            and options = ?wo
            and n = 2 and batchId = "''batch-1''" and callback = all_callbacks and m = 0,
            THEN conjunct1]
  note b = polling_bounds [where c = example_client and http = "batch_completed_after 1"
            and now = ?now and startTime = 0 and taskId = "''task-1''"
            and options = ?bo
            and n = 2 and batchId = "''batch-1''" and callback = all_callbacks and m = 0,
            THEN conjunct2, THEN conjunct1]
  note r = polling_bounds [where c = example_client and http = talking_task
            and now = ?now and startTime = 0 and taskId = "''task-1''"
            and options = ?wo
            and n = 2 and batchId = "''batch-1''" and callback = all_callbacks and m = 2,
            THEN conjunct2, THEN conjunct2]
  have 1: "deepresearchWait example_client always_running ?now 0 ''task-1'' ?wo =
     Some ([Request (status_request example_client ''task-1''),
            Progress (JObj [(''success'', JBool True), (''status'', JStr ''running'')]),
            Sleep 5000,
            Request (status_request example_client ''task-1''),
            Progress (JObj [(''success'', JBool True), (''status'', JStr ''running'')]),
            Sleep 5000,
            Request (status_request example_client ''task-1''),
            Progress (JObj [(''success'', JBool True), (''status'', JStr ''running'')])],
           Inl (Error (Some (JStr ''Maximum wait time exceeded''))))"
  proof -
    obtain m where m: "m \<le> 2"
      "wait_terminal (js_prop (status_at example_client always_running ''task-1'' m) ''status'')
        \<or> ?now m - 0 > num_or (maxWaitTime ?wo) 7200000"
      "deepresearchWait example_client always_running ?now 0 ''task-1'' ?wo =
             Some (wait_rounds example_client always_running ''task-1'' ?wo
                      (num_or (pollInterval ?wo) 5000) 0 m
                     @ wait_round example_client always_running ''task-1'' ?wo m,
                   if wait_terminal (js_prop (status_at example_client always_running ''task-1'' m) ''status'')
                   then Inr (status_at example_client always_running ''task-1'' m)
                   else Inl (Error (Some (JStr ''Maximum wait time exceeded''))))"
      using w by (auto simp: num_or_def)
    have "m = 2" using m(1,2) by (auto simp: wait_terminal_def num_or_def)
    then show ?thesis using m(3)
      by (simp add: wait_rounds_def wait_round_def upt_rec wait_terminal_def num_or_def)
  qed
  have 2: "batchWaitForCompletion example_client (batch_completed_after 1) ?now 0 ''batch-1'' ?bo =
     Some ([Request (batch_request example_client ''batch-1''),
            Sleep 250,
            Request (batch_request example_client ''batch-1'')],
           Inr (JObj [(''status'', JStr ''completed'')]))"
  proof -
    obtain m where m: "m \<le> 2"
      "\<forall>j<m. batch_continues example_client (batch_completed_after 1) ?now ''batch-1''
                 (num_or (maxWaitTime ?bo) 7200000) 0 j"
      "batch_terminal (js_prop (batch_at example_client (batch_completed_after 1) ''batch-1'' m) ''status'')
        \<or> ?now m - 0 > num_or (maxWaitTime ?bo) 7200000"
      "batchWaitForCompletion example_client (batch_completed_after 1) ?now 0 ''batch-1'' ?bo =
             Some (batch_rounds example_client (batch_completed_after 1) ''batch-1'' ?bo
                      (num_or (pollInterval ?bo) 10000) 0 m
                     @ batch_round example_client (batch_completed_after 1) ''batch-1'' ?bo m,
                   if batch_terminal (js_prop (batch_at example_client (batch_completed_after 1) ''batch-1'' m) ''status'')
                   then Inr (batch_at example_client (batch_completed_after 1) ''batch-1'' m)
                   else Inl (Error (Some (JStr ''Maximum wait time exceeded''))))"
      using b by (auto simp: num_or_def batch_ok_def)
    have "m \<noteq> 0" using m(3)
      by (auto simp: batch_at_def batch_terminal_def num_or_def split: if_splits)
    moreover have "m \<noteq> 2" using m(2)
      by (auto simp: batch_continues_def batch_at_def batch_terminal_def batch_ok_def num_or_def
            dest!: spec [of _ 1])
    ultimately have "m = 1" using m(1) by arith
    then show ?thesis using m(4)
      by (simp add: batch_rounds_def batch_round_def batch_at_def batch_terminal_def num_or_def)
  qed
  have 3: "deepresearchStream example_client talking_task ''task-1'' all_callbacks =
     Some ([Request (status_request example_client ''task-1''),
            StepProgress (Some (JNum 1)) (Some (JNum 3)),
            Message (JStr ''m1''),
            Sleep 5000,
            Request (status_request example_client ''task-1''),
            Message (JStr ''m2''),
            Sleep 5000,
            Request (status_request example_client ''task-1''),
            Message (JStr ''m3''),
            Complete (JObj [(''success'', JBool True),
                            (''messages'', JArr [JStr ''m1'', JStr ''m2'', JStr ''m3'']),
                            (''status'', JStr ''completed'')])],
           Inr ())"
    using r [THEN conjunct2, THEN mp, OF conjI [OF talking_task_goes_on talking_task_terminal], THEN conjunct1]
    by (simp only: talking_task_rounds talking_task_round_2 talking_task_callbacks append.simps)
  have 4: "\<exists>m. stream_stops example_client talking_task ''task-1'' all_callbacks m"
    using r [THEN conjunct1] 3 by simp
  show ?thesis using 1 2 3 4 by blast
qed

text \<open>
  C1 as stated fails for \<open>deepresearch.stream\<close>: on a task that is running
  at every poll it never returns.
\<close>

theorem stream_unbounded_counterexample:
  "deepresearchStream example_client always_running ''task-1'' all_callbacks = None"
proof (rule ccontr)
  assume "deepresearchStream example_client always_running ''task-1'' all_callbacks \<noteq> None"
  then obtain r where "deepresearchStream_loop example_client always_running ''task-1'' all_callbacks 0 0 [] = Some r"
    by (auto simp: deepresearchStream_def)
  then have "\<exists>j\<ge>0. stream_stops example_client always_running ''task-1'' all_callbacks j"
    by (rule stream_loop_returns)
  then show False by (simp add: stream_stops_def wait_terminal_def)
qed

text \<open>
  C3, as amended. As long as no earlier poll was unsuccessful, terminal or past
  the time limit, \<open>deepresearch.wait\<close> returns the first polled status whose
  status field is "completed", "failed" or "cancelled", after invoking
  \<open>onProgress\<close> once per polled status, the terminal one included, in poll
  order; it throws an Error carrying \<open>status.error\<close> as soon as a polled
  response is unsuccessful (without a progress call for that response); on any
  other status it polls again, unless the time elapsed exceeds \<open>maxWaitTime\<close>,
  in which case it throws.
\<close>

theorem wait_first_terminal:
  assumes "\<forall>j<n. wait_continues c http now taskId (num_or (maxWaitTime options) 7200000) startTime j"
  shows
   "(truthy_opt (js_prop (status_at c http taskId n) ''success'')
       \<and> wait_terminal (js_prop (status_at c http taskId n) ''status'') \<longrightarrow>
       (\<exists>tr. deepresearchWait c http now startTime taskId options = Some (tr, Inr (status_at c http taskId n))
          \<and> tr = wait_rounds c http taskId options (num_or (pollInterval options) 5000) 0 n
                   @ wait_round c http taskId options n
          \<and> progress_calls tr =
                (if WaitOptions.onProgress options then map (status_at c http taskId) [0..<Suc n] else [])))
    \<and> (\<not> truthy_opt (js_prop (status_at c http taskId n) ''success'') \<longrightarrow>
       (\<exists>tr. deepresearchWait c http now startTime taskId options =
                Some (tr, Inl (Error (js_prop (status_at c http taskId n) ''error'')))
          \<and> progress_calls tr =
                (if WaitOptions.onProgress options then map (status_at c http taskId) [0..<n] else [])))
    \<and> (truthy_opt (js_prop (status_at c http taskId n) ''success'')
       \<and> \<not> wait_terminal (js_prop (status_at c http taskId n) ''status'') \<longrightarrow>
       (if now n - startTime > num_or (maxWaitTime options) 7200000
        then \<exists>tr. deepresearchWait c http now startTime taskId options =
                Some (tr, Inl (Error (Some (JStr ''Maximum wait time exceeded''))))
        else deepresearchWait c http now startTime taskId options =
             deepresearchWait_loop c http now taskId options (num_or (pollInterval options) 5000)
               (num_or (maxWaitTime options) 7200000) startTime (Suc n)
               (wait_rounds c http taskId options (num_or (pollInterval options) 5000) 0 (Suc n))))"
proof (cases "wait_continues c http now taskId (num_or (maxWaitTime options) 7200000) startTime n")
  case True
  then have "\<forall>j. 0 \<le> j \<and> j < Suc n \<longrightarrow>
      wait_continues c http now taskId (num_or (maxWaitTime options) 7200000) startTime j"
    using assms less_Suc_eq by auto
  then have "deepresearchWait c http now startTime taskId options =
      deepresearchWait_loop c http now taskId options (num_or (pollInterval options) 5000)
        (num_or (maxWaitTime options) 7200000) startTime (Suc n)
        ([] @ wait_rounds c http taskId options (num_or (pollInterval options) 5000) 0 (Suc n))"
    unfolding deepresearchWait_def by (intro wait_loop_run) auto
  then show ?thesis using True by (simp add: wait_continues_def)
next
  case False
  show ?thesis
    using wait_result [OF assms False] False
    by (auto simp: wait_continues_def progress_calls_wait_rounds progress_calls_wait_round)
qed

theorem wait_first_terminal_witness:
  "wait_continues example_client (completed_after 2) (\<lambda>i. 1000 * int i) ''task-1'' 7200000 0 0
   \<and> wait_continues example_client (completed_after 2) (\<lambda>i. 1000 * int i) ''task-1'' 7200000 0 1
   \<and> (\<exists>tr. deepresearchWait example_client (completed_after 2) (\<lambda>i. 1000 * int i) 0 ''task-1''
               \<lparr> pollInterval = None, maxWaitTime = None, onProgress = True \<rparr>
             = Some (tr, Inr (JObj [(''success'', JBool True), (''status'', JStr ''completed'')]))
          \<and> progress_calls tr =
              [JObj [(''success'', JBool True), (''status'', JStr ''running'')],
               JObj [(''success'', JBool True), (''status'', JStr ''running'')],
               JObj [(''success'', JBool True), (''status'', JStr ''completed'')]])"
proof -
  have h: "\<forall>j<2. wait_continues example_client (completed_after 2) (\<lambda>i. 1000 * int i) ''task-1''
             (num_or (maxWaitTime \<lparr> pollInterval = None, maxWaitTime = None, onProgress = True \<rparr>) 7200000) 0 j"
    by (simp add: wait_continues_def wait_terminal_def num_or_def)
  have u: "[0..<3] = [0, 1, 2::nat]" by (simp add: upt_rec)
  show ?thesis
    using h wait_first_terminal [OF h]
    by (simp add: wait_terminal_def num_or_def u)
qed

text \<open>
  C3 as stated fails when the time is up: the first poll finds the task running,
  the second would find it completed, and \<open>wait\<close> throws after the first.
\<close>

theorem wait_timeout_counterexample:
  "truthy_opt (js_prop (status_at example_client (completed_after 1) ''task-1'' 0) ''success'')
   \<and> js_prop (status_at example_client (completed_after 1) ''task-1'' 0) ''status''
       = Some (JStr ''running'')
   \<and> js_prop (status_at example_client (completed_after 1) ''task-1'' 1) ''status''
       = Some (JStr ''completed'')
   \<and> deepresearchWait example_client (completed_after 1) (\<lambda>i. 2000) 0 ''task-1''
        \<lparr> pollInterval = None, maxWaitTime = Some 1000, onProgress = True \<rparr>
      = Some ([Request (status_request example_client ''task-1''),
               Progress (JObj [(''success'', JBool True), (''status'', JStr ''running'')])],
              Inl (Error (Some (JStr ''Maximum wait time exceeded''))))"
proof -
  have "\<not> wait_continues example_client (completed_after 1) (\<lambda>i. 2000) ''task-1''
          (num_or (maxWaitTime \<lparr> pollInterval = None, maxWaitTime = Some 1000, onProgress = True \<rparr>) 7200000) 0 0"
    by (simp add: wait_continues_def num_or_def)
  from wait_result [OF _ this] show ?thesis
    by (simp add: wait_terminal_def wait_rounds_def wait_round_def)
qed

text \<open>
  C2. SSE reassembly is chunking-invariant: for every byte stream forming the
  response body of the answer endpoint and every two ways of splitting it into
  chunks, \<open>streamAnswer\<close> yields the same sequence of chunks and
  \<open>fetchAnswer\<close> assembles the same final response. The decoder is any
  byte-by-byte decoder, the parser any \<open>JSON.parse\<close>, and the stream may end
  with \<open>done\<close> or with a read error.
\<close>

theorem sse_chunking_invariant:
  assumes "concat chunks1 = concat chunks2"
  shows "streamAnswer dec d0 parse (FetchResponse (r\<lparr> body := Some (chunks1, fin) \<rparr>))
         = streamAnswer dec d0 parse (FetchResponse (r\<lparr> body := Some (chunks2, fin) \<rparr>))
       \<and> fetchAnswer dec d0 parse num_str q (FetchResponse (r\<lparr> body := Some (chunks1, fin) \<rparr>))
         = fetchAnswer dec d0 parse num_str q (FetchResponse (r\<lparr> body := Some (chunks2, fin) \<rparr>))"
proof (cases "ok r")
  case True
  then show ?thesis
    using assms by (simp add: streamAnswer_lines fetchAnswer_lines split: read_end.splits)
next
  case False
  then show ?thesis
    by (simp add: streamAnswer_def fetchAnswer_def http_error_text_def Let_def)
qed

theorem sse_chunking_invariant_witness:
  "streamAnswer latin1 () (\<lambda>s. None) (sse_response [''data: [DO'', ''NE]'' @ [nl] @ ''da'', ''ta: x''])
     = streamAnswer latin1 () (\<lambda>s. None) (sse_response [''data: [DONE]'' @ [nl] @ ''data: x''])
   \<and> fetchAnswer latin1 () (\<lambda>s. None) (\<lambda>x. []) None
         (sse_response [''data: [DO'', ''NE]'' @ [nl] @ ''da'', ''ta: x''])
     = fetchAnswer latin1 () (\<lambda>s. None) (\<lambda>x. []) None
         (sse_response [''data: [DONE]'' @ [nl] @ ''data: x''])"
  using sse_chunking_invariant [where ?chunks1.0 = "[''data: [DO'', ''NE]'' @ [nl] @ ''da'', ''ta: x'']"
          and ?chunks2.0 = "[''data: [DONE]'' @ [nl] @ ''data: x'']" and dec = latin1 and ?d0.0 = "()"
          and parse = "\<lambda>s. None" and fin = ReadDone and num_str = "\<lambda>x. []" and q = None
          and r = "\<lparr> ok = True, status = 200, json_body = None, body = None \<rparr>"]
  by (simp add: sse_response_def)

text \<open>
  C4. The line parser processes exactly the complete lines that start with
  "data: ". A line that does not start with "data: " produces no chunk and
  leaves the collected state as it is; the payload "[DONE]" yields a chunk of
  type "done" in \<open>streamAnswer\<close> and is skipped in \<open>fetchAnswer\<close>; a payload
  that \<open>JSON.parse\<close> rejects is skipped. A payload that \<open>JSON.parse\<close>
  accepts is processed: a payload with a \<open>search_results\<close> array and no
  \<open>success\<close> yields a chunk of type "search_results" and adds the results
  to the collected ones; a payload without search results whose first choice
  has a non-empty \<open>delta.content\<close> yields a chunk of type "content" and
  appends the content to the collected text; a payload with neither search
  results nor choices that has a \<open>success\<close> member yields a chunk of type
  "metadata" and becomes the final metadata. When the decoded stream consists
  of the complete lines \<open>ls\<close> followed by a trailing line without newline,
  both functions process the lines \<open>ls\<close>, in order, and never the trailing
  line.
\<close>

theorem sse_line_parser:
  "(take 6 line \<noteq> ''data: '' \<longrightarrow>
      stream_line parse line = [] \<and> fetch_line parse num_str st line = st)
   \<and> stream_line parse ''data: [DONE]'' = [JObj [(''type'', JStr ''done'')]]
   \<and> fetch_line parse num_str st ''data: [DONE]'' = st
   \<and> (parse payload = None \<and> payload \<noteq> ''[DONE]'' \<longrightarrow>
      stream_line parse (''data: '' @ payload) = []
      \<and> fetch_line parse num_str st (''data: '' @ payload) = st)
   \<and> (parse p = Some parsed \<and> p \<noteq> ''[DONE]'' \<longrightarrow>
      stream_line parse (''data: '' @ p)
        = (case stream_parsed parsed of None \<Rightarrow> [] | Some cs \<Rightarrow> cs)
      \<and> fetch_line parse num_str st (''data: '' @ p)
        = (case fetch_parsed num_str st parsed of None \<Rightarrow> st | Some st1 \<Rightarrow> st1))
   \<and> (parse p = Some parsed \<and> p \<noteq> ''[DONE]''
        \<and> js_prop parsed ''search_results'' = Some (JArr xs)
        \<and> js_prop parsed ''success'' = None \<longrightarrow>
      stream_line parse (''data: '' @ p)
        = [JObj [(''type'', JStr ''search_results''), (''search_results'', JArr xs)]]
      \<and> fetch_line parse num_str st (''data: '' @ p)
        = st\<lparr> searchResults := searchResults st @ xs \<rparr>)
   \<and> (parse p = Some parsed \<and> p \<noteq> ''[DONE]''
        \<and> \<not> truthy_opt (js_prop parsed ''search_results'')
        \<and> js_prop parsed ''choices'' = Some (JArr (c0 # cs))
        \<and> js_prop c0 ''delta'' = Some delta
        \<and> js_prop delta ''content'' = Some (JStr s) \<and> s \<noteq> [] \<longrightarrow>
      stream_line parse (''data: '' @ p)
        = [object [(''type'', Some (JStr ''content'')), (''content'', Some (JStr s)),
                   (''finish_reason'', js_prop c0 ''finish_reason'')]]
      \<and> fetch_line parse num_str st (''data: '' @ p)
        = st\<lparr> fullContent := fullContent st @ s \<rparr>)
   \<and> (parse p = Some parsed \<and> p \<noteq> ''[DONE]''
        \<and> \<not> truthy_opt (js_prop parsed ''search_results'')
        \<and> \<not> truthy_opt (js_prop parsed ''choices'')
        \<and> js_prop parsed ''success'' \<noteq> None \<longrightarrow>
      stream_line parse (''data: '' @ p)
        = [object [(''type'', Some (JStr ''metadata'')),
                   (''tx_id'', js_prop parsed ''tx_id''),
                   (''original_query'', js_prop parsed ''original_query''),
                   (''contents'', js_prop parsed ''contents''),
                   (''search_results'', js_prop parsed ''search_results''),
                   (''search_metadata'', js_prop parsed ''search_metadata''),
                   (''ai_usage'', js_prop parsed ''ai_usage''),
                   (''cost'', js_prop parsed ''cost''),
                   (''extraction_metadata'', js_prop parsed ''extraction_metadata'')]]
      \<and> fetch_line parse num_str st (''data: '' @ p) = st\<lparr> finalMetadata := parsed \<rparr>)
   \<and> (ok r \<and> body r = Some (chunks, ReadDone)
        \<and> fst (decode dec d0 (concat chunks)) = concat (map (\<lambda>l. l @ [nl]) ls) @ trailing
        \<and> (\<forall>l \<in> set ls. nl \<notin> set l) \<and> nl \<notin> set trailing \<longrightarrow>
      streamAnswer dec d0 parse (FetchResponse r) = concat (map (stream_line parse) ls)
      \<and> fetchAnswer dec d0 parse num_str q (FetchResponse r)
        = build_final q (foldl (fetch_line parse num_str) initial_state ls))"
proof (intro conjI impI)
  show "stream_line parse ''data: [DONE]'' = [JObj [(''type'', JStr ''done'')]]"
    by (simp add: stream_line_def)
  show "fetch_line parse num_str st ''data: [DONE]'' = st"
    by (simp add: fetch_line_def)
next
  assume "take 6 line \<noteq> ''data: ''"
  then show "stream_line parse line = []" "fetch_line parse num_str st line = st"
    by (simp_all add: stream_line_def fetch_line_def)
next
  assume "parse payload = None \<and> payload \<noteq> ''[DONE]''"
  then show "stream_line parse (''data: '' @ payload) = []"
    "fetch_line parse num_str st (''data: '' @ payload) = st"
    by (simp_all add: stream_line_def fetch_line_def)
next
  assume "parse p = Some parsed \<and> p \<noteq> ''[DONE]''"
  then show "stream_line parse (''data: '' @ p)
        = (case stream_parsed parsed of None \<Rightarrow> [] | Some cs \<Rightarrow> cs)"
    "fetch_line parse num_str st (''data: '' @ p)
        = (case fetch_parsed num_str st parsed of None \<Rightarrow> st | Some st1 \<Rightarrow> st1)"
    by (simp_all add: stream_line_data fetch_line_data)
next
  assume a: "parse p = Some parsed \<and> p \<noteq> ''[DONE]''
        \<and> js_prop parsed ''search_results'' = Some (JArr xs)
        \<and> js_prop parsed ''success'' = None"
  then have "stream_parsed parsed = Some [object [(''type'', Some (JStr ''search_results'')),
                                               (''search_results'', Some (JArr xs))]]"
    "fetch_parsed num_str st parsed = Some (st\<lparr> searchResults := searchResults st @ xs \<rparr>)"
    by (simp_all add: parsed_results)
  then show "stream_line parse (''data: '' @ p)
        = [JObj [(''type'', JStr ''search_results''), (''search_results'', JArr xs)]]"
    "fetch_line parse num_str st (''data: '' @ p) = st\<lparr> searchResults := searchResults st @ xs \<rparr>"
    using a by (simp_all add: stream_line_data fetch_line_data object_def)
next
  assume a: "parse p = Some parsed \<and> p \<noteq> ''[DONE]''
        \<and> \<not> truthy_opt (js_prop parsed ''search_results'')
        \<and> js_prop parsed ''choices'' = Some (JArr (c0 # cs))
        \<and> js_prop c0 ''delta'' = Some delta
        \<and> js_prop delta ''content'' = Some (JStr s) \<and> s \<noteq> []"
  then have "stream_parsed parsed = Some [object [(''type'', Some (JStr ''content'')),
                                               (''content'', Some (JStr s)),
                                               (''finish_reason'', js_prop c0 ''finish_reason'')]]"
    "fetch_parsed num_str st parsed = Some (st\<lparr> fullContent := fullContent st @ s \<rparr>)"
    using parsed_content [of parsed c0 cs delta s] by blast+
  then show "stream_line parse (''data: '' @ p)
        = [object [(''type'', Some (JStr ''content'')), (''content'', Some (JStr s)),
                   (''finish_reason'', js_prop c0 ''finish_reason'')]]"
    "fetch_line parse num_str st (''data: '' @ p) = st\<lparr> fullContent := fullContent st @ s \<rparr>"
    using a by (simp_all add: stream_line_data fetch_line_data)
next
  assume a: "parse p = Some parsed \<and> p \<noteq> ''[DONE]''
        \<and> \<not> truthy_opt (js_prop parsed ''search_results'')
        \<and> \<not> truthy_opt (js_prop parsed ''choices'')
        \<and> js_prop parsed ''success'' \<noteq> None"
  then have "stream_parsed parsed = Some [object [(''type'', Some (JStr ''metadata'')),
                      (''tx_id'', js_prop parsed ''tx_id''),
                      (''original_query'', js_prop parsed ''original_query''),
                      (''contents'', js_prop parsed ''contents''),
                      (''search_results'', js_prop parsed ''search_results''),
                      (''search_metadata'', js_prop parsed ''search_metadata''),
                      (''ai_usage'', js_prop parsed ''ai_usage''),
                      (''cost'', js_prop parsed ''cost''),
                      (''extraction_metadata'', js_prop parsed ''extraction_metadata'')]]"
    "fetch_parsed num_str st parsed = Some (st\<lparr> finalMetadata := parsed \<rparr>)"
    using parsed_metadata [of parsed] by blast+
  then show "stream_line parse (''data: '' @ p)
        = [object [(''type'', Some (JStr ''metadata'')),
                   (''tx_id'', js_prop parsed ''tx_id''),
                   (''original_query'', js_prop parsed ''original_query''),
                   (''contents'', js_prop parsed ''contents''),
                   (''search_results'', js_prop parsed ''search_results''),
                   (''search_metadata'', js_prop parsed ''search_metadata''),
                   (''ai_usage'', js_prop parsed ''ai_usage''),
                   (''cost'', js_prop parsed ''cost''),
                   (''extraction_metadata'', js_prop parsed ''extraction_metadata'')]]"
    "fetch_line parse num_str st (''data: '' @ p) = st\<lparr> finalMetadata := parsed \<rparr>"
    using a by (simp_all add: stream_line_data fetch_line_data)
next
  assume a: "ok r \<and> body r = Some (chunks, ReadDone)
        \<and> fst (decode dec d0 (concat chunks)) = concat (map (\<lambda>l. l @ [nl]) ls) @ trailing
        \<and> (\<forall>l \<in> set ls. nl \<notin> set l) \<and> nl \<notin> set trailing"
  then have h: "fst (decode dec d0 (concat chunks)) = concat (map (\<lambda>l. l @ [nl]) ls) @ trailing"
    "\<forall>l \<in> set ls. nl \<notin> set l" "nl \<notin> set trailing" "ok r" "body r = Some (chunks, ReadDone)"
    by blast+
  show "streamAnswer dec d0 parse (FetchResponse r) = concat (map (stream_line parse) ls)"
    by (rule answer_complete_lines(1) [OF h])
  show "fetchAnswer dec d0 parse num_str q (FetchResponse r)
        = build_final q (foldl (fetch_line parse num_str) initial_state ls)"
    by (rule answer_complete_lines(2) [OF h])
qed

theorem sse_line_parser_witness:
  "stream_line answer_parse ''event: message'' = []
   \<and> fetch_line answer_parse (\<lambda>x. []) initial_state ''event: message'' = initial_state
   \<and> stream_line answer_parse ''data: {oops'' = []
   \<and> fetch_line answer_parse (\<lambda>x. []) initial_state ''data: {oops'' = initial_state
   \<and> stream_line answer_parse (''data: '' @ results_event_text)
       = [JObj [(''type'', JStr ''search_results''), (''search_results'', JArr [JStr ''r1''])]]
   \<and> fetch_line answer_parse (\<lambda>x. []) initial_state (''data: '' @ results_event_text)
       = \<lparr> fullContent = [], searchResults = [JStr ''r1''], finalMetadata = JObj [] \<rparr>
   \<and> stream_line answer_parse (''data: '' @ content_event_text)
       = [JObj [(''type'', JStr ''content''), (''content'', JStr ''Hi'')]]
   \<and> fetch_line answer_parse (\<lambda>x. [])
         \<lparr> fullContent = [], searchResults = [JStr ''r1''], finalMetadata = JObj [] \<rparr>
         (''data: '' @ content_event_text)
       = \<lparr> fullContent = ''Hi'', searchResults = [JStr ''r1''], finalMetadata = JObj [] \<rparr>
   \<and> stream_line answer_parse (''data: '' @ success_payload_text)
       = [JObj [(''type'', JStr ''metadata'')]]
   \<and> fetch_line answer_parse (\<lambda>x. [])
         \<lparr> fullContent = ''Hi'', searchResults = [JStr ''r1''], finalMetadata = JObj [] \<rparr>
         (''data: '' @ success_payload_text)
       = \<lparr> fullContent = ''Hi'', searchResults = [JStr ''r1''], finalMetadata = success_payload \<rparr>
   \<and> streamAnswer latin1 () answer_parse
         (sse_response [take 20 answer_stream, drop 20 answer_stream])
       = [JObj [(''type'', JStr ''search_results''), (''search_results'', JArr [JStr ''r1''])],
          JObj [(''type'', JStr ''content''), (''content'', JStr ''Hi'')],
          JObj [(''type'', JStr ''metadata'')],
          JObj [(''type'', JStr ''done'')]]
   \<and> fetchAnswer latin1 () answer_parse (\<lambda>x. []) None
         (sse_response [take 20 answer_stream, drop 20 answer_stream])
       = build_final None
           \<lparr> fullContent = ''Hi'', searchResults = [JStr ''r1''], finalMetadata = success_payload \<rparr>
   \<and> js_prop (build_final None
           \<lparr> fullContent = ''Hi'', searchResults = [JStr ''r1''], finalMetadata = success_payload \<rparr>)
         ''contents'' = Some (JStr ''Hi'')"
proof -
  let ?s1 = "\<lparr> fullContent = [], searchResults = [JStr ''r1''], finalMetadata = JObj [] \<rparr>"
  let ?s2 = "\<lparr> fullContent = ''Hi'', searchResults = [JStr ''r1''], finalMetadata = JObj [] \<rparr>"
  let ?s3 = "\<lparr> fullContent = ''Hi'', searchResults = [JStr ''r1''], finalMetadata = success_payload \<rparr>"
  let ?r = "\<lparr> ok = True, status = 200, json_body = None,
              body = Some ([take 20 answer_stream, drop 20 answer_stream], ReadDone) \<rparr>"
  note t = sse_line_parser [where parse = answer_parse and num_str = "\<lambda>x. []"]
  have e: "stream_line answer_parse ''event: message'' = []
           \<and> fetch_line answer_parse (\<lambda>x. []) initial_state ''event: message'' = initial_state"
    using t [where line = "''event: message''" and st = initial_state, THEN conjunct1] by simp
  have b: "stream_line answer_parse ''data: {oops'' = []
           \<and> fetch_line answer_parse (\<lambda>x. []) st ''data: {oops'' = st" for st
    using t [where payload = "''{oops''" and st = st, THEN conjunct2, THEN conjunct2,
             THEN conjunct2, THEN conjunct1]
    by (simp add: answer_parse_simps)
  have d: "stream_line answer_parse ''data: [DONE]'' = [JObj [(''type'', JStr ''done'')]]
           \<and> fetch_line answer_parse (\<lambda>x. []) st ''data: [DONE]'' = st" for st
    using t [where st = st, THEN conjunct2, THEN conjunct1]
          t [where st = st, THEN conjunct2, THEN conjunct2, THEN conjunct1]
    by simp
  have r: "stream_line answer_parse (''data: '' @ results_event_text)
             = [JObj [(''type'', JStr ''search_results''), (''search_results'', JArr [JStr ''r1''])]]
           \<and> fetch_line answer_parse (\<lambda>x. []) initial_state (''data: '' @ results_event_text) = ?s1"
    using t [where p = results_event_text and parsed = results_event and xs = "[JStr ''r1'']"
             and st = initial_state, THEN conjunct2, THEN conjunct2, THEN conjunct2, THEN conjunct2,
             THEN conjunct2, THEN conjunct1]
    by (simp add: answer_parse_simps answer_texts results_event_def initial_state_def)
  have c: "stream_line answer_parse (''data: '' @ content_event_text)
             = [JObj [(''type'', JStr ''content''), (''content'', JStr ''Hi'')]]
           \<and> fetch_line answer_parse (\<lambda>x. []) ?s1 (''data: '' @ content_event_text) = ?s2"
    using t [where p = content_event_text and parsed = content_event
             and ?c0.0 = "JObj [(''delta'', JObj [(''content'', JStr ''Hi'')])]" and cs = "[]"
             and delta = "JObj [(''content'', JStr ''Hi'')]" and s = "''Hi''"
             and st = ?s1, THEN conjunct2, THEN conjunct2, THEN conjunct2, THEN conjunct2,
             THEN conjunct2, THEN conjunct2, THEN conjunct1]
    by (simp add: answer_parse_simps answer_texts content_event_def object_def)
  have m: "stream_line answer_parse (''data: '' @ success_payload_text)
             = [JObj [(''type'', JStr ''metadata'')]]
           \<and> fetch_line answer_parse (\<lambda>x. []) ?s2 (''data: '' @ success_payload_text) = ?s3"
    using t [where p = success_payload_text and parsed = success_payload
             and st = ?s2, THEN conjunct2, THEN conjunct2, THEN conjunct2, THEN conjunct2,
             THEN conjunct2, THEN conjunct2, THEN conjunct2, THEN conjunct1]
    by (simp add: answer_parse_simps example_texts success_payload_def object_def)
  have dc: "fst (decode latin1 () (concat [take 20 answer_stream, drop 20 answer_stream]))
           = concat (map (\<lambda>l. l @ [nl]) answer_lines) @ ''data: '' @ content_event_text"
  proof -
    have "concat [take 20 answer_stream, drop 20 answer_stream] = answer_stream" by simp
    then show ?thesis by (simp only: decode_latin1 fst_conv answer_stream_def)
  qed
  have a: "streamAnswer latin1 () answer_parse (FetchResponse ?r)
             = concat (map (stream_line answer_parse) answer_lines)
           \<and> fetchAnswer latin1 () answer_parse (\<lambda>x. []) None (FetchResponse ?r)
             = build_final None (foldl (fetch_line answer_parse (\<lambda>x. [])) initial_state answer_lines)"
    using t [where dec = latin1 and ?d0.0 = "()" and r = ?r and q = None
             and chunks = "[take 20 answer_stream, drop 20 answer_stream]"
             and ls = answer_lines and trailing = "''data: '' @ content_event_text",
             THEN conjunct2, THEN conjunct2, THEN conjunct2, THEN conjunct2,
             THEN conjunct2, THEN conjunct2, THEN conjunct2, THEN conjunct2, THEN mp]
          dc answer_lines_complete
    by simp
  have sl: "concat (map (stream_line answer_parse) answer_lines)
       = [JObj [(''type'', JStr ''search_results''), (''search_results'', JArr [JStr ''r1''])],
          JObj [(''type'', JStr ''content''), (''content'', JStr ''Hi'')],
          JObj [(''type'', JStr ''metadata'')],
          JObj [(''type'', JStr ''done'')]]"
    using e b d r c m by (simp add: answer_lines_def)
  have fl: "foldl (fetch_line answer_parse (\<lambda>x. [])) initial_state answer_lines = ?s3"
    using e b d r c m by (simp add: answer_lines_def)
  have bf: "js_prop (build_final None ?s3) ''contents'' = Some (JStr ''Hi'')"
    by (simp add: build_final_def success_payload_def object_def or_else_def Let_def)
  show ?thesis
    using e b [of initial_state] r c m a sl fl bf by (simp add: sse_response_def)
qed

text \<open>
  C6 does not hold of the code. \<open>fetchAnswer\<close> takes a payload for search
  results when \<open>search_results\<close> is truthy and \<open>success\<close> is falsy,
  \<open>streamAnswer\<close> when \<open>search_results\<close> is truthy and \<open>success\<close> is
  \<open>undefined\<close>. On a final payload \<open>{"success": false, "error": "boom",
  "search_results": ["r1"]}\<close> the first collects search results and reports
  "Unknown error occurred", the second yields a metadata chunk; and on a payload
  with \<open>success: false\<close>, search results and a content delta "Hi", followed
  by \<open>{"success": true}\<close>, the first assembles the contents "" while the
  second yields a content chunk "Hi".
\<close>

theorem answer_paths_disagree:
  "fetch_parsed (\<lambda>x. []) initial_state failed_payload
     = Some (initial_state\<lparr> searchResults := [JStr ''r1''] \<rparr>)
   \<and> stream_parsed failed_payload
     = Some [JObj [(''type'', JStr ''metadata''), (''search_results'', JArr [JStr ''r1''])]]
   \<and> fetchAnswer latin1 () example_parse (\<lambda>x. []) None
        (sse_response [''data: '' @ failed_payload_text @ [nl]])
     = JObj [(''success'', JBool False), (''error'', JStr ''Unknown error occurred'')]
   \<and> streamAnswer latin1 () example_parse (sse_response [''data: '' @ failed_payload_text @ [nl]])
     = [JObj [(''type'', JStr ''metadata''), (''search_results'', JArr [JStr ''r1''])]]
   \<and> js_prop (fetchAnswer latin1 () example_parse (\<lambda>x. []) None
        (sse_response [''data: '' @ delta_payload_text @ [nl],
                       ''data: '' @ success_payload_text @ [nl]])) ''contents''
     = Some (JStr [])
   \<and> streamAnswer latin1 () example_parse
        (sse_response [''data: '' @ delta_payload_text @ [nl],
                       ''data: '' @ success_payload_text @ [nl]])
     = [JObj [(''type'', JStr ''content''), (''content'', JStr ''Hi'')],
        JObj [(''type'', JStr ''metadata'')]]"
proof -
  have n1: "\<forall>l \<in> set [''data: '' @ failed_payload_text]. nl \<notin> set l"
    and n2: "\<forall>l \<in> set [''data: '' @ delta_payload_text, ''data: '' @ success_payload_text]. nl \<notin> set l"
    using example_texts by (simp_all add: nl_def)
  have c1: "fetch_parsed (\<lambda>x. []) initial_state failed_payload
     = Some (initial_state\<lparr> searchResults := [JStr ''r1''] \<rparr>)"
    by (simp add: example_parsed initial_state_def)
  have c2: "stream_parsed failed_payload
     = Some [JObj [(''type'', JStr ''metadata''), (''search_results'', JArr [JStr ''r1''])]]"
    by (rule example_parsed)
  have c3: "fetchAnswer latin1 () example_parse (\<lambda>x. []) None
        (sse_response [''data: '' @ failed_payload_text @ [nl]])
     = JObj [(''success'', JBool False), (''error'', JStr ''Unknown error occurred'')]"
    using latin1_lines(2) [OF n1, where parse = example_parse and num_str = "\<lambda>x. []" and q = None]
    by (simp add: fetch_line_data example_texts example_parse_simps example_parsed
          build_final_def initial_state_def or_else_def)
  have c4: "streamAnswer latin1 () example_parse (sse_response [''data: '' @ failed_payload_text @ [nl]])
     = [JObj [(''type'', JStr ''metadata''), (''search_results'', JArr [JStr ''r1''])]]"
    using latin1_lines(1) [OF n1, where parse = example_parse]
    by (simp add: stream_line_data example_texts example_parse_simps example_parsed)
  have s2: "foldl (fetch_line example_parse (\<lambda>x. [])) initial_state
              [''data: '' @ delta_payload_text, ''data: '' @ success_payload_text]
            = initial_state\<lparr> searchResults := [JStr ''r1''], finalMetadata := success_payload \<rparr>"
    by (simp add: fetch_line_data example_texts example_parse_simps example_parsed initial_state_def)
  have f2: "fetchAnswer latin1 () example_parse (\<lambda>x. []) None
        (sse_response [''data: '' @ delta_payload_text @ [nl],
                       ''data: '' @ success_payload_text @ [nl]])
      = build_final None
          (initial_state\<lparr> searchResults := [JStr ''r1''], finalMetadata := success_payload \<rparr>)"
    using latin1_lines(2) [OF n2, where parse = example_parse and num_str = "\<lambda>x. []" and q = None] s2
    by simp
  have c5: "js_prop (fetchAnswer latin1 () example_parse (\<lambda>x. []) None
        (sse_response [''data: '' @ delta_payload_text @ [nl],
                       ''data: '' @ success_payload_text @ [nl]])) ''contents''
     = Some (JStr [])"
    unfolding f2
    by (simp add: build_final_def initial_state_def or_else_def object_def success_payload_def Let_def)
  have c6: "streamAnswer latin1 () example_parse
        (sse_response [''data: '' @ delta_payload_text @ [nl],
                       ''data: '' @ success_payload_text @ [nl]])
     = [JObj [(''type'', JStr ''content''), (''content'', JStr ''Hi'')],
        JObj [(''type'', JStr ''metadata'')]]"
    using latin1_lines(1) [OF n2, where parse = example_parse]
    by (simp add: stream_line_data example_texts example_parse_simps example_parsed)
  show ?thesis
    by (intro conjI) (rule c1 c2 c3 c4 c5 c6)+
qed

text \<open>
  C7, as amended. Validation failure produces no HTTP request. Whenever the
  validation of \<open>search\<close> rejects (a search type outside all, web, proprietary and news; a
  start or end date that does not match YYYY-MM-DD or is no date; maxNumResults
  outside 1..100; a source list that is no array or has an invalid element), and
  whenever the validation of \<open>contents\<close> rejects (urls no array, empty or
  longer than 10; an invalid extractEffort; an invalid responseLength), the
  method issues no request and returns success false with empty results and
  zero cost and character totals. A start date, an end date and an
  extractEffort are validated only when they are non-empty strings.
\<close>

theorem validation_failure_no_request:
  "(((\<exists>t. SearchOptions.searchType options = Some t
          \<and> toLowerCase t \<notin> {''all'', ''web'', ''proprietary'', ''news''})
     \<or> (\<exists>d. SearchOptions.startDate options = Some d \<and> d \<noteq> []
              \<and> \<not> (date_pattern d \<and> date_parses rt d))
     \<or> (\<exists>d. SearchOptions.endDate options = Some d \<and> d \<noteq> []
              \<and> \<not> (date_pattern d \<and> date_parses rt d))
     \<or> (\<exists>n. maxNumResults options = Some n \<and> (n < 1 \<or> 100 < n))
     \<or> (\<exists>v. SearchOptions.includedSources options = Some (NotArray v))
     \<or> (\<exists>xs. SearchOptions.includedSources options = Some (StringArray xs)
               \<and> \<not> list_all (validateSource rt) xs)
     \<or> (\<exists>v. excludeSources options = Some (NotArray v))
     \<or> (\<exists>xs. excludeSources options = Some (StringArray xs)
               \<and> \<not> list_all (validateSource rt) xs))
    \<longrightarrow> snd (search rt c http query options) = []
        \<and> js_prop (fst (search rt c http query options)) ''success'' = Some (JBool False)
        \<and> js_prop (fst (search rt c http query options)) ''results'' = Some (JArr [])
        \<and> js_prop (fst (search rt c http query options)) ''total_deduction_dollars'' = Some (JNum 0)
        \<and> js_prop (fst (search rt c http query options)) ''total_characters'' = Some (JNum 0))
   \<and> ((urls_arg = None
        \<or> (\<exists>v. urls_arg = Some (NotArray v))
        \<or> (\<exists>urls. urls_arg = Some (StringArray urls)
              \<and> (urls = [] \<or> 10 < length urls
                   \<or> (\<exists>e. extractEffort coptions = Some e \<and> e \<noteq> []
                            \<and> e \<notin> {''normal'', ''high'', ''auto''})
                   \<or> (\<exists>l. ContentsOptions.responseLength coptions = Some (JStr l)
                            \<and> l \<notin> {''short'', ''medium'', ''large'', ''max''})
                   \<or> (\<exists>n. ContentsOptions.responseLength coptions = Some (JNum n) \<and> n \<le> 0))))
    \<longrightarrow> snd (contents c http urls_arg coptions) = []
        \<and> js_prop (fst (contents c http urls_arg coptions)) ''success'' = Some (JBool False)
        \<and> js_prop (fst (contents c http urls_arg coptions)) ''results'' = Some (JArr [])
        \<and> js_prop (fst (contents c http urls_arg coptions)) ''total_cost_dollars'' = Some (JNum 0)
        \<and> js_prop (fst (contents c http urls_arg coptions)) ''total_characters'' = Some (JNum 0))"
proof (intro conjI impI)
  assume a: "(\<exists>t. SearchOptions.searchType options = Some t
          \<and> toLowerCase t \<notin> {''all'', ''web'', ''proprietary'', ''news''})
     \<or> (\<exists>d. SearchOptions.startDate options = Some d \<and> d \<noteq> []
              \<and> \<not> (date_pattern d \<and> date_parses rt d))
     \<or> (\<exists>d. SearchOptions.endDate options = Some d \<and> d \<noteq> []
              \<and> \<not> (date_pattern d \<and> date_parses rt d))
     \<or> (\<exists>n. maxNumResults options = Some n \<and> (n < 1 \<or> 100 < n))
     \<or> (\<exists>v. SearchOptions.includedSources options = Some (NotArray v))
     \<or> (\<exists>xs. SearchOptions.includedSources options = Some (StringArray xs)
               \<and> \<not> list_all (validateSource rt) xs)
     \<or> (\<exists>v. excludeSources options = Some (NotArray v))
     \<or> (\<exists>xs. excludeSources options = Some (StringArray xs)
               \<and> \<not> list_all (validateSource rt) xs)"
  have n: "snd (search rt c http query options) = []"
    unfolding search_no_request sources_error_None
    using a by (elim disjE exE conjE) (simp_all add: search_types_def bad_date_def validateDateFormat_def)
  then obtain msg where "fst (search rt c http query options) = search_failure query (Some (JStr msg))"
    using search_rejection by blast
  then show "snd (search rt c http query options) = []"
    "js_prop (fst (search rt c http query options)) ''success'' = Some (JBool False)"
    "js_prop (fst (search rt c http query options)) ''results'' = Some (JArr [])"
    "js_prop (fst (search rt c http query options)) ''total_deduction_dollars'' = Some (JNum 0)"
    "js_prop (fst (search rt c http query options)) ''total_characters'' = Some (JNum 0)"
    using n by (simp_all add: search_failure_fields)
next
  assume a: "urls_arg = None
        \<or> (\<exists>v. urls_arg = Some (NotArray v))
        \<or> (\<exists>urls. urls_arg = Some (StringArray urls)
              \<and> (urls = [] \<or> 10 < length urls
                   \<or> (\<exists>e. extractEffort coptions = Some e \<and> e \<noteq> []
                            \<and> e \<notin> {''normal'', ''high'', ''auto''})
                   \<or> (\<exists>l. ContentsOptions.responseLength coptions = Some (JStr l)
                            \<and> l \<notin> {''short'', ''medium'', ''large'', ''max''})
                   \<or> (\<exists>n. ContentsOptions.responseLength coptions = Some (JNum n) \<and> n \<le> 0)))"
  have "\<And>urls. urls_arg = Some (StringArray urls) \<Longrightarrow> contents_guard urls coptions"
    using a by (auto simp: contents_guard_def)
  then obtain msg x y where "contents c http urls_arg coptions = (contents_failure (JStr msg) x y, [])"
    using contents_rejection by blast
  then show "snd (contents c http urls_arg coptions) = []"
    "js_prop (fst (contents c http urls_arg coptions)) ''success'' = Some (JBool False)"
    "js_prop (fst (contents c http urls_arg coptions)) ''results'' = Some (JArr [])"
    "js_prop (fst (contents c http urls_arg coptions)) ''total_cost_dollars'' = Some (JNum 0)"
    "js_prop (fst (contents c http urls_arg coptions)) ''total_characters'' = Some (JNum 0)"
    by (simp_all add: contents_failure_fields)
qed

theorem validation_failure_no_request_witness:
  "snd (search example_runtime example_client server_ok ''q''
          (no_search_options\<lparr> searchType := Some ''Video'' \<rparr>)) = []
   \<and> js_prop (fst (search example_runtime example_client server_ok ''q''
          (no_search_options\<lparr> searchType := Some ''Video'' \<rparr>))) ''success'' = Some (JBool False)
   \<and> js_prop (fst (search example_runtime example_client server_ok ''q''
          (no_search_options\<lparr> searchType := Some ''Video'' \<rparr>))) ''results'' = Some (JArr [])
   \<and> snd (contents example_client server_ok (Some (StringArray [])) no_contents_options) = []
   \<and> js_prop (fst (contents example_client server_ok (Some (StringArray [])) no_contents_options))
         ''success'' = Some (JBool False)
   \<and> js_prop (fst (contents example_client server_ok (Some (StringArray [])) no_contents_options))
         ''total_cost_dollars'' = Some (JNum 0)"
  using validation_failure_no_request [where rt = example_runtime and c = example_client
          and http = server_ok and query = "''q''"
          and options = "no_search_options\<lparr> searchType := Some ''Video'' \<rparr>"
          and urls_arg = "Some (StringArray [])" and coptions = no_contents_options]
  by (simp add: no_search_options_def toLowerCase_def lower_char_def)

text \<open>
  C7 as stated fails for the empty string: it does not match YYYY-MM-DD and is
  no extractEffort, yet \<open>search\<close> with the start date or the end date \<open>""\<close>
  posts its request (with \<open>start_date: ""\<close> in the body) and returns the
  answer of the server, and \<open>contents\<close> with the extractEffort \<open>""\<close> posts
  its request.
\<close>

theorem empty_date_posted_counterexample:
  "\<not> date_pattern []
   \<and> snd (search example_runtime example_client server_ok ''q''
            (no_search_options\<lparr> SearchOptions.startDate := Some [] \<rparr>))
       = [axios_post example_client ''https://api.valyu.ai/v1/deepsearch''
            (search_payload ''q'' (no_search_options\<lparr> SearchOptions.startDate := Some [] \<rparr>))]
   \<and> js_prop (search_payload ''q'' (no_search_options\<lparr> SearchOptions.startDate := Some [] \<rparr>))
         ''start_date'' = Some (JStr [])
   \<and> js_prop (fst (search example_runtime example_client server_ok ''q''
            (no_search_options\<lparr> SearchOptions.startDate := Some [] \<rparr>))) ''success''
       = Some (JBool True)
   \<and> snd (search example_runtime example_client server_ok ''q''
            (no_search_options\<lparr> SearchOptions.endDate := Some [] \<rparr>))
       = [axios_post example_client ''https://api.valyu.ai/v1/deepsearch''
            (search_payload ''q'' (no_search_options\<lparr> SearchOptions.endDate := Some [] \<rparr>))]
   \<and> [] \<notin> {''normal'', ''high'', ''auto''}
   \<and> snd (contents example_client server_ok (Some (StringArray [''https://example.com'']))
            (no_contents_options\<lparr> extractEffort := Some [] \<rparr>))
       = [axios_post example_client ''https://api.valyu.ai/v1/contents''
            (contents_payload [''https://example.com'']
               (no_contents_options\<lparr> extractEffort := Some [] \<rparr>))]"
proof -
  have s: "snd (search example_runtime example_client server_ok ''q''
            (no_search_options\<lparr> SearchOptions.startDate := Some [] \<rparr>)) \<noteq> []"
    unfolding search_no_request
    by (simp add: no_search_options_def search_types_def bad_date_def sources_error_def)
  have e: "snd (search example_runtime example_client server_ok ''q''
            (no_search_options\<lparr> SearchOptions.endDate := Some [] \<rparr>)) \<noteq> []"
    unfolding search_no_request
    by (simp add: no_search_options_def search_types_def bad_date_def sources_error_def)
  have p: "js_prop (search_payload ''q'' (no_search_options\<lparr> SearchOptions.startDate := Some [] \<rparr>))
         ''start_date'' = Some (JStr [])"
    by (simp add: search_payload_fields no_search_options_def)
  have f: "js_prop (fst (search example_runtime example_client server_ok ''q''
            (no_search_options\<lparr> SearchOptions.startDate := Some [] \<rparr>))) ''success''
       = Some (JBool True)"
    by (simp add: search_def Let_def no_search_options_def search_types_def bad_date_def
          sources_error_def server_ok_def respond_def)
  have c: "snd (contents example_client server_ok (Some (StringArray [''https://example.com'']))
            (no_contents_options\<lparr> extractEffort := Some [] \<rparr>))
       = [axios_post example_client ''https://api.valyu.ai/v1/contents''
            (contents_payload [''https://example.com'']
               (no_contents_options\<lparr> extractEffort := Some [] \<rparr>))]"
    by (simp add: contents_def Let_def no_contents_options_def example_client_def)
  show ?thesis
    using search_request [OF s] search_request [OF e] p f c
    by (simp add: date_pattern_def example_client_def)
qed

text \<open>
  C8, as amended. A request that throws does not make a single-call operation
  reject. When the request of \<open>search\<close>, \<open>contents\<close>, a deepresearch
  operation (create, status, list, update, cancel, delete, togglePublic,
  getAssets), a batch operation (create, status, addTasks, listTasks, cancel,
  list) or a datasources operation throws \<open>e\<close>, the operation returns an
  object with \<open>success: false\<close> whose \<open>error\<close> is the \<open>error\<close> member of the
  response body when that member is truthy, and the message of \<open>e\<close>
  otherwise. The non-streaming answer returns \<open>success: false\<close> with the
  message of the exception, or "Request failed" when the message is empty,
  when \<open>fetch\<close> or reading the body throws; on a response that is not ok
  its \<open>error\<close> is the \<open>error\<close> member of the JSON body when truthy, and
  "HTTP Error: " followed by the status otherwise.
\<close>

theorem single_calls_resolve:
  "(throws_in http (search rt c http query soptions) e \<longrightarrow>
      failed_with (fst (search rt c http query soptions)) (axios_error e))
   \<and> (throws_in http (contents c http urls_arg coptions) e \<longrightarrow>
      failed_with (fst (contents c http urls_arg coptions)) (axios_error e))
   \<and> (throws_in http (deepresearchCreate c http options) e \<longrightarrow>
      failed_with (fst (deepresearchCreate c http options)) (axios_error e))
   \<and> (throws_in http (deepresearchStatus c http taskId) e \<longrightarrow>
      failed_with (fst (deepresearchStatus c http taskId)) (axios_error e))
   \<and> (throws_in http (deepresearchList rt c http loptions) e \<longrightarrow>
      failed_with (fst (deepresearchList rt c http loptions)) (axios_error e))
   \<and> (throws_in http (deepresearchUpdate c http taskId instruction) e \<longrightarrow>
      failed_with (fst (deepresearchUpdate c http taskId instruction)) (axios_error e))
   \<and> (throws_in http (deepresearchCancel c http taskId) e \<longrightarrow>
      failed_with (fst (deepresearchCancel c http taskId)) (axios_error e))
   \<and> (throws_in http (deepresearchDelete c http taskId) e \<longrightarrow>
      failed_with (fst (deepresearchDelete c http taskId)) (axios_error e))
   \<and> (throws_in http (deepresearchTogglePublic c http taskId isPublic) e \<longrightarrow>
      failed_with (fst (deepresearchTogglePublic c http taskId isPublic)) (axios_error e))
   \<and> (throws_in http (deepresearchGetAssets rt c http taskId assetId options) e \<longrightarrow>
      failed_with (fst (deepresearchGetAssets rt c http taskId assetId options)) (axios_error e))
   \<and> (throws_in http (batchCreate c http options) e \<longrightarrow>
      failed_with (fst (batchCreate c http options)) (axios_error e))
   \<and> (throws_in http (batchStatus c http batchId) e \<longrightarrow>
      failed_with (fst (batchStatus c http batchId)) (axios_error e))
   \<and> (throws_in http (batchAddTasks c http batchId options) e \<longrightarrow>
      failed_with (fst (batchAddTasks c http batchId options)) (axios_error e))
   \<and> (throws_in http (batchListTasks rt c http batchId options) e \<longrightarrow>
      failed_with (fst (batchListTasks rt c http batchId options)) (axios_error e))
   \<and> (throws_in http (batchCancel c http batchId) e \<longrightarrow>
      failed_with (fst (batchCancel c http batchId)) (axios_error e))
   \<and> (throws_in http (batchList rt c http options) e \<longrightarrow>
      failed_with (fst (batchList rt c http options)) (axios_error e))
   \<and> (throws_in http (datasourcesList rt c http options) e \<longrightarrow>
      failed_with (fst (datasourcesList rt c http options)) (axios_error e))
   \<and> (throws_in http (datasourcesCategories c http) e \<longrightarrow>
      failed_with (fst (datasourcesCategories c http)) (axios_error e))
   \<and> failed_with (fetchAnswer dec d0 parse num_str payload_query (FetchThrows e))
        (JStr (message_or e ''Request failed''))
   \<and> (ok r \<and> body r = Some (chunks, ReadThrows e) \<longrightarrow>
      failed_with (fetchAnswer dec d0 parse num_str payload_query (FetchResponse r))
        (JStr (message_or e ''Request failed'')))
   \<and> (\<not> ok r \<and> json_body r \<noteq> Some JNull \<longrightarrow>
      failed_with (fetchAnswer dec d0 parse num_str payload_query (FetchResponse r))
        (or_else (js_opt_prop (json_body r) ''error'')
           (JStr (''HTTP Error: '' @ nat_str (status r)))))
   \<and> (\<not> truthy_opt (response_error e) \<longrightarrow> axios_error e = JStr (message e))
   \<and> (truthy_opt (response_error e) \<longrightarrow> Some (axios_error e) = response_error e)"
proof -
  have f1: "failed_with (fetchAnswer dec d0 parse num_str payload_query (FetchThrows e))
        (JStr (message_or e ''Request failed''))"
    by (simp add: fetchAnswer_def failed_with_def error_response_def)
  have f2: "ok r \<and> body r = Some (chunks, ReadThrows e) \<longrightarrow>
      failed_with (fetchAnswer dec d0 parse num_str payload_query (FetchResponse r))
        (JStr (message_or e ''Request failed''))"
    by (simp add: fetchAnswer_def failed_with_def error_response_def)
  have f3: "\<not> ok r \<and> json_body r \<noteq> Some JNull \<longrightarrow>
      failed_with (fetchAnswer dec d0 parse num_str payload_query (FetchResponse r))
        (or_else (js_opt_prop (json_body r) ''error'')
           (JStr (''HTTP Error: '' @ nat_str (status r))))"
  proof (cases "json_body r")
    case None
    then show ?thesis
      by (simp add: fetchAnswer_def failed_with_def error_response_def http_error_text_def Let_def
            del: nat_str.simps)
  next
    case (Some j)
    then show ?thesis
      by (cases j)
         (simp_all add: fetchAnswer_def failed_with_def error_response_def http_error_text_def
            Let_def del: nat_str.simps)
  qed
  have e1: "\<not> truthy_opt (response_error e) \<longrightarrow> axios_error e = JStr (message e)"
    by (cases "response_error e") (simp_all add: axios_error_def or_else_def)
  have e2: "truthy_opt (response_error e) \<longrightarrow> Some (axios_error e) = response_error e"
    by (cases "response_error e") (simp_all add: axios_error_def or_else_def)
  show ?thesis
    apply (intro conjI impI)
    apply (erule search_throws)
    apply (erule contents_throws)
    apply (simp add: deepresearchCreate_def guarded_call_throws)
    apply (erule status_throws)
    apply (simp add: deepresearchList_def Let_def single_call_throws)
    apply (simp add: deepresearchUpdate_def guarded_call_throws)
    apply (simp add: deepresearchCancel_def single_call_throws)
    apply (simp add: deepresearchDelete_def single_call_throws)
    apply (simp add: deepresearchTogglePublic_def single_call_throws)
    apply (simp add: deepresearchGetAssets_def Let_def single_call_throws)
    apply (simp add: batchCreate_def single_call_throws)
    apply (erule status_throws)
    apply (erule batchAddTasks_throws)
    apply (simp add: batchListTasks_def Let_def single_call_throws)
    apply (simp add: batchCancel_def single_call_throws)
    apply (simp add: batchList_def single_call_throws)
    apply (simp add: datasourcesList_def single_call_throws)
    apply (simp add: datasourcesCategories_def single_call_throws)
    apply (rule f1)
    using f2 apply blast
    using f3 apply blast
    using e1 apply blast
    using e2 apply blast
    done
qed

theorem single_calls_resolve_witness:
  "failed_with
     (fst (deepresearchCancel example_client
             (\<lambda>req. AxiosThrows \<lparr> message = ''Network Error'', response_error = None \<rparr>) ''task-1''))
     (JStr ''Network Error'')
   \<and> failed_with
     (fst (search example_runtime example_client
             (\<lambda>req. AxiosThrows \<lparr> message = ''Request failed with status code 401'',
                                   response_error = Some (JStr ''Invalid API key'') \<rparr>)
             ''q'' no_search_options))
     (JStr ''Invalid API key'')
   \<and> failed_with
     (fetchAnswer latin1 () example_parse (\<lambda>x. []) None
        (FetchResponse \<lparr> ok = True, status = 200, json_body = None,
           body = Some ([''data: ''], ReadThrows \<lparr> message = ''terminated'', response_error = None \<rparr>) \<rparr>))
     (JStr ''terminated'')
   \<and> failed_with
     (fetchAnswer latin1 () example_parse (\<lambda>x. []) None
        (FetchResponse \<lparr> ok = False, status = 401,
           json_body = Some (JObj [(''error'', JStr ''Invalid API key'')]), body = None \<rparr>))
     (JStr ''Invalid API key'')"
proof -
  let ?e1 = "\<lparr> message = ''Network Error'', response_error = None \<rparr>"
  let ?e2 = "\<lparr> message = ''Request failed with status code 401'',
               response_error = Some (JStr ''Invalid API key'') \<rparr>"
  let ?e3 = "\<lparr> message = ''terminated'', response_error = None \<rparr>"
  let ?r = "\<lparr> ok = True, status = 200, json_body = None,
              body = Some ([''data: ''], ReadThrows ?e3) \<rparr>"
  let ?r4 = "\<lparr> ok = False, status = 401,
              json_body = Some (JObj [(''error'', JStr ''Invalid API key'')]),
              body = (None :: (char list list \<times> read_end) option) \<rparr>"
  have t1: "throws_in (\<lambda>req. AxiosThrows ?e1)
              (deepresearchCancel example_client (\<lambda>req. AxiosThrows ?e1) ''task-1'') ?e1"
    by (simp add: throws_in_def deepresearchCancel_def single_call_def)
  have n: "snd (search example_runtime example_client (\<lambda>req. AxiosThrows ?e2) ''q'' no_search_options)
           \<noteq> []"
    unfolding search_no_request
    by (simp add: no_search_options_def bad_date_def sources_error_def)
  have t2: "throws_in (\<lambda>req. AxiosThrows ?e2)
              (search example_runtime example_client (\<lambda>req. AxiosThrows ?e2) ''q'' no_search_options)
              ?e2"
    using search_request [OF n] by (simp add: throws_in_def)
  have t3: "ok ?r \<and> body ?r = Some ([''data: ''], ReadThrows ?e3)" by simp
  note w1 = single_calls_resolve [where http = "\<lambda>req. AxiosThrows ?e1" and e = ?e1
              and c = example_client and taskId = "''task-1''",
              THEN conjunct2, THEN conjunct2, THEN conjunct2, THEN conjunct2, THEN conjunct2, THEN conjunct2, THEN conjunct1]
  note w2 = single_calls_resolve [where http = "\<lambda>req. AxiosThrows ?e2" and e = ?e2
              and c = example_client and rt = example_runtime and query = "''q''"
              and soptions = no_search_options, THEN conjunct1]
  note w3 = single_calls_resolve [where e = ?e3 and r = ?r and chunks = "[''data: '']"
              and dec = latin1 and ?d0.0 = "()" and parse = example_parse
              and num_str = "\<lambda>x. []" and payload_query = None,
              THEN conjunct2, THEN conjunct2, THEN conjunct2, THEN conjunct2, THEN conjunct2, THEN conjunct2, THEN conjunct2, THEN conjunct2, THEN conjunct2, THEN conjunct2, THEN conjunct2, THEN conjunct2, THEN conjunct2, THEN conjunct2, THEN conjunct2, THEN conjunct2, THEN conjunct2, THEN conjunct2, THEN conjunct2, THEN conjunct1]
  note w4 = single_calls_resolve [where r = ?r4
              and dec = latin1 and ?d0.0 = "()" and parse = example_parse
              and num_str = "\<lambda>x. []" and payload_query = None,
              THEN conjunct2, THEN conjunct2, THEN conjunct2, THEN conjunct2, THEN conjunct2, THEN conjunct2, THEN conjunct2, THEN conjunct2, THEN conjunct2, THEN conjunct2, THEN conjunct2, THEN conjunct2, THEN conjunct2, THEN conjunct2, THEN conjunct2, THEN conjunct2, THEN conjunct2, THEN conjunct2, THEN conjunct2, THEN conjunct2, THEN conjunct1]
  have a: "failed_with
     (fst (deepresearchCancel example_client (\<lambda>req. AxiosThrows ?e1) ''task-1''))
     (JStr ''Network Error'')"
    using w1 t1 by (simp add: axios_error_def or_else_def)
  have b: "failed_with
     (fst (search example_runtime example_client (\<lambda>req. AxiosThrows ?e2) ''q'' no_search_options))
     (JStr ''Invalid API key'')"
    using w2 t2 by (simp add: axios_error_def or_else_def)
  have c: "failed_with (fetchAnswer latin1 () example_parse (\<lambda>x. []) None (FetchResponse ?r))
     (JStr ''terminated'')"
    using w3 t3 by (simp add: message_or_def)
  have d: "failed_with (fetchAnswer latin1 () example_parse (\<lambda>x. []) None (FetchResponse ?r4))
     (JStr ''Invalid API key'')"
    using w4 by (simp add: or_else_def)
  show ?thesis using a b c d by blast
qed

text \<open>
  C8 as stated fails: the \<open>error\<close> is no string when the body's \<open>error\<close>
  member is an object, and the non-streaming answer reports an HTTP error
  without a body as "HTTP Error: 500" and an exception without message as
  "Request failed", neither being a member of the body or the message of an
  exception.
\<close>

theorem error_not_message_counterexample:
  "js_prop (fst (search example_runtime example_client
             (\<lambda>req. AxiosThrows \<lparr> message = ''Request failed with status code 422'',
                                   response_error = Some (JObj [(''code'', JNum 42)]) \<rparr>)
             ''q'' no_search_options)) ''error''
     = Some (JObj [(''code'', JNum 42)])
   \<and> fetchAnswer latin1 () example_parse (\<lambda>x. []) None
     (FetchResponse \<lparr> ok = False, status = 500, json_body = None, body = None \<rparr>)
     = JObj [(''success'', JBool False), (''error'', JStr ''HTTP Error: 500'')]
   \<and> fetchAnswer latin1 () example_parse (\<lambda>x. []) None
     (FetchThrows \<lparr> message = [], response_error = None \<rparr>)
     = JObj [(''success'', JBool False), (''error'', JStr ''Request failed'')]"
proof -
  have s: "js_prop (fst (search example_runtime example_client
             (\<lambda>req. AxiosThrows \<lparr> message = ''Request failed with status code 422'',
                                   response_error = Some (JObj [(''code'', JNum 42)]) \<rparr>)
             ''q'' no_search_options)) ''error''
     = Some (JObj [(''code'', JNum 42)])"
    by (simp add: search_def Let_def no_search_options_def bad_date_def sources_error_def
          search_failure_fields or_else_def)
  show ?thesis
    using s
    by (simp add: fetchAnswer_def error_response_def message_or_def http_error_text_def
          or_else_def nat_str_500)
qed

text \<open>
  C9. Payload shaping. Whenever \<open>search\<close> posts a body (the input is valid),
  the body goes to \<open>/deepsearch\<close> and has \<open>query\<close>, \<open>search_type\<close> (the
  lower-cased search type, "all" by default), \<open>max_num_results\<close> (10 by
  default), \<open>is_tool_call\<close> (true by default) and \<open>relevance_threshold\<close>
  (0.5 by default), and each optional key if and only if its option was
  provided; the payload of \<open>answer\<close> has the trimmed query.
\<close>

theorem search_payload_shape:
  "(snd (search rt c http query options) \<noteq> [] \<longrightarrow>
     (\<exists>req p. snd (search rt c http query options) = [req]
        \<and> http_method req = ''POST'' \<and> url req = baseUrl c @ ''/deepsearch''
        \<and> req_body req = Some p
        \<and> js_prop p ''query'' = Some (JStr query)
        \<and> js_prop p ''search_type''
            = Some (JStr (case SearchOptions.searchType options of
                            None \<Rightarrow> ''all'' | Some t \<Rightarrow> toLowerCase t))
        \<and> js_prop p ''max_num_results''
            = Some (JNum (case maxNumResults options of None \<Rightarrow> 10 | Some n \<Rightarrow> n))
        \<and> js_prop p ''is_tool_call''
            = Some (JBool (case isToolCall options of None \<Rightarrow> True | Some b \<Rightarrow> b))
        \<and> js_prop p ''relevance_threshold''
            = Some (JNum (case relevanceThreshold options of None \<Rightarrow> 0.5 | Some t \<Rightarrow> t))
        \<and> (js_prop p ''max_price'' \<noteq> None) = (maxPrice options \<noteq> None)
        \<and> (js_prop p ''included_sources'' \<noteq> None)
            = (SearchOptions.includedSources options \<noteq> None)
        \<and> (js_prop p ''exclude_sources'' \<noteq> None) = (excludeSources options \<noteq> None)
        \<and> (js_prop p ''category'' \<noteq> None) = (category options \<noteq> None)
        \<and> (js_prop p ''start_date'' \<noteq> None) = (SearchOptions.startDate options \<noteq> None)
        \<and> (js_prop p ''end_date'' \<noteq> None) = (SearchOptions.endDate options \<noteq> None)
        \<and> (js_prop p ''country_code'' \<noteq> None) = (SearchOptions.countryCode options \<noteq> None)
        \<and> (js_prop p ''response_length'' \<noteq> None)
            = (SearchOptions.responseLength options \<noteq> None)
        \<and> (js_prop p ''fast_mode'' \<noteq> None) = (SearchOptions.fastMode options \<noteq> None)
        \<and> (js_prop p ''url_only'' \<noteq> None) = (urlOnly options \<noteq> None)))
   \<and> js_prop (buildAnswerPayload aquery aoptions) ''query'' = Some (JStr (trim aquery))"
proof (intro conjI impI)
  assume a: "snd (search rt c http query options) \<noteq> []"
  have r: "snd (search rt c http query options) =
           [axios_post c (baseUrl c @ ''/deepsearch'') (search_payload query options)]"
    using a by (rule search_request)
  have "\<not> (case map_option toLowerCase (SearchOptions.searchType options) of
            None \<Rightarrow> False | Some t \<Rightarrow> t \<notin> set search_types)"
    using a search_no_request [of rt c http query options] by blast
  then have t: "finalSearchType (SearchOptions.searchType options)
      = (case SearchOptions.searchType options of None \<Rightarrow> ''all'' | Some t \<Rightarrow> toLowerCase t)"
    by (cases "SearchOptions.searchType options") (simp_all add: finalSearchType_def)
  show "\<exists>req p. snd (search rt c http query options) = [req]
        \<and> http_method req = ''POST'' \<and> url req = baseUrl c @ ''/deepsearch''
        \<and> req_body req = Some p
        \<and> js_prop p ''query'' = Some (JStr query)
        \<and> js_prop p ''search_type''
            = Some (JStr (case SearchOptions.searchType options of
                            None \<Rightarrow> ''all'' | Some t \<Rightarrow> toLowerCase t))
        \<and> js_prop p ''max_num_results''
            = Some (JNum (case maxNumResults options of None \<Rightarrow> 10 | Some n \<Rightarrow> n))
        \<and> js_prop p ''is_tool_call''
            = Some (JBool (case isToolCall options of None \<Rightarrow> True | Some b \<Rightarrow> b))
        \<and> js_prop p ''relevance_threshold''
            = Some (JNum (case relevanceThreshold options of None \<Rightarrow> 0.5 | Some t \<Rightarrow> t))
        \<and> (js_prop p ''max_price'' \<noteq> None) = (maxPrice options \<noteq> None)
        \<and> (js_prop p ''included_sources'' \<noteq> None)
            = (SearchOptions.includedSources options \<noteq> None)
        \<and> (js_prop p ''exclude_sources'' \<noteq> None) = (excludeSources options \<noteq> None)
        \<and> (js_prop p ''category'' \<noteq> None) = (category options \<noteq> None)
        \<and> (js_prop p ''start_date'' \<noteq> None) = (SearchOptions.startDate options \<noteq> None)
        \<and> (js_prop p ''end_date'' \<noteq> None) = (SearchOptions.endDate options \<noteq> None)
        \<and> (js_prop p ''country_code'' \<noteq> None) = (SearchOptions.countryCode options \<noteq> None)
        \<and> (js_prop p ''response_length'' \<noteq> None)
            = (SearchOptions.responseLength options \<noteq> None)
        \<and> (js_prop p ''fast_mode'' \<noteq> None) = (SearchOptions.fastMode options \<noteq> None)
        \<and> (js_prop p ''url_only'' \<noteq> None) = (urlOnly options \<noteq> None)"
    unfolding r by (simp add: axios_post_def search_payload_fields t)
next
  show "js_prop (buildAnswerPayload aquery aoptions) ''query'' = Some (JStr (trim aquery))"
    by (rule buildAnswerPayload_query)
qed

theorem search_payload_shape_witness:
  "(\<exists>req p. snd (search example_runtime example_client server_ok ''solar cells''
                  (no_search_options\<lparr> searchType := Some ''WEB'', maxPrice := Some 30 \<rparr>)) = [req]
      \<and> url req = ''https://api.valyu.ai/v1/deepsearch''
      \<and> req_body req = Some p
      \<and> js_prop p ''query'' = Some (JStr ''solar cells'')
      \<and> js_prop p ''search_type'' = Some (JStr ''web'')
      \<and> js_prop p ''max_num_results'' = Some (JNum 10)
      \<and> js_prop p ''is_tool_call'' = Some (JBool True)
      \<and> js_prop p ''relevance_threshold'' = Some (JNum 0.5)
      \<and> js_prop p ''max_price'' \<noteq> None
      \<and> js_prop p ''category'' = None)
   \<and> js_prop (buildAnswerPayload ''  why is the sky blue? '' no_answer_options) ''query''
       = Some (JStr ''why is the sky blue?'')"
proof -
  have v: "snd (search example_runtime example_client server_ok ''solar cells''
                  (no_search_options\<lparr> searchType := Some ''WEB'', maxPrice := Some 30 \<rparr>)) \<noteq> []"
    unfolding search_no_request
    by (simp add: no_search_options_def toLowerCase_def lower_char_def search_types_def
          bad_date_def sources_error_def)
  have t: "trim ''  why is the sky blue? '' = ''why is the sky blue?''"
    by (simp add: trim_def is_space_def)
  show ?thesis
    using v t search_payload_shape [where rt = example_runtime and c = example_client
          and http = server_ok and query = "''solar cells''"
          and options = "no_search_options\<lparr> searchType := Some ''WEB'', maxPrice := Some 30 \<rparr>"
          and aquery = "''  why is the sky blue? ''" and aoptions = no_answer_options]
    by (simp add: no_search_options_def toLowerCase_def lower_char_def example_client_def) blast
qed

end
